theory Spec2Isabelle
  imports Complex_Main "HOL-Library.Log_Nat"
begin

section \<open>Data model of space\_shooter.js\<close>

text \<open>
  Positions, speeds and sizes are exact reals; the numbers of the scheduler and of the
  projectile gate (the timestamps, the fixed step, \<open>delta_time\<close>, \<open>masterTime\<close>,
  \<open>projShotTime\<close> and the two alive counts) are binary64 values, and every operation on them
  rounds as the section on binary64 arithmetic below says. Counters that the script only
  ever increments by one from zero are naturals, and the player's health is an integer.
  Every body receives a fresh id from \<open>running_id\<close>, so the objects other than the player
  are kept in a store addressed by id, and the registry \<open>entities\<close> is the ascending list of
  the keys it currently holds (the order in which \<open>Object.values\<close> visits them).
\<close>

record point =
  px :: real
  py :: real

record Body =
  ident :: nat
  position :: point
  velocity :: point
  bsize :: point
  health :: int

record Enemy = Body +
  enemy_speed :: real

record Projectile = Body +
  projectile_speed :: real
  projectile :: point

record controller_state =
  move_x :: int
  move_y :: int
  action_1 :: bool

record Player = Body +
  controller :: controller_state
  raw_input :: "nat set"
  speed :: real
  enemyTimer :: nat
  projectileReady :: bool
  color :: string
  hit :: int
  enemies :: "point option list"
  projectiles :: "point option list"

datatype entity = EnemyE Enemy | ProjectileE Projectile

record world =
  last_time :: "real option"
  loop_count :: nat
  running_id :: nat
  enemiesHit :: nat
  enemyCount :: nat
  masterTime :: real
  timeAliveCount :: real
  prevAliveCount :: real
  currerntHighScore :: int
  masterHighScore :: int
  projShotTime :: real
  entities :: "nat list"
  objects :: "nat \<rightharpoonup> entity"
  queued_entities_for_removal :: "nat list"
  player :: Player
  enemy_spawner :: "nat option"

datatype call = CallUpdate real | CallDraw | CallRequestAnimationFrame

definition canvas_width :: real where
  "canvas_width = 360"

definition canvas_height :: real where
  "canvas_height = 500"

section \<open>Binary64 arithmetic\<close>

text \<open>
  A finite binary64 number is \<open>m * 2 ^ e\<close> with \<open>\<bar>m\<bar> < 2 ^ 53\<close> and \<open>- 1074 \<le> e \<le> 971\<close>.
  \<open>binade x\<close> is the exponent \<open>k\<close> with \<open>2 ^ k \<le> \<bar>x\<bar> < 2 ^ (k + 1)\<close>, computed from the bit
  length of the integer part of \<open>\<bar>x\<bar>\<close> or of its inverse; \<open>ulp x\<close> is the distance of the
  binary64 numbers around \<open>x\<close>, which stops shrinking at the subnormal numbers; and \<open>fl x\<close>
  is the binary64 number nearest to \<open>x\<close>, the one with the even significand when two are
  equally near. An arithmetic operation of JavaScript is the exact operation followed by
  \<open>fl\<close>. The infinities are not represented: the timestamps of the animation frames are
  finite and are divided by 1000 before anything is added to them, so no result here
  reaches \<open>2 ^ 1024\<close>.
\<close>

definition binade :: "real \<Rightarrow> int" where
  "binade x =
     (if 1 \<le> \<bar>x\<bar> then bitlen \<lfloor>\<bar>x\<bar>\<rfloor> - 1 else - bitlen (\<lceil>1 / \<bar>x\<bar>\<rceil> - 1))"

definition ulp :: "real \<Rightarrow> real" where
  "ulp x = 2 powi (max (binade x) (- 1022) - 52)"

definition round_even :: "real \<Rightarrow> int" where
  "round_even q =
     (let n = \<lfloor>q\<rfloor>; r = q - of_int n
      in if r < 1 / 2 then n else if 1 / 2 < r then n + 1 else if even n then n else n + 1)"

definition fl :: "real \<Rightarrow> real" where
  "fl x = of_int (round_even (x / ulp x)) * ulp x"

definition fadd :: "real \<Rightarrow> real \<Rightarrow> real" where
  "fadd x y = fl (x + y)"

definition fsub :: "real \<Rightarrow> real \<Rightarrow> real" where
  "fsub x y = fl (x - y)"

definition fmul :: "real \<Rightarrow> real \<Rightarrow> real" where
  "fmul x y = fl (x * y)"

definition fdiv :: "real \<Rightarrow> real \<Rightarrow> real" where
  "fdiv x y = fl (x / y)"

text \<open>\<open>config.update_rate.seconds = 1 / config.update_rate.fps\<close>, with 60 frames per second.\<close>

definition update_rate_seconds :: real where
  "update_rate_seconds = fdiv 1 60"

section \<open>JavaScript primitives\<close>

definition Math_round :: "real \<Rightarrow> int" where
  "Math_round v = \<lfloor>v + 1 / 2\<rfloor>"

definition js_rem :: "int \<Rightarrow> int \<Rightarrow> int" where
  "js_rem a b = sgn a * (\<bar>a\<bar> mod \<bar>b\<bar>)"

text \<open>Writing \<open>a[i] = v\<close> beyond the end of an array extends it with holes.\<close>

definition array_set :: "'a option list \<Rightarrow> nat \<Rightarrow> 'a \<Rightarrow> 'a option list" where
  "array_set xs i v =
     (if i < length xs then xs[i := Some v]
      else xs @ replicate (i - length xs) None @ [Some v])"

text \<open>\<open>a.splice(i, 1)\<close>: drops the slot at index \<open>i\<close>, if there is one.\<close>

definition splice1 :: "'a list \<Rightarrow> nat \<Rightarrow> 'a list" where
  "splice1 xs i = take i xs @ drop (Suc i) xs"

text \<open>The slots an array callback visits: holes are skipped.\<close>

definition present :: "'a option list \<Rightarrow> 'a list" where
  "present xs = List.map_filter (\<lambda>v. v) xs"

definition clip :: "real \<Rightarrow> real \<Rightarrow> real" where
  "clip v hi = min (max 0 v) hi"

section \<open>InputHandler\<close>

definition pollController :: "nat set \<Rightarrow> controller_state" where
  "pollController raw =
     \<lparr> move_x = (if 65 \<in> raw then - 1 else 0) + (if 68 \<in> raw then 1 else 0),
       move_y = (if 83 \<in> raw then 1 else 0) + (if 87 \<in> raw then - 1 else 0),
       action_1 = (32 \<in> raw) \<rparr>"

section \<open>Body\<close>

definition isDead :: "'a Body_scheme \<Rightarrow> bool" where
  "isDead b = (health b \<le> 0)"

definition Body_update :: "real \<Rightarrow> 'a Body_scheme \<Rightarrow> 'a Body_scheme" where
  "Body_update delta_time b =
     b\<lparr>position := \<lparr> px = px (position b) + delta_time * px (velocity b),
                      py = py (position b) + delta_time * py (velocity b) \<rparr>\<rparr>"

definition remove :: "nat \<Rightarrow> world \<Rightarrow> world" where
  "remove i w = w\<lparr>queued_entities_for_removal := queued_entities_for_removal w @ [i]\<rparr>"

text \<open>The constructor of \<open>Body\<close>: the next id, and the new key in the registry.\<close>

definition register :: "world \<Rightarrow> world" where
  "register w = w\<lparr>running_id := Suc (running_id w), entities := entities w @ [running_id w]\<rparr>"

section \<open>Constructors\<close>

text \<open>
  \<open>Math.random()\<close> is an input of the model: \<open>rnd i\<close> is the number it returns while the
  enemy with id \<open>i\<close> is constructed.
\<close>

definition Enemy_fields :: "(nat \<Rightarrow> real) \<Rightarrow> nat \<Rightarrow> Enemy" where
  "Enemy_fields rnd i =
     \<lparr> ident = i,
       position = \<lparr> px = of_int \<lfloor>rnd i * 260\<rfloor> + 30, py = - 50 \<rparr>,
       velocity = \<lparr> px = 0, py = 0 \<rparr>,
       bsize = \<lparr> px = 10, py = 10 \<rparr>,
       health = 100,
       enemy_speed = 3 \<rparr>"

definition Enemy_new :: "(nat \<Rightarrow> real) \<Rightarrow> world \<Rightarrow> world" where
  "Enemy_new rnd w =
     (register w)\<lparr>objects := (objects w)(running_id w \<mapsto> EnemyE (Enemy_fields rnd (running_id w)))\<rparr>"

text \<open>A projectile starts where the global \<open>player\<close> is.\<close>

definition Projectile_fields :: "nat \<Rightarrow> point \<Rightarrow> Projectile" where
  "Projectile_fields i pp =
     \<lparr> ident = i,
       position = \<lparr> px = 0, py = 0 \<rparr>,
       velocity = \<lparr> px = 0, py = 0 \<rparr>,
       bsize = \<lparr> px = 10, py = 10 \<rparr>,
       health = 100,
       projectile_speed = 5,
       projectile = \<lparr> px = px pp, py = py pp \<rparr> \<rparr>"

definition Projectile_new :: "world \<Rightarrow> world" where
  "Projectile_new w =
     (register w)\<lparr>objects := (objects w)(running_id w \<mapsto>
        ProjectileE (Projectile_fields (running_id w) (position (player w))))\<rparr>"

text \<open>The object \<open>new Player()\<close> builds when it is given the id \<open>i\<close>.\<close>

definition Player_fields :: "nat \<Rightarrow> Player" where
  "Player_fields i =
     \<lparr> ident = i,
       position = \<lparr> px = canvas_width / 2, py = canvas_height - 100 \<rparr>,
       velocity = \<lparr> px = 0, py = 0 \<rparr>,
       bsize = \<lparr> px = 10, py = 10 \<rparr>,
       health = 100,
       controller = \<lparr> move_x = 0, move_y = 0, action_1 = False \<rparr>,
       raw_input = {},
       speed = 2,
       enemyTimer = 0,
       projectileReady = False,
       color = ''#90EE90'',
       hit = 0,
       enemies = [],
       projectiles = [] \<rparr>"

definition Player_new :: "world \<Rightarrow> world" where
  "Player_new w = (register w)\<lparr>player := Player_fields (running_id w)\<rparr>"

section \<open>Player.update\<close>

definition Player_flash :: "Player \<Rightarrow> Player" where
  "Player_flash p =
     (if hit p \<noteq> 0 \<and> health p > 0 then
        (let h = hit p - 1 in
         p\<lparr>hit := h,
           color := (if h > 80 \<or> (h > 40 \<and> h < 60) \<or> (h < 20 \<and> h > 2)
                     then ''#FF0000'' else ''#90EE90'')\<rparr>)
      else p\<lparr>color := ''#90EE90''\<rparr>)"

definition shift :: "real \<Rightarrow> real \<Rightarrow> 'a Body_scheme \<Rightarrow> 'a Body_scheme" where
  "shift dx dy b = b\<lparr>position := \<lparr> px = px (position b) + dx, py = py (position b) + dy \<rparr>\<rparr>"

definition Player_move :: "Player \<Rightarrow> Player" where
  "Player_move p =
     (let diagonalSpeed = sqrt ((speed p * speed p) / 2);
          mx = move_x (controller p);
          my = move_y (controller p)
      in if mx = 1 \<and> my = - 1 then shift diagonalSpeed (- diagonalSpeed) p
         else if mx = - 1 \<and> my = - 1 then shift (- diagonalSpeed) (- diagonalSpeed) p
         else if mx = - 1 \<and> my = 1 then shift (- diagonalSpeed) diagonalSpeed p
         else if mx = 1 \<and> my = 1 then shift diagonalSpeed diagonalSpeed p
         else if mx = - 1 then shift (- speed p) 0 p
         else if mx = 1 then shift (speed p) 0 p
         else if my = - 1 then shift 0 (- speed p) p
         else if my = 1 then shift 0 (speed p) p
         else p)"

definition clip_position :: "real \<Rightarrow> real \<Rightarrow> 'a Body_scheme \<Rightarrow> 'a Body_scheme" where
  "clip_position w h b =
     b\<lparr>position := \<lparr> px = clip (px (position b)) w, py = clip (py (position b)) h \<rparr>\<rparr>"

definition Player_spawn :: "(nat \<Rightarrow> real) \<Rightarrow> world \<Rightarrow> world" where
  "Player_spawn rnd w =
     (let w1 = w\<lparr>player := (player w)\<lparr>enemyTimer := enemyTimer (player w) + 1\<rparr>\<rparr>
      in if enemyTimer (player w1) mod 20 = 0
         then Enemy_new rnd (w1\<lparr>enemyCount := enemyCount w1 + 1\<rparr>)
         else w1)"

definition Player_arm :: "world \<Rightarrow> world" where
  "Player_arm w =
     (if enemyTimer (player w) mod 40 = 0 \<and> \<not> projectileReady (player w)
      then w\<lparr>player := (player w)\<lparr>projectileReady := True\<rparr>\<rparr>
      else w)"

definition Player_fire :: "world \<Rightarrow> world" where
  "Player_fire w =
     (if action_1 (controller (player w)) \<and> projectileReady (player w) then
        (if masterTime w > fadd (projShotTime w) (1 / 2) then
           (let w1 = Projectile_new (w\<lparr>projShotTime := masterTime w\<rparr>)
            in w1\<lparr>player := (player w1)\<lparr>projectileReady := False\<rparr>\<rparr>)
         else w)
      else w)"

definition Player_update :: "(nat \<Rightarrow> real) \<Rightarrow> real \<Rightarrow> world \<Rightarrow> world" where
  "Player_update rnd delta_time w =
     (let w1 = Player_fire (Player_arm (Player_spawn rnd w))
      in w1\<lparr>player :=
           clip_position canvas_width canvas_height
             (Body_update delta_time (Player_move (Player_flash (player w1))))\<rparr>)"

section \<open>Enemy.update\<close>

text \<open>The proximity test both collision passes use, with half-width \<open>r\<close>.\<close>

definition near :: "real \<Rightarrow> point \<Rightarrow> point \<Rightarrow> bool" where
  "near r a b =
     ((px a + r \<ge> px b \<and> px a - r \<le> px b) \<and> (py a + r \<ge> py b \<and> py a - r \<le> py b))"

definition Enemy_homing :: "point \<Rightarrow> Enemy \<Rightarrow> bool" where
  "Enemy_homing pp e =
     (py pp - py (position e) < 150 \<and> py pp - py (position e) > 0 \<and>
      js_rem (Math_round (py (position e))) 4 = 0)"

definition Enemy_move :: "point \<Rightarrow> Enemy \<Rightarrow> Enemy" where
  "Enemy_move pp e =
     (let diagonalSpeed = sqrt ((enemy_speed e * enemy_speed e) / 2) * 2
      in if Enemy_homing pp e then
           (if px pp > px (position e)
            then shift (diagonalSpeed / 1.5) (diagonalSpeed / 1.5) e
            else shift (- (diagonalSpeed / 1.5)) (diagonalSpeed / 1.5) e)
         else shift 0 (enemy_speed e) e)"

definition remove_if_player_dead :: "nat \<Rightarrow> world \<Rightarrow> world" where
  "remove_if_player_dead i w = (if health (player w) = 0 then remove i w else w)"

definition publish_enemy :: "Enemy \<Rightarrow> world \<Rightarrow> world" where
  "publish_enemy e w =
     w\<lparr>player := (player w)\<lparr>enemies :=
          array_set (enemies (player w)) (ident e)
            \<lparr> px = px (position e), py = py (position e) \<rparr>\<rparr>\<rparr>"

definition Enemy_bug_fix :: "Enemy \<Rightarrow> world \<Rightarrow> world" where
  "Enemy_bug_fix e w = (if ident e = 1 then remove (ident e) w else w)"

definition Enemy_exit_view :: "Enemy \<Rightarrow> world \<Rightarrow> world" where
  "Enemy_exit_view e w = (if py (position e) > 500 then remove (ident e) w else w)"

definition Enemy_hit_by_projectiles :: "Enemy \<Rightarrow> world \<Rightarrow> world" where
  "Enemy_hit_by_projectiles e w =
     fold (\<lambda>prj v. if near 10 (position e) prj then remove (ident e) v else v)
       (present (projectiles (player w))) w"

definition Enemy_hit_player :: "Enemy \<Rightarrow> world \<Rightarrow> world" where
  "Enemy_hit_player e w =
     (if near 10 (position e) (position (player w))
      then remove (ident e)
             (w\<lparr>player := (player w)\<lparr>hit := 100, health := health (player w) - 25\<rparr>\<rparr>)
      else w)"

definition Enemy_update :: "real \<Rightarrow> Enemy \<Rightarrow> world \<Rightarrow> Enemy \<times> world" where
  "Enemy_update delta_time e w =
     (let w1 = Enemy_bug_fix e (publish_enemy e (remove_if_player_dead (ident e) w));
          e1 = Enemy_move (position (player w1)) e;
          w2 = Enemy_hit_player e1 (Enemy_hit_by_projectiles e1 (Enemy_exit_view e1 w1))
      in (clip_position (canvas_width + 50) (canvas_height + 50) (Body_update delta_time e1), w2))"

section \<open>Projectile.update\<close>

definition publish_projectile :: "Projectile \<Rightarrow> world \<Rightarrow> world" where
  "publish_projectile q w =
     w\<lparr>player := (player w)\<lparr>projectiles :=
          array_set (projectiles (player w)) (ident q)
            \<lparr> px = px (projectile q), py = py (projectile q) \<rparr>\<rparr>\<rparr>"

definition Projectile_move :: "Projectile \<Rightarrow> Projectile" where
  "Projectile_move q =
     q\<lparr>projectile := (projectile q)\<lparr>py := py (projectile q) - projectile_speed q\<rparr>\<rparr>"

definition Projectile_exit_view :: "Projectile \<Rightarrow> world \<Rightarrow> world" where
  "Projectile_exit_view q w = (if py (projectile q) < 0 then remove (ident q) w else w)"

definition Projectile_hit_enemies :: "Projectile \<Rightarrow> world \<Rightarrow> world" where
  "Projectile_hit_enemies q w =
     fold (\<lambda>enemy v. if near 8 (projectile q) enemy
                      then remove (ident q) (v\<lparr>enemiesHit := enemiesHit v + 1\<rparr>) else v)
       (present (enemies (player w))) w"

definition Projectile_clip :: "Projectile \<Rightarrow> Projectile" where
  "Projectile_clip q =
     q\<lparr>projectile := \<lparr> px = clip (px (projectile q)) canvas_width,
                        py = clip (py (projectile q)) canvas_height \<rparr>\<rparr>"

definition Projectile_update :: "real \<Rightarrow> Projectile \<Rightarrow> world \<Rightarrow> Projectile \<times> world" where
  "Projectile_update delta_time q w =
     (let w1 = publish_projectile q (remove_if_player_dead (ident q) w);
          q1 = Projectile_move q;
          w2 = Projectile_hit_enemies q1 (Projectile_exit_view q1 w1)
      in (Projectile_clip (Body_update delta_time q1), w2))"

section \<open>The main section: start, update, loop\<close>

definition start :: "(nat \<Rightarrow> real) \<Rightarrow> world \<Rightarrow> world" where
  "start rnd w =
     (let w1 = (if currerntHighScore w > masterHighScore w
                then w\<lparr>masterHighScore := currerntHighScore w\<rparr> else w);
          w2 = w1\<lparr>prevAliveCount := masterTime w1, enemiesHit := 0, enemyCount := 0,
                  timeAliveCount := 0, entities := [], queued_entities_for_removal := []\<rparr>;
          w3 = Player_new w2
      in (Enemy_new rnd w3)\<lparr>enemy_spawner := Some (running_id w3)\<rparr>)"

text \<open>
  The globals as the script declares them. \<open>entities\<close>, \<open>queued_entities_for_removal\<close>,
  \<open>player\<close> and \<open>enemy_spawner\<close> are \<open>null\<close> there and nothing reads them before the first
  \<open>start()\<close> assigns all four, so the values given to them here are never observed.
\<close>

definition declared :: world where
  "declared =
     \<lparr> last_time = None, loop_count = 0, running_id = 0, enemiesHit = 0, enemyCount = 0,
       masterTime = 0, timeAliveCount = 0, prevAliveCount = 0, currerntHighScore = 0,
       masterHighScore = 0, projShotTime = 0, entities = [], objects = Map.empty,
       queued_entities_for_removal = [], player = Player_fields 0, enemy_spawner = None \<rparr>"

definition boot :: "(nat \<Rightarrow> real) \<Rightarrow> world" where
  "boot rnd = start rnd declared"

text \<open>One callback of \<open>Object.values(entities).forEach\<close>, for the registry key \<open>i\<close>.\<close>

definition update_entity :: "(nat \<Rightarrow> real) \<Rightarrow> real \<Rightarrow> nat \<Rightarrow> world \<Rightarrow> world" where
  "update_entity rnd delta_time i w =
     (if i = ident (player w) then Player_update rnd delta_time w
      else case objects w i of
             Some (EnemyE e) \<Rightarrow>
               (let (e1, w1) = Enemy_update delta_time e w
                in w1\<lparr>objects := (objects w1)(i \<mapsto> EnemyE e1)\<rparr>)
           | Some (ProjectileE q) \<Rightarrow>
               (let (q1, w1) = Projectile_update delta_time q w
                in w1\<lparr>objects := (objects w1)(i \<mapsto> ProjectileE q1)\<rparr>)
           | None \<Rightarrow> w)"

definition move_entities :: "(nat \<Rightarrow> real) \<Rightarrow> real \<Rightarrow> world \<Rightarrow> world" where
  "move_entities rnd delta_time w = fold (update_entity rnd delta_time) (entities w) w"

definition flush_one :: "nat \<Rightarrow> world \<Rightarrow> world" where
  "flush_one i w =
     w\<lparr>player := (player w)\<lparr>enemies := splice1 (enemies (player w)) i,
                              projectiles := splice1 (projectiles (player w)) i\<rparr>,
       entities := removeAll i (entities w)\<rparr>"

definition flush :: "world \<Rightarrow> world" where
  "flush w =
     (fold flush_one (queued_entities_for_removal w) w)\<lparr>queued_entities_for_removal := []\<rparr>"

definition spawn_enemies :: "real \<Rightarrow> world \<Rightarrow> world" where
  "spawn_enemies delta_time w =
     (case enemy_spawner w of
        None \<Rightarrow> w
      | Some s \<Rightarrow>
          (case objects w s of
             Some (EnemyE e) \<Rightarrow>
               (let (e1, w1) = Enemy_update delta_time e w
                in w1\<lparr>objects := (objects w1)(s \<mapsto> EnemyE e1)\<rparr>)
           | _ \<Rightarrow> w))"

definition restart :: "(nat \<Rightarrow> real) \<Rightarrow> world \<Rightarrow> world" where
  "restart rnd w =
     (if isDead (player w) \<and> action_1 (controller (player w)) then start rnd w else w)"

definition poll :: "world \<Rightarrow> world" where
  "poll w = w\<lparr>player := (player w)\<lparr>controller := pollController (raw_input (player w))\<rparr>\<rparr>"

definition update :: "(nat \<Rightarrow> real) \<Rightarrow> real \<Rightarrow> world \<Rightarrow> world" where
  "update rnd delta_time w =
     restart rnd (spawn_enemies delta_time (flush (move_entities rnd delta_time (poll w))))"

text \<open>
  The statements of \<open>loop\<close> before its \<open>while\<close>: the new globals and the first value of
  \<open>delta_time\<close>. \<open>curr_ms\<close> is the timestamp of the animation frame, in milliseconds.
\<close>

definition loop_head :: "real \<Rightarrow> world \<Rightarrow> real \<times> world" where
  "loop_head curr_ms w =
     (let curr_time = fdiv curr_ms 1000;
          w1 = (case last_time w of None \<Rightarrow> w\<lparr>last_time := Some curr_time\<rparr> | Some t \<Rightarrow> w);
          delta_time = fsub curr_time (case last_time w1 of None \<Rightarrow> curr_time | Some t \<Rightarrow> t);
          w2 = w1\<lparr>timeAliveCount := fsub curr_time (prevAliveCount w1),
                  masterTime := curr_time\<rparr>;
          w3 = (if health (player w2) = 0
                then w2\<lparr>timeAliveCount := prevAliveCount w2\<rparr> else w2);
          w4 = w3\<lparr>currerntHighScore :=
                    \<lfloor>fadd (fmul 30 (real (enemiesHit w3))) (timeAliveCount w3)\<rfloor>\<rparr>;
          w5 = (if currerntHighScore w4 > masterHighScore w4
                then w4\<lparr>masterHighScore := currerntHighScore w4\<rparr> else w4)
      in (delta_time, w5))"

text \<open>
  What one turn of the \<open>while\<close> of \<open>loop\<close> does to the globals, apart from \<open>delta_time\<close>:
  \<open>draw\<close> and the assignments to the HTML spans read the globals and change none of them.
\<close>

definition loop_body :: "(nat \<Rightarrow> real) \<Rightarrow> real \<Rightarrow> world \<Rightarrow> world" where
  "loop_body rnd curr_time w =
     (let w1 = update rnd update_rate_seconds w
      in w1\<lparr>last_time := Some curr_time, loop_count := loop_count w1 + 1\<rparr>)"

text \<open>
  The \<open>while\<close> of \<open>loop\<close>. It returns the world and the calls it made, in order. A
  subtraction of the fixed step that rounds back to \<open>delta_time\<close> itself keeps the loop from
  ending, so the result is optional: \<open>None\<close> is the loop that does not return.
\<close>

partial_function (option) loop_while ::
  "(nat \<Rightarrow> real) \<Rightarrow> real \<Rightarrow> real \<Rightarrow> world \<Rightarrow> (world \<times> call list) option" where
  "loop_while rnd curr_time delta_time w =
     (if delta_time > update_rate_seconds then
        Option.bind
          (loop_while rnd curr_time (fsub delta_time update_rate_seconds)
             (loop_body rnd curr_time w))
          (\<lambda>(w1, cs). Some (w1, CallUpdate update_rate_seconds # CallDraw # cs))
      else Some (w, []))"

definition loop :: "(nat \<Rightarrow> real) \<Rightarrow> real \<Rightarrow> world \<Rightarrow> (world \<times> call list) option" where
  "loop rnd curr_ms w =
     (let (delta_time, w1) = loop_head curr_ms w
      in Option.bind (loop_while rnd (fdiv curr_ms 1000) delta_time w1)
           (\<lambda>(w2, cs). Some (w2, cs @ [CallRequestAnimationFrame])))"

section \<open>The host: key events and animation frames\<close>

definition keydown :: "nat \<Rightarrow> world \<Rightarrow> world" where
  "keydown keyCode w = w\<lparr>player := (player w)\<lparr>raw_input := insert keyCode (raw_input (player w))\<rparr>\<rparr>"

definition keyup :: "nat \<Rightarrow> world \<Rightarrow> world" where
  "keyup keyCode w = w\<lparr>player := (player w)\<lparr>raw_input := raw_input (player w) - {keyCode}\<rparr>\<rparr>"

datatype event = Frame real | KeyDown nat | KeyUp nat

text \<open>
  What the window delivers to the script, in order, and the calls the script makes. The
  script is single-threaded: a callback that does not return leaves the rest undelivered.
\<close>

fun run :: "(nat \<Rightarrow> real) \<Rightarrow> event list \<Rightarrow> world \<Rightarrow> (world \<times> call list) option" where
  "run rnd [] w = Some (w, [])"
| "run rnd (Frame t # evs) w =
     Option.bind (loop rnd t w)
       (\<lambda>(w1, cs). Option.bind (run rnd evs w1) (\<lambda>(w2, ds). Some (w2, cs @ ds)))"
| "run rnd (KeyDown k # evs) w = run rnd evs (keydown k w)"
| "run rnd (KeyUp k # evs) w = run rnd evs (keyup k w)"

text \<open>The deltas the calls of \<open>update\<close> were given.\<close>

fun update_deltas :: "call list \<Rightarrow> real list" where
  "update_deltas [] = []"
| "update_deltas (CallUpdate d # cs) = d # update_deltas cs"
| "update_deltas (c # cs) = update_deltas cs"

section \<open>Auxiliary notions\<close>

text \<open>
  Timestamps that keep the \<open>while\<close> of \<open>loop\<close> from running forever: an animation frame no
  later than \<open>2 ^ 40\<close> ms (some 34 years) after the time origin, and a \<open>last_time\<close> that is
  \<open>null\<close> or the time of such a frame, in seconds.
\<close>

definition in_time :: "event \<Rightarrow> bool" where
  "in_time e = (case e of Frame t \<Rightarrow> \<bar>t\<bar> \<le> 2 ^ 40 | _ \<Rightarrow> True)"

definition last_bounded :: "world \<Rightarrow> bool" where
  "last_bounded w = (case last_time w of None \<Rightarrow> True | Some l \<Rightarrow> \<bar>l\<bar> \<le> 2 ^ 31)"

text \<open>The ids one conditional call of \<open>remove\<close> appends to the removal queue.\<close>

definition pushes :: "bool \<Rightarrow> nat \<Rightarrow> nat list" where
  "pushes c i = (if c then [i] else [])"

text \<open>
  The consistency of the ids: the registry has no key twice and holds the player's; every
  key of the registry and of the queue has been handed out already; every registered
  body other than the player is stored under its own id; the player is never queued; and
  the spawner is a stored enemy other than the player.
\<close>

definition entity_ident :: "entity \<Rightarrow> nat" where
  "entity_ident b = (case b of EnemyE e \<Rightarrow> ident e | ProjectileE q \<Rightarrow> ident q)"

definition stored_at :: "world \<Rightarrow> nat \<Rightarrow> bool" where
  "stored_at w i = (case objects w i of None \<Rightarrow> False | Some b \<Rightarrow> entity_ident b = i)"

definition well_formed :: "world \<Rightarrow> bool" where
  "well_formed w =
     (distinct (entities w) \<and> ident (player w) \<in> set (entities w) \<and>
      list_all (\<lambda>i. i < running_id w \<and> (i = ident (player w) \<or> stored_at w i)) (entities w) \<and>
      list_all (\<lambda>i. i < running_id w \<and> i \<noteq> ident (player w)) (queued_entities_for_removal w) \<and>
      (case enemy_spawner w of
         None \<Rightarrow> True
       | Some s \<Rightarrow> s < running_id w \<and> s \<noteq> ident (player w) \<and>
                  (case objects w s of Some (EnemyE e) \<Rightarrow> ident e = s | _ \<Rightarrow> False)) \<and>
      ident (player w) < running_id w)"

text \<open>From \<open>w\<close> to \<open>v\<close> the registry has only gained the ids handed out in between.\<close>

definition grows :: "world \<Rightarrow> world \<Rightarrow> bool" where
  "grows w v =
     (running_id w \<le> running_id v \<and>
      entities v = entities w @ [running_id w..<running_id v])"

text \<open>Whether the step ends with \<open>start()\<close>: the player is dead and the action button is down.\<close>

definition restarts :: "(nat \<Rightarrow> real) \<Rightarrow> real \<Rightarrow> world \<Rightarrow> bool" where
  "restarts rnd delta_time w =
     (let v = spawn_enemies delta_time (flush (move_entities rnd delta_time (poll w)))
      in isDead (player v) \<and> action_1 (controller (player v)))"

text \<open>The session that the loading of the script starts: there the spawner has the id 1.\<close>

definition first_session :: "world \<Rightarrow> bool" where
  "first_session w = (well_formed w \<and> enemy_spawner w = Some 1)"

text \<open>
  The two decisions of \<open>Player.update\<close>, read off the world it starts in: the tick it is
  about to count is a 20th one; and the action button is down, the projectile is armed or
  this tick arms it, and \<open>masterTime\<close> is greater than the rounded sum of \<open>projShotTime\<close>
  and 0.5.
\<close>

definition spawns :: "world \<Rightarrow> bool" where
  "spawns w = ((enemyTimer (player w) + 1) mod 20 = 0)"

definition fires :: "world \<Rightarrow> bool" where
  "fires w =
     (action_1 (controller (player w)) \<and>
      (projectileReady (player w) \<or> (enemyTimer (player w) + 1) mod 40 = 0) \<and>
      masterTime w > fadd (projShotTime w) (1 / 2))"

text \<open>
  The body stored under the key \<open>k\<close> is a projectile; and the registry holds the key \<open>k\<close>
  and the body stored under it is a projectile.
\<close>

definition stores_projectile :: "world \<Rightarrow> nat \<Rightarrow> bool" where
  "stores_projectile w k = (case objects w k of Some (ProjectileE q) \<Rightarrow> True | _ \<Rightarrow> False)"

definition projectile_at :: "world \<Rightarrow> nat \<Rightarrow> bool" where
  "projectile_at w k =
     (k \<in> set (entities w) \<and>
      (case objects w k of Some (ProjectileE q) \<Rightarrow> True | _ \<Rightarrow> False))"

text \<open>
  The player is inside the canvas; and the body stored under the key \<open>k\<close>, if it is an
  enemy, is inside the canvas widened by 50 to the right and to the bottom.
\<close>

definition player_in_view :: "world \<Rightarrow> bool" where
  "player_in_view w =
     (0 \<le> px (position (player w)) \<and> px (position (player w)) \<le> 360 \<and>
      0 \<le> py (position (player w)) \<and> py (position (player w)) \<le> 500)"

definition enemy_in_view :: "world \<Rightarrow> nat \<Rightarrow> bool" where
  "enemy_in_view w k =
     (case objects w k of
        Some (EnemyE e) \<Rightarrow>
          0 \<le> px (position e) \<and> px (position e) \<le> 410 \<and>
          0 \<le> py (position e) \<and> py (position e) \<le> 550
      | _ \<Rightarrow> True)"

text \<open>
  A quiet stretch of play, used to follow a run from the loading of the script: the player
  rests at its starting place in full health, at most the action button is down, and
  every stored enemy is in the column x = 160, no lower than a bound that keeps it from
  homing, except that the enemies under the keys in \<open>S\<close> have not had their update of the
  current step yet.
\<close>

definition enemy_low :: "real \<Rightarrow> Enemy \<Rightarrow> bool" where
  "enemy_low B e =
     (px (position e) = 160 \<and> py (position e) \<le> B \<and>
      velocity e = \<lparr> px = 0, py = 0 \<rparr> \<and> enemy_speed e = 3)"

definition low_except :: "real \<Rightarrow> nat set \<Rightarrow> world \<Rightarrow> bool" where
  "low_except B S w =
     (\<forall>k e. objects w k = Some (EnemyE e) \<longrightarrow> enemy_low (if k \<in> S then B else B + 3) e)"

definition player_rests :: "world \<Rightarrow> bool" where
  "player_rests w =
     (position (player w) = \<lparr> px = 180, py = 400 \<rparr> \<and>
      velocity (player w) = \<lparr> px = 0, py = 0 \<rparr> \<and>
      health (player w) = 100 \<and>
      move_x (controller (player w)) = 0 \<and> move_y (controller (player w)) = 0)"

definition calm :: "real \<Rightarrow> world \<Rightarrow> bool" where
  "calm B w =
     (well_formed w \<and>
      position (player w) = \<lparr> px = 180, py = 400 \<rparr> \<and>
      velocity (player w) = \<lparr> px = 0, py = 0 \<rparr> \<and>
      health (player w) = 100 \<and>
      raw_input (player w) \<subseteq> {32} \<and>
      low_except B UNIV w)"

text \<open>
  Animation frames 32 ms apart, numbered by the tick they bring: each of them, but the one
  numbered 0, lets exactly one fixed step run.
\<close>

definition frames :: "nat \<Rightarrow> nat \<Rightarrow> event list" where
  "frames a b = map (\<lambda>k. Frame (32 * real k)) [a..<b]"

text \<open>
  The world that the callback of the frame at \<open>t\<close> ms leaves when its \<open>while\<close> takes exactly
  one turn; and the world a run leaves, when all its callbacks return.
\<close>

definition frame_step :: "(nat \<Rightarrow> real) \<Rightarrow> real \<Rightarrow> world \<Rightarrow> world" where
  "frame_step rnd t w = loop_body rnd (fdiv t 1000) (snd (loop_head t w))"

definition world_after :: "(nat \<Rightarrow> real) \<Rightarrow> event list \<Rightarrow> world \<Rightarrow> world option" where
  "world_after rnd evs w = map_option fst (run rnd evs w)"

text \<open>
  The world after the frame numbered \<open>k\<close> of such a run: the keys held, the next id, and
  the state of the projectile gate.
\<close>

definition at_tick :: "nat \<Rightarrow> nat set \<Rightarrow> nat \<Rightarrow> bool \<Rightarrow> real \<Rightarrow> world \<Rightarrow> bool" where
  "at_tick k keys r ready shot w =
     (calm (3 * real k + 3) w \<and> enemy_spawner w = Some 1 \<and> 1 \<notin> set (entities w) \<and>
      last_time w = Some (fdiv (32 * real k) 1000) \<and> masterTime w = fdiv (32 * real k) 1000 \<and>
      loop_count w = k \<and> raw_input (player w) = keys \<and> enemyTimer (player w) = k \<and>
      running_id w = r \<and> projectileReady (player w) = ready \<and> projShotTime w = shot)"

section \<open>Concrete bodies and worlds\<close>

definition enemy_300 :: Enemy where
  "enemy_300 =
     \<lparr> ident = 5, position = \<lparr> px = 100, py = 300 \<rparr>, velocity = \<lparr> px = 0, py = 0 \<rparr>,
       bsize = \<lparr> px = 10, py = 10 \<rparr>, health = 100, enemy_speed = 3 \<rparr>"

definition rnd_half :: "nat \<Rightarrow> real" where
  "rnd_half i = 1 / 2"

definition enemy_97 :: Enemy where
  "enemy_97 =
     \<lparr> ident = 5, position = \<lparr> px = 100, py = 97 \<rparr>, velocity = \<lparr> px = 0, py = 0 \<rparr>,
       bsize = \<lparr> px = 10, py = 10 \<rparr>, health = 100, enemy_speed = 3 \<rparr>"

text \<open>The first session with one projectile position stored in \<open>player.projectiles\<close>.\<close>

definition world_shot :: world where
  "world_shot =
     (boot rnd_half)\<lparr>player := (player (boot rnd_half))\<lparr>projectiles :=
        [None, None, Some \<lparr> px = 109, py = 100 \<rparr>]\<rparr>\<rparr>"

text \<open>The first session with two enemy positions stored in \<open>player.enemies\<close>.\<close>

definition world_pair :: world where
  "world_pair =
     (boot rnd_half)\<lparr>player := (player (boot rnd_half))\<lparr>enemies :=
        [None, None, Some \<lparr> px = 160, py = 120 \<rparr>, Some \<lparr> px = 160, py = 60 \<rparr>]\<rparr>\<rparr>"

text \<open>The world as \<open>start()\<close> leaves it when it runs a second time.\<close>

definition world_second :: world where
  "world_second = start rnd_half (boot rnd_half)"

text \<open>
  A world of a second session, as \<open>start()\<close> leaves it when it runs again (the player has
  id 2 and the spawner id 3, and both are registered), later on: the spawner has fallen
  to y = 495, away from the player.
\<close>

definition enemy_495 :: Enemy where
  "enemy_495 =
     \<lparr> ident = 3, position = \<lparr> px = 160, py = 495 \<rparr>, velocity = \<lparr> px = 0, py = 0 \<rparr>,
       bsize = \<lparr> px = 10, py = 10 \<rparr>, health = 100, enemy_speed = 3 \<rparr>"

definition world_late :: world where
  "world_late =
     (start rnd_half (boot rnd_half))
       \<lparr>objects := (objects (start rnd_half (boot rnd_half)))(3 \<mapsto> EnemyE enemy_495)\<rparr>"

text \<open>
  The first session after the animation frame at 0 ms and, from there, what the frame at
  50 ms has run when it returns: three fixed steps.
\<close>

definition world_loaded :: world where
  "world_loaded = snd (loop_head 0 (boot rnd_half))"

definition world_50 :: world where
  "world_50 =
     loop_body rnd_half (fdiv 50 1000)
       (loop_body rnd_half (fdiv 50 1000)
          (loop_body rnd_half (fdiv 50 1000) (snd (loop_head 50 world_loaded))))"

definition calls_50 :: "call list" where
  "calls_50 =
     [CallUpdate update_rate_seconds, CallDraw, CallUpdate update_rate_seconds, CallDraw,
      CallUpdate update_rate_seconds, CallDraw, CallRequestAnimationFrame]"

text \<open>
  A run of the first session with an animation frame every 32 ms: the world after the
  frame numbered \<open>k\<close> while no key is down, and the world \<open>j\<close> frames after the frame numbered
  63 when the action button has gone down right after that frame and stays down.
\<close>

fun quiet_run :: "nat \<Rightarrow> world" where
  "quiet_run 0 = world_loaded"
| "quiet_run (Suc k) = frame_step rnd_half (32 * real (Suc k)) (quiet_run k)"

fun held_run :: "nat \<Rightarrow> world" where
  "held_run 0 = keydown 32 (quiet_run 63)"
| "held_run (Suc j) = frame_step rnd_half (32 * real (63 + Suc j)) (held_run j)"

text \<open>
  The world of that run as the callback of the frame numbered 64 has set the globals and
  is about to run its step: the button is down and the projectile has been armed since
  tick 40.
\<close>

definition world_armed :: world where
  "world_armed = snd (loop_head 2048 (held_run 0))"

text \<open>
  The first session with three more enemies and a player down to a health of 25: the
  enemies 2 and 3 are about to reach the player, the enemy 4 is far from it.
\<close>

definition enemy_near_a :: Enemy where
  "enemy_near_a =
     \<lparr> ident = 2, position = \<lparr> px = 175, py = 395 \<rparr>, velocity = \<lparr> px = 0, py = 0 \<rparr>,
       bsize = \<lparr> px = 10, py = 10 \<rparr>, health = 100, enemy_speed = 3 \<rparr>"

definition enemy_near_b :: Enemy where
  "enemy_near_b =
     \<lparr> ident = 3, position = \<lparr> px = 185, py = 393 \<rparr>, velocity = \<lparr> px = 0, py = 0 \<rparr>,
       bsize = \<lparr> px = 10, py = 10 \<rparr>, health = 100, enemy_speed = 3 \<rparr>"

definition enemy_far :: Enemy where
  "enemy_far =
     \<lparr> ident = 4, position = \<lparr> px = 20, py = 100 \<rparr>, velocity = \<lparr> px = 0, py = 0 \<rparr>,
       bsize = \<lparr> px = 10, py = 10 \<rparr>, health = 100, enemy_speed = 3 \<rparr>"

definition world_crowded :: world where
  "world_crowded =
     (boot rnd_half)
       \<lparr>running_id := 5, entities := [0, 2, 3, 4],
        objects := (objects (boot rnd_half))
          (2 \<mapsto> EnemyE enemy_near_a, 3 \<mapsto> EnemyE enemy_near_b, 4 \<mapsto> EnemyE enemy_far),
        player := (player (boot rnd_half))\<lparr>health := 25\<rparr>\<rparr>"

section \<open>What each operation leaves unchanged\<close>

lemma fold_keeps:
  assumes "\<And>x v. f (g x v) = f v"
  shows "f (fold g xs w) = f w"
  using assms by (induction xs arbitrary: w) simp_all

lemma fold_keeps_player:
  assumes "\<And>x v. f (player (g x v)) = f (player v)"
  shows "f (player (fold g xs w)) = f (player w)"
  using assms by (induction xs arbitrary: w) simp_all

lemma remove_unchanged [simp]:
  "last_time (remove i w) = last_time w"
  "loop_count (remove i w) = loop_count w"
  "running_id (remove i w) = running_id w"
  "enemiesHit (remove i w) = enemiesHit w"
  "enemyCount (remove i w) = enemyCount w"
  "masterTime (remove i w) = masterTime w"
  "timeAliveCount (remove i w) = timeAliveCount w"
  "prevAliveCount (remove i w) = prevAliveCount w"
  "currerntHighScore (remove i w) = currerntHighScore w"
  "masterHighScore (remove i w) = masterHighScore w"
  "projShotTime (remove i w) = projShotTime w"
  "entities (remove i w) = entities w"
  "objects (remove i w) = objects w"
  "player (remove i w) = player w"
  "enemy_spawner (remove i w) = enemy_spawner w"
  by (simp_all add: remove_def)

lemma remove_if_player_dead_unchanged [simp]:
  "last_time (remove_if_player_dead i w) = last_time w"
  "loop_count (remove_if_player_dead i w) = loop_count w"
  "running_id (remove_if_player_dead i w) = running_id w"
  "enemiesHit (remove_if_player_dead i w) = enemiesHit w"
  "enemyCount (remove_if_player_dead i w) = enemyCount w"
  "masterTime (remove_if_player_dead i w) = masterTime w"
  "timeAliveCount (remove_if_player_dead i w) = timeAliveCount w"
  "prevAliveCount (remove_if_player_dead i w) = prevAliveCount w"
  "currerntHighScore (remove_if_player_dead i w) = currerntHighScore w"
  "masterHighScore (remove_if_player_dead i w) = masterHighScore w"
  "projShotTime (remove_if_player_dead i w) = projShotTime w"
  "entities (remove_if_player_dead i w) = entities w"
  "objects (remove_if_player_dead i w) = objects w"
  "player (remove_if_player_dead i w) = player w"
  "enemy_spawner (remove_if_player_dead i w) = enemy_spawner w"
  by (simp_all add: remove_if_player_dead_def)

lemma publish_enemy_unchanged [simp]:
  "last_time (publish_enemy e w) = last_time w"
  "loop_count (publish_enemy e w) = loop_count w"
  "running_id (publish_enemy e w) = running_id w"
  "enemiesHit (publish_enemy e w) = enemiesHit w"
  "enemyCount (publish_enemy e w) = enemyCount w"
  "masterTime (publish_enemy e w) = masterTime w"
  "timeAliveCount (publish_enemy e w) = timeAliveCount w"
  "prevAliveCount (publish_enemy e w) = prevAliveCount w"
  "currerntHighScore (publish_enemy e w) = currerntHighScore w"
  "masterHighScore (publish_enemy e w) = masterHighScore w"
  "projShotTime (publish_enemy e w) = projShotTime w"
  "entities (publish_enemy e w) = entities w"
  "objects (publish_enemy e w) = objects w"
  "queued_entities_for_removal (publish_enemy e w) = queued_entities_for_removal w"
  "enemy_spawner (publish_enemy e w) = enemy_spawner w"
  by (simp_all add: publish_enemy_def)

lemma Enemy_bug_fix_unchanged [simp]:
  "last_time (Enemy_bug_fix e w) = last_time w"
  "loop_count (Enemy_bug_fix e w) = loop_count w"
  "running_id (Enemy_bug_fix e w) = running_id w"
  "enemiesHit (Enemy_bug_fix e w) = enemiesHit w"
  "enemyCount (Enemy_bug_fix e w) = enemyCount w"
  "masterTime (Enemy_bug_fix e w) = masterTime w"
  "timeAliveCount (Enemy_bug_fix e w) = timeAliveCount w"
  "prevAliveCount (Enemy_bug_fix e w) = prevAliveCount w"
  "currerntHighScore (Enemy_bug_fix e w) = currerntHighScore w"
  "masterHighScore (Enemy_bug_fix e w) = masterHighScore w"
  "projShotTime (Enemy_bug_fix e w) = projShotTime w"
  "entities (Enemy_bug_fix e w) = entities w"
  "objects (Enemy_bug_fix e w) = objects w"
  "player (Enemy_bug_fix e w) = player w"
  "enemy_spawner (Enemy_bug_fix e w) = enemy_spawner w"
  by (simp_all add: Enemy_bug_fix_def)

lemma Enemy_exit_view_unchanged [simp]:
  "last_time (Enemy_exit_view e w) = last_time w"
  "loop_count (Enemy_exit_view e w) = loop_count w"
  "running_id (Enemy_exit_view e w) = running_id w"
  "enemiesHit (Enemy_exit_view e w) = enemiesHit w"
  "enemyCount (Enemy_exit_view e w) = enemyCount w"
  "masterTime (Enemy_exit_view e w) = masterTime w"
  "timeAliveCount (Enemy_exit_view e w) = timeAliveCount w"
  "prevAliveCount (Enemy_exit_view e w) = prevAliveCount w"
  "currerntHighScore (Enemy_exit_view e w) = currerntHighScore w"
  "masterHighScore (Enemy_exit_view e w) = masterHighScore w"
  "projShotTime (Enemy_exit_view e w) = projShotTime w"
  "entities (Enemy_exit_view e w) = entities w"
  "objects (Enemy_exit_view e w) = objects w"
  "player (Enemy_exit_view e w) = player w"
  "enemy_spawner (Enemy_exit_view e w) = enemy_spawner w"
  by (simp_all add: Enemy_exit_view_def)

lemma Enemy_hit_by_projectiles_unchanged [simp]:
  "last_time (Enemy_hit_by_projectiles e w) = last_time w"
  "loop_count (Enemy_hit_by_projectiles e w) = loop_count w"
  "running_id (Enemy_hit_by_projectiles e w) = running_id w"
  "enemiesHit (Enemy_hit_by_projectiles e w) = enemiesHit w"
  "enemyCount (Enemy_hit_by_projectiles e w) = enemyCount w"
  "masterTime (Enemy_hit_by_projectiles e w) = masterTime w"
  "timeAliveCount (Enemy_hit_by_projectiles e w) = timeAliveCount w"
  "prevAliveCount (Enemy_hit_by_projectiles e w) = prevAliveCount w"
  "currerntHighScore (Enemy_hit_by_projectiles e w) = currerntHighScore w"
  "masterHighScore (Enemy_hit_by_projectiles e w) = masterHighScore w"
  "projShotTime (Enemy_hit_by_projectiles e w) = projShotTime w"
  "entities (Enemy_hit_by_projectiles e w) = entities w"
  "objects (Enemy_hit_by_projectiles e w) = objects w"
  "player (Enemy_hit_by_projectiles e w) = player w"
  "enemy_spawner (Enemy_hit_by_projectiles e w) = enemy_spawner w"
  by (simp_all add: Enemy_hit_by_projectiles_def fold_keeps)

lemma Enemy_hit_player_unchanged [simp]:
  "last_time (Enemy_hit_player e w) = last_time w"
  "loop_count (Enemy_hit_player e w) = loop_count w"
  "running_id (Enemy_hit_player e w) = running_id w"
  "enemiesHit (Enemy_hit_player e w) = enemiesHit w"
  "enemyCount (Enemy_hit_player e w) = enemyCount w"
  "masterTime (Enemy_hit_player e w) = masterTime w"
  "timeAliveCount (Enemy_hit_player e w) = timeAliveCount w"
  "prevAliveCount (Enemy_hit_player e w) = prevAliveCount w"
  "currerntHighScore (Enemy_hit_player e w) = currerntHighScore w"
  "masterHighScore (Enemy_hit_player e w) = masterHighScore w"
  "projShotTime (Enemy_hit_player e w) = projShotTime w"
  "entities (Enemy_hit_player e w) = entities w"
  "objects (Enemy_hit_player e w) = objects w"
  "enemy_spawner (Enemy_hit_player e w) = enemy_spawner w"
  by (simp_all add: Enemy_hit_player_def)

lemma Enemy_update_unchanged [simp]:
  "last_time (snd (Enemy_update d e w)) = last_time w"
  "loop_count (snd (Enemy_update d e w)) = loop_count w"
  "running_id (snd (Enemy_update d e w)) = running_id w"
  "enemiesHit (snd (Enemy_update d e w)) = enemiesHit w"
  "enemyCount (snd (Enemy_update d e w)) = enemyCount w"
  "masterTime (snd (Enemy_update d e w)) = masterTime w"
  "timeAliveCount (snd (Enemy_update d e w)) = timeAliveCount w"
  "prevAliveCount (snd (Enemy_update d e w)) = prevAliveCount w"
  "currerntHighScore (snd (Enemy_update d e w)) = currerntHighScore w"
  "masterHighScore (snd (Enemy_update d e w)) = masterHighScore w"
  "projShotTime (snd (Enemy_update d e w)) = projShotTime w"
  "entities (snd (Enemy_update d e w)) = entities w"
  "objects (snd (Enemy_update d e w)) = objects w"
  "enemy_spawner (snd (Enemy_update d e w)) = enemy_spawner w"
  by (simp_all add: Enemy_update_def Let_def)

lemma publish_projectile_unchanged [simp]:
  "last_time (publish_projectile q w) = last_time w"
  "loop_count (publish_projectile q w) = loop_count w"
  "running_id (publish_projectile q w) = running_id w"
  "enemiesHit (publish_projectile q w) = enemiesHit w"
  "enemyCount (publish_projectile q w) = enemyCount w"
  "masterTime (publish_projectile q w) = masterTime w"
  "timeAliveCount (publish_projectile q w) = timeAliveCount w"
  "prevAliveCount (publish_projectile q w) = prevAliveCount w"
  "currerntHighScore (publish_projectile q w) = currerntHighScore w"
  "masterHighScore (publish_projectile q w) = masterHighScore w"
  "projShotTime (publish_projectile q w) = projShotTime w"
  "entities (publish_projectile q w) = entities w"
  "objects (publish_projectile q w) = objects w"
  "queued_entities_for_removal (publish_projectile q w) = queued_entities_for_removal w"
  "enemy_spawner (publish_projectile q w) = enemy_spawner w"
  by (simp_all add: publish_projectile_def)

lemma Projectile_exit_view_unchanged [simp]:
  "last_time (Projectile_exit_view q w) = last_time w"
  "loop_count (Projectile_exit_view q w) = loop_count w"
  "running_id (Projectile_exit_view q w) = running_id w"
  "enemiesHit (Projectile_exit_view q w) = enemiesHit w"
  "enemyCount (Projectile_exit_view q w) = enemyCount w"
  "masterTime (Projectile_exit_view q w) = masterTime w"
  "timeAliveCount (Projectile_exit_view q w) = timeAliveCount w"
  "prevAliveCount (Projectile_exit_view q w) = prevAliveCount w"
  "currerntHighScore (Projectile_exit_view q w) = currerntHighScore w"
  "masterHighScore (Projectile_exit_view q w) = masterHighScore w"
  "projShotTime (Projectile_exit_view q w) = projShotTime w"
  "entities (Projectile_exit_view q w) = entities w"
  "objects (Projectile_exit_view q w) = objects w"
  "player (Projectile_exit_view q w) = player w"
  "enemy_spawner (Projectile_exit_view q w) = enemy_spawner w"
  by (simp_all add: Projectile_exit_view_def)

lemma Projectile_hit_enemies_unchanged [simp]:
  "last_time (Projectile_hit_enemies q w) = last_time w"
  "loop_count (Projectile_hit_enemies q w) = loop_count w"
  "running_id (Projectile_hit_enemies q w) = running_id w"
  "enemyCount (Projectile_hit_enemies q w) = enemyCount w"
  "masterTime (Projectile_hit_enemies q w) = masterTime w"
  "timeAliveCount (Projectile_hit_enemies q w) = timeAliveCount w"
  "prevAliveCount (Projectile_hit_enemies q w) = prevAliveCount w"
  "currerntHighScore (Projectile_hit_enemies q w) = currerntHighScore w"
  "masterHighScore (Projectile_hit_enemies q w) = masterHighScore w"
  "projShotTime (Projectile_hit_enemies q w) = projShotTime w"
  "entities (Projectile_hit_enemies q w) = entities w"
  "objects (Projectile_hit_enemies q w) = objects w"
  "player (Projectile_hit_enemies q w) = player w"
  "enemy_spawner (Projectile_hit_enemies q w) = enemy_spawner w"
  by (simp_all add: Projectile_hit_enemies_def fold_keeps)

lemma Projectile_update_unchanged [simp]:
  "last_time (snd (Projectile_update d q w)) = last_time w"
  "loop_count (snd (Projectile_update d q w)) = loop_count w"
  "running_id (snd (Projectile_update d q w)) = running_id w"
  "enemyCount (snd (Projectile_update d q w)) = enemyCount w"
  "masterTime (snd (Projectile_update d q w)) = masterTime w"
  "timeAliveCount (snd (Projectile_update d q w)) = timeAliveCount w"
  "prevAliveCount (snd (Projectile_update d q w)) = prevAliveCount w"
  "currerntHighScore (snd (Projectile_update d q w)) = currerntHighScore w"
  "masterHighScore (snd (Projectile_update d q w)) = masterHighScore w"
  "projShotTime (snd (Projectile_update d q w)) = projShotTime w"
  "entities (snd (Projectile_update d q w)) = entities w"
  "objects (snd (Projectile_update d q w)) = objects w"
  "enemy_spawner (snd (Projectile_update d q w)) = enemy_spawner w"
  by (simp_all add: Projectile_update_def Let_def)

lemma register_unchanged [simp]:
  "last_time (register w) = last_time w"
  "loop_count (register w) = loop_count w"
  "enemiesHit (register w) = enemiesHit w"
  "enemyCount (register w) = enemyCount w"
  "masterTime (register w) = masterTime w"
  "timeAliveCount (register w) = timeAliveCount w"
  "prevAliveCount (register w) = prevAliveCount w"
  "currerntHighScore (register w) = currerntHighScore w"
  "masterHighScore (register w) = masterHighScore w"
  "projShotTime (register w) = projShotTime w"
  "objects (register w) = objects w"
  "queued_entities_for_removal (register w) = queued_entities_for_removal w"
  "player (register w) = player w"
  "enemy_spawner (register w) = enemy_spawner w"
  by (simp_all add: register_def)

lemma Enemy_new_unchanged [simp]:
  "last_time (Enemy_new rnd w) = last_time w"
  "loop_count (Enemy_new rnd w) = loop_count w"
  "enemiesHit (Enemy_new rnd w) = enemiesHit w"
  "enemyCount (Enemy_new rnd w) = enemyCount w"
  "masterTime (Enemy_new rnd w) = masterTime w"
  "timeAliveCount (Enemy_new rnd w) = timeAliveCount w"
  "prevAliveCount (Enemy_new rnd w) = prevAliveCount w"
  "currerntHighScore (Enemy_new rnd w) = currerntHighScore w"
  "masterHighScore (Enemy_new rnd w) = masterHighScore w"
  "projShotTime (Enemy_new rnd w) = projShotTime w"
  "queued_entities_for_removal (Enemy_new rnd w) = queued_entities_for_removal w"
  "player (Enemy_new rnd w) = player w"
  "enemy_spawner (Enemy_new rnd w) = enemy_spawner w"
  by (simp_all add: Enemy_new_def Let_def)

lemma Projectile_new_unchanged [simp]:
  "last_time (Projectile_new w) = last_time w"
  "loop_count (Projectile_new w) = loop_count w"
  "enemiesHit (Projectile_new w) = enemiesHit w"
  "enemyCount (Projectile_new w) = enemyCount w"
  "masterTime (Projectile_new w) = masterTime w"
  "timeAliveCount (Projectile_new w) = timeAliveCount w"
  "prevAliveCount (Projectile_new w) = prevAliveCount w"
  "currerntHighScore (Projectile_new w) = currerntHighScore w"
  "masterHighScore (Projectile_new w) = masterHighScore w"
  "projShotTime (Projectile_new w) = projShotTime w"
  "queued_entities_for_removal (Projectile_new w) = queued_entities_for_removal w"
  "player (Projectile_new w) = player w"
  "enemy_spawner (Projectile_new w) = enemy_spawner w"
  by (simp_all add: Projectile_new_def Let_def)

lemma Player_new_unchanged [simp]:
  "last_time (Player_new w) = last_time w"
  "loop_count (Player_new w) = loop_count w"
  "enemiesHit (Player_new w) = enemiesHit w"
  "enemyCount (Player_new w) = enemyCount w"
  "masterTime (Player_new w) = masterTime w"
  "timeAliveCount (Player_new w) = timeAliveCount w"
  "prevAliveCount (Player_new w) = prevAliveCount w"
  "currerntHighScore (Player_new w) = currerntHighScore w"
  "masterHighScore (Player_new w) = masterHighScore w"
  "projShotTime (Player_new w) = projShotTime w"
  "objects (Player_new w) = objects w"
  "queued_entities_for_removal (Player_new w) = queued_entities_for_removal w"
  "enemy_spawner (Player_new w) = enemy_spawner w"
  by (simp_all add: Player_new_def)

lemma Player_spawn_unchanged [simp]:
  "last_time (Player_spawn rnd w) = last_time w"
  "loop_count (Player_spawn rnd w) = loop_count w"
  "enemiesHit (Player_spawn rnd w) = enemiesHit w"
  "masterTime (Player_spawn rnd w) = masterTime w"
  "timeAliveCount (Player_spawn rnd w) = timeAliveCount w"
  "prevAliveCount (Player_spawn rnd w) = prevAliveCount w"
  "currerntHighScore (Player_spawn rnd w) = currerntHighScore w"
  "masterHighScore (Player_spawn rnd w) = masterHighScore w"
  "projShotTime (Player_spawn rnd w) = projShotTime w"
  "queued_entities_for_removal (Player_spawn rnd w) = queued_entities_for_removal w"
  "enemy_spawner (Player_spawn rnd w) = enemy_spawner w"
  by (simp_all add: Player_spawn_def Let_def)

lemma Player_arm_unchanged [simp]:
  "last_time (Player_arm w) = last_time w"
  "loop_count (Player_arm w) = loop_count w"
  "running_id (Player_arm w) = running_id w"
  "enemiesHit (Player_arm w) = enemiesHit w"
  "enemyCount (Player_arm w) = enemyCount w"
  "masterTime (Player_arm w) = masterTime w"
  "timeAliveCount (Player_arm w) = timeAliveCount w"
  "prevAliveCount (Player_arm w) = prevAliveCount w"
  "currerntHighScore (Player_arm w) = currerntHighScore w"
  "masterHighScore (Player_arm w) = masterHighScore w"
  "projShotTime (Player_arm w) = projShotTime w"
  "entities (Player_arm w) = entities w"
  "objects (Player_arm w) = objects w"
  "queued_entities_for_removal (Player_arm w) = queued_entities_for_removal w"
  "enemy_spawner (Player_arm w) = enemy_spawner w"
  by (simp_all add: Player_arm_def)

lemma Player_fire_unchanged [simp]:
  "last_time (Player_fire w) = last_time w"
  "loop_count (Player_fire w) = loop_count w"
  "enemiesHit (Player_fire w) = enemiesHit w"
  "enemyCount (Player_fire w) = enemyCount w"
  "masterTime (Player_fire w) = masterTime w"
  "timeAliveCount (Player_fire w) = timeAliveCount w"
  "prevAliveCount (Player_fire w) = prevAliveCount w"
  "currerntHighScore (Player_fire w) = currerntHighScore w"
  "masterHighScore (Player_fire w) = masterHighScore w"
  "queued_entities_for_removal (Player_fire w) = queued_entities_for_removal w"
  "enemy_spawner (Player_fire w) = enemy_spawner w"
  by (simp_all add: Player_fire_def Let_def)

lemma Player_update_unchanged [simp]:
  "last_time (Player_update rnd d w) = last_time w"
  "loop_count (Player_update rnd d w) = loop_count w"
  "enemiesHit (Player_update rnd d w) = enemiesHit w"
  "masterTime (Player_update rnd d w) = masterTime w"
  "timeAliveCount (Player_update rnd d w) = timeAliveCount w"
  "prevAliveCount (Player_update rnd d w) = prevAliveCount w"
  "currerntHighScore (Player_update rnd d w) = currerntHighScore w"
  "masterHighScore (Player_update rnd d w) = masterHighScore w"
  "queued_entities_for_removal (Player_update rnd d w) = queued_entities_for_removal w"
  "enemy_spawner (Player_update rnd d w) = enemy_spawner w"
  by (simp_all add: Player_update_def Let_def)

lemma update_entity_unchanged [simp]:
  "last_time (update_entity rnd d i w) = last_time w"
  "loop_count (update_entity rnd d i w) = loop_count w"
  "masterTime (update_entity rnd d i w) = masterTime w"
  "timeAliveCount (update_entity rnd d i w) = timeAliveCount w"
  "prevAliveCount (update_entity rnd d i w) = prevAliveCount w"
  "currerntHighScore (update_entity rnd d i w) = currerntHighScore w"
  "masterHighScore (update_entity rnd d i w) = masterHighScore w"
  "enemy_spawner (update_entity rnd d i w) = enemy_spawner w"
  by (simp_all add: update_entity_def split_beta split: option.split entity.split)

lemma move_entities_unchanged [simp]:
  "last_time (move_entities rnd d w) = last_time w"
  "loop_count (move_entities rnd d w) = loop_count w"
  "masterTime (move_entities rnd d w) = masterTime w"
  "timeAliveCount (move_entities rnd d w) = timeAliveCount w"
  "prevAliveCount (move_entities rnd d w) = prevAliveCount w"
  "currerntHighScore (move_entities rnd d w) = currerntHighScore w"
  "masterHighScore (move_entities rnd d w) = masterHighScore w"
  "enemy_spawner (move_entities rnd d w) = enemy_spawner w"
  by (simp_all add: move_entities_def fold_keeps)

lemma flush_one_unchanged [simp]:
  "last_time (flush_one i w) = last_time w"
  "loop_count (flush_one i w) = loop_count w"
  "running_id (flush_one i w) = running_id w"
  "enemiesHit (flush_one i w) = enemiesHit w"
  "enemyCount (flush_one i w) = enemyCount w"
  "masterTime (flush_one i w) = masterTime w"
  "timeAliveCount (flush_one i w) = timeAliveCount w"
  "prevAliveCount (flush_one i w) = prevAliveCount w"
  "currerntHighScore (flush_one i w) = currerntHighScore w"
  "masterHighScore (flush_one i w) = masterHighScore w"
  "projShotTime (flush_one i w) = projShotTime w"
  "objects (flush_one i w) = objects w"
  "queued_entities_for_removal (flush_one i w) = queued_entities_for_removal w"
  "enemy_spawner (flush_one i w) = enemy_spawner w"
  by (simp_all add: flush_one_def)

lemma flush_unchanged [simp]:
  "last_time (flush w) = last_time w"
  "loop_count (flush w) = loop_count w"
  "running_id (flush w) = running_id w"
  "enemiesHit (flush w) = enemiesHit w"
  "enemyCount (flush w) = enemyCount w"
  "masterTime (flush w) = masterTime w"
  "timeAliveCount (flush w) = timeAliveCount w"
  "prevAliveCount (flush w) = prevAliveCount w"
  "currerntHighScore (flush w) = currerntHighScore w"
  "masterHighScore (flush w) = masterHighScore w"
  "projShotTime (flush w) = projShotTime w"
  "objects (flush w) = objects w"
  "enemy_spawner (flush w) = enemy_spawner w"
  by (simp_all add: flush_def fold_keeps)

lemma spawn_enemies_unchanged [simp]:
  "last_time (spawn_enemies d w) = last_time w"
  "loop_count (spawn_enemies d w) = loop_count w"
  "running_id (spawn_enemies d w) = running_id w"
  "enemiesHit (spawn_enemies d w) = enemiesHit w"
  "enemyCount (spawn_enemies d w) = enemyCount w"
  "masterTime (spawn_enemies d w) = masterTime w"
  "timeAliveCount (spawn_enemies d w) = timeAliveCount w"
  "prevAliveCount (spawn_enemies d w) = prevAliveCount w"
  "currerntHighScore (spawn_enemies d w) = currerntHighScore w"
  "masterHighScore (spawn_enemies d w) = masterHighScore w"
  "projShotTime (spawn_enemies d w) = projShotTime w"
  "entities (spawn_enemies d w) = entities w"
  "enemy_spawner (spawn_enemies d w) = enemy_spawner w"
  by (simp_all add: spawn_enemies_def split_beta split: option.split entity.split)

lemma poll_unchanged [simp]:
  "last_time (poll w) = last_time w"
  "loop_count (poll w) = loop_count w"
  "running_id (poll w) = running_id w"
  "enemiesHit (poll w) = enemiesHit w"
  "enemyCount (poll w) = enemyCount w"
  "masterTime (poll w) = masterTime w"
  "timeAliveCount (poll w) = timeAliveCount w"
  "prevAliveCount (poll w) = prevAliveCount w"
  "currerntHighScore (poll w) = currerntHighScore w"
  "masterHighScore (poll w) = masterHighScore w"
  "projShotTime (poll w) = projShotTime w"
  "entities (poll w) = entities w"
  "objects (poll w) = objects w"
  "queued_entities_for_removal (poll w) = queued_entities_for_removal w"
  "enemy_spawner (poll w) = enemy_spawner w"
  by (simp_all add: poll_def)

lemma start_unchanged [simp]:
  "last_time (start rnd w) = last_time w"
  "loop_count (start rnd w) = loop_count w"
  "masterTime (start rnd w) = masterTime w"
  "currerntHighScore (start rnd w) = currerntHighScore w"
  "projShotTime (start rnd w) = projShotTime w"
  by (simp_all add: start_def Let_def)

lemma restart_unchanged [simp]:
  "last_time (restart rnd w) = last_time w"
  "loop_count (restart rnd w) = loop_count w"
  "masterTime (restart rnd w) = masterTime w"
  "currerntHighScore (restart rnd w) = currerntHighScore w"
  "projShotTime (restart rnd w) = projShotTime w"
  by (simp_all add: restart_def)

lemma update_unchanged [simp]:
  "last_time (update rnd d w) = last_time w"
  "loop_count (update rnd d w) = loop_count w"
  "masterTime (update rnd d w) = masterTime w"
  "currerntHighScore (update rnd d w) = currerntHighScore w"
  by (simp_all add: update_def)


lemma publish_enemy_player [simp]:
  "ident (player (publish_enemy e w)) = ident (player w)"
  "position (player (publish_enemy e w)) = position (player w)"
  "velocity (player (publish_enemy e w)) = velocity (player w)"
  "bsize (player (publish_enemy e w)) = bsize (player w)"
  "health (player (publish_enemy e w)) = health (player w)"
  "controller (player (publish_enemy e w)) = controller (player w)"
  "raw_input (player (publish_enemy e w)) = raw_input (player w)"
  "speed (player (publish_enemy e w)) = speed (player w)"
  "enemyTimer (player (publish_enemy e w)) = enemyTimer (player w)"
  "projectileReady (player (publish_enemy e w)) = projectileReady (player w)"
  "color (player (publish_enemy e w)) = color (player w)"
  "hit (player (publish_enemy e w)) = hit (player w)"
  "projectiles (player (publish_enemy e w)) = projectiles (player w)"
  by (simp_all add: publish_enemy_def)

lemma publish_projectile_player [simp]:
  "ident (player (publish_projectile q w)) = ident (player w)"
  "position (player (publish_projectile q w)) = position (player w)"
  "velocity (player (publish_projectile q w)) = velocity (player w)"
  "bsize (player (publish_projectile q w)) = bsize (player w)"
  "health (player (publish_projectile q w)) = health (player w)"
  "controller (player (publish_projectile q w)) = controller (player w)"
  "raw_input (player (publish_projectile q w)) = raw_input (player w)"
  "speed (player (publish_projectile q w)) = speed (player w)"
  "enemyTimer (player (publish_projectile q w)) = enemyTimer (player w)"
  "projectileReady (player (publish_projectile q w)) = projectileReady (player w)"
  "color (player (publish_projectile q w)) = color (player w)"
  "hit (player (publish_projectile q w)) = hit (player w)"
  "enemies (player (publish_projectile q w)) = enemies (player w)"
  by (simp_all add: publish_projectile_def)

lemma Enemy_hit_player_player [simp]:
  "ident (player (Enemy_hit_player e w)) = ident (player w)"
  "position (player (Enemy_hit_player e w)) = position (player w)"
  "velocity (player (Enemy_hit_player e w)) = velocity (player w)"
  "bsize (player (Enemy_hit_player e w)) = bsize (player w)"
  "controller (player (Enemy_hit_player e w)) = controller (player w)"
  "raw_input (player (Enemy_hit_player e w)) = raw_input (player w)"
  "speed (player (Enemy_hit_player e w)) = speed (player w)"
  "enemyTimer (player (Enemy_hit_player e w)) = enemyTimer (player w)"
  "projectileReady (player (Enemy_hit_player e w)) = projectileReady (player w)"
  "color (player (Enemy_hit_player e w)) = color (player w)"
  "enemies (player (Enemy_hit_player e w)) = enemies (player w)"
  "projectiles (player (Enemy_hit_player e w)) = projectiles (player w)"
  by (simp_all add: Enemy_hit_player_def remove_def)

lemma Enemy_update_player [simp]:
  "ident (player (snd (Enemy_update d e w))) = ident (player w)"
  "position (player (snd (Enemy_update d e w))) = position (player w)"
  "velocity (player (snd (Enemy_update d e w))) = velocity (player w)"
  "bsize (player (snd (Enemy_update d e w))) = bsize (player w)"
  "controller (player (snd (Enemy_update d e w))) = controller (player w)"
  "raw_input (player (snd (Enemy_update d e w))) = raw_input (player w)"
  "speed (player (snd (Enemy_update d e w))) = speed (player w)"
  "enemyTimer (player (snd (Enemy_update d e w))) = enemyTimer (player w)"
  "projectileReady (player (snd (Enemy_update d e w))) = projectileReady (player w)"
  "color (player (snd (Enemy_update d e w))) = color (player w)"
  "projectiles (player (snd (Enemy_update d e w))) = projectiles (player w)"
  by (simp_all add: Enemy_update_def Let_def)

lemma Projectile_update_player [simp]:
  "ident (player (snd (Projectile_update d q w))) = ident (player w)"
  "position (player (snd (Projectile_update d q w))) = position (player w)"
  "velocity (player (snd (Projectile_update d q w))) = velocity (player w)"
  "bsize (player (snd (Projectile_update d q w))) = bsize (player w)"
  "health (player (snd (Projectile_update d q w))) = health (player w)"
  "controller (player (snd (Projectile_update d q w))) = controller (player w)"
  "raw_input (player (snd (Projectile_update d q w))) = raw_input (player w)"
  "speed (player (snd (Projectile_update d q w))) = speed (player w)"
  "enemyTimer (player (snd (Projectile_update d q w))) = enemyTimer (player w)"
  "projectileReady (player (snd (Projectile_update d q w))) = projectileReady (player w)"
  "color (player (snd (Projectile_update d q w))) = color (player w)"
  "hit (player (snd (Projectile_update d q w))) = hit (player w)"
  "enemies (player (snd (Projectile_update d q w))) = enemies (player w)"
  by (simp_all add: Projectile_update_def Let_def)

lemma Player_spawn_player [simp]:
  "ident (player (Player_spawn rnd w)) = ident (player w)"
  "position (player (Player_spawn rnd w)) = position (player w)"
  "velocity (player (Player_spawn rnd w)) = velocity (player w)"
  "bsize (player (Player_spawn rnd w)) = bsize (player w)"
  "health (player (Player_spawn rnd w)) = health (player w)"
  "controller (player (Player_spawn rnd w)) = controller (player w)"
  "raw_input (player (Player_spawn rnd w)) = raw_input (player w)"
  "speed (player (Player_spawn rnd w)) = speed (player w)"
  "projectileReady (player (Player_spawn rnd w)) = projectileReady (player w)"
  "color (player (Player_spawn rnd w)) = color (player w)"
  "hit (player (Player_spawn rnd w)) = hit (player w)"
  "enemies (player (Player_spawn rnd w)) = enemies (player w)"
  "projectiles (player (Player_spawn rnd w)) = projectiles (player w)"
  by (simp_all add: Player_spawn_def Let_def)

lemma Player_arm_player [simp]:
  "ident (player (Player_arm w)) = ident (player w)"
  "position (player (Player_arm w)) = position (player w)"
  "velocity (player (Player_arm w)) = velocity (player w)"
  "bsize (player (Player_arm w)) = bsize (player w)"
  "health (player (Player_arm w)) = health (player w)"
  "controller (player (Player_arm w)) = controller (player w)"
  "raw_input (player (Player_arm w)) = raw_input (player w)"
  "speed (player (Player_arm w)) = speed (player w)"
  "enemyTimer (player (Player_arm w)) = enemyTimer (player w)"
  "color (player (Player_arm w)) = color (player w)"
  "hit (player (Player_arm w)) = hit (player w)"
  "enemies (player (Player_arm w)) = enemies (player w)"
  "projectiles (player (Player_arm w)) = projectiles (player w)"
  by (simp_all add: Player_arm_def)

lemma Player_fire_player [simp]:
  "ident (player (Player_fire w)) = ident (player w)"
  "position (player (Player_fire w)) = position (player w)"
  "velocity (player (Player_fire w)) = velocity (player w)"
  "bsize (player (Player_fire w)) = bsize (player w)"
  "health (player (Player_fire w)) = health (player w)"
  "controller (player (Player_fire w)) = controller (player w)"
  "raw_input (player (Player_fire w)) = raw_input (player w)"
  "speed (player (Player_fire w)) = speed (player w)"
  "enemyTimer (player (Player_fire w)) = enemyTimer (player w)"
  "color (player (Player_fire w)) = color (player w)"
  "hit (player (Player_fire w)) = hit (player w)"
  "enemies (player (Player_fire w)) = enemies (player w)"
  "projectiles (player (Player_fire w)) = projectiles (player w)"
  by (simp_all add: Player_fire_def Let_def)

lemma Player_update_player [simp]:
  "ident (player (Player_update rnd d w)) = ident (player w)"
  "velocity (player (Player_update rnd d w)) = velocity (player w)"
  "bsize (player (Player_update rnd d w)) = bsize (player w)"
  "health (player (Player_update rnd d w)) = health (player w)"
  "controller (player (Player_update rnd d w)) = controller (player w)"
  "raw_input (player (Player_update rnd d w)) = raw_input (player w)"
  "speed (player (Player_update rnd d w)) = speed (player w)"
  "enemies (player (Player_update rnd d w)) = enemies (player w)"
  "projectiles (player (Player_update rnd d w)) = projectiles (player w)"
  by (simp_all add: Player_update_def Let_def clip_position_def Body_update_def Player_move_def shift_def Player_flash_def)

lemma flush_one_player [simp]:
  "ident (player (flush_one i w)) = ident (player w)"
  "position (player (flush_one i w)) = position (player w)"
  "velocity (player (flush_one i w)) = velocity (player w)"
  "bsize (player (flush_one i w)) = bsize (player w)"
  "health (player (flush_one i w)) = health (player w)"
  "controller (player (flush_one i w)) = controller (player w)"
  "raw_input (player (flush_one i w)) = raw_input (player w)"
  "speed (player (flush_one i w)) = speed (player w)"
  "enemyTimer (player (flush_one i w)) = enemyTimer (player w)"
  "projectileReady (player (flush_one i w)) = projectileReady (player w)"
  "color (player (flush_one i w)) = color (player w)"
  "hit (player (flush_one i w)) = hit (player w)"
  by (simp_all add: flush_one_def)

lemma flush_player [simp]:
  "ident (player (flush w)) = ident (player w)"
  "position (player (flush w)) = position (player w)"
  "velocity (player (flush w)) = velocity (player w)"
  "bsize (player (flush w)) = bsize (player w)"
  "health (player (flush w)) = health (player w)"
  "controller (player (flush w)) = controller (player w)"
  "raw_input (player (flush w)) = raw_input (player w)"
  "speed (player (flush w)) = speed (player w)"
  "enemyTimer (player (flush w)) = enemyTimer (player w)"
  "projectileReady (player (flush w)) = projectileReady (player w)"
  "color (player (flush w)) = color (player w)"
  "hit (player (flush w)) = hit (player w)"
  by (simp_all add: flush_def fold_keeps_player)

lemma poll_player [simp]:
  "ident (player (poll w)) = ident (player w)"
  "position (player (poll w)) = position (player w)"
  "velocity (player (poll w)) = velocity (player w)"
  "bsize (player (poll w)) = bsize (player w)"
  "health (player (poll w)) = health (player w)"
  "raw_input (player (poll w)) = raw_input (player w)"
  "speed (player (poll w)) = speed (player w)"
  "enemyTimer (player (poll w)) = enemyTimer (player w)"
  "projectileReady (player (poll w)) = projectileReady (player w)"
  "color (player (poll w)) = color (player w)"
  "hit (player (poll w)) = hit (player w)"
  "enemies (player (poll w)) = enemies (player w)"
  "projectiles (player (poll w)) = projectiles (player w)"
  by (simp_all add: poll_def)

lemma spawn_enemies_player [simp]:
  "ident (player (spawn_enemies d w)) = ident (player w)"
  "position (player (spawn_enemies d w)) = position (player w)"
  "velocity (player (spawn_enemies d w)) = velocity (player w)"
  "bsize (player (spawn_enemies d w)) = bsize (player w)"
  "controller (player (spawn_enemies d w)) = controller (player w)"
  "raw_input (player (spawn_enemies d w)) = raw_input (player w)"
  "speed (player (spawn_enemies d w)) = speed (player w)"
  "enemyTimer (player (spawn_enemies d w)) = enemyTimer (player w)"
  "projectileReady (player (spawn_enemies d w)) = projectileReady (player w)"
  "color (player (spawn_enemies d w)) = color (player w)"
  "projectiles (player (spawn_enemies d w)) = projectiles (player w)"
  by (simp_all add: spawn_enemies_def split_beta split: option.split entity.split)

lemma update_entity_player [simp]:
  "ident (player (update_entity rnd d i w)) = ident (player w)"
  "velocity (player (update_entity rnd d i w)) = velocity (player w)"
  "bsize (player (update_entity rnd d i w)) = bsize (player w)"
  "controller (player (update_entity rnd d i w)) = controller (player w)"
  "raw_input (player (update_entity rnd d i w)) = raw_input (player w)"
  "speed (player (update_entity rnd d i w)) = speed (player w)"
  by (simp_all add: update_entity_def split_beta split: option.split entity.split)

lemma move_entities_player [simp]:
  "ident (player (move_entities rnd d w)) = ident (player w)"
  "velocity (player (move_entities rnd d w)) = velocity (player w)"
  "bsize (player (move_entities rnd d w)) = bsize (player w)"
  "controller (player (move_entities rnd d w)) = controller (player w)"
  "raw_input (player (move_entities rnd d w)) = raw_input (player w)"
  "speed (player (move_entities rnd d w)) = speed (player w)"
  by (simp_all add: move_entities_def fold_keeps_player)


section \<open>Rounding\<close>

lemma round_even_error: "\<bar>of_int (round_even q) - q\<bar> \<le> 1 / 2"
  unfolding round_even_def Let_def by (auto; linarith)

lemma ulp_pos: "0 < ulp x"
  by (simp add: ulp_def)

lemma fl_ulp: "\<bar>fl x - x\<bar> \<le> ulp x / 2"
proof -
  have "fl x - x = (of_int (round_even (x / ulp x)) - x / ulp x) * ulp x"
    using ulp_pos [of x] by (simp add: fl_def algebra_simps)
  then have "\<bar>fl x - x\<bar> = \<bar>of_int (round_even (x / ulp x)) - x / ulp x\<bar> * ulp x"
    using ulp_pos [of x] by (simp add: abs_mult)
  also have "\<dots> \<le> 1 / 2 * ulp x"
    using round_even_error [of "x / ulp x"] ulp_pos [of x]
    by (intro mult_right_mono) simp_all
  finally show ?thesis by simp
qed

lemma pow_interval:
  fixes n :: int
  assumes "2 ^ a \<le> n" and "n < 2 ^ b"
  shows "a < b"
proof (rule ccontr)
  assume "\<not> a < b"
  then have "(2::int) ^ b \<le> 2 ^ a"
    by (simp add: power_increasing)
  with assms show False by simp
qed

lemma binade_le:
  assumes "\<bar>x\<bar> < 2 ^ Suc k"
  shows "binade x \<le> int k"
proof (cases "1 \<le> \<bar>x\<bar>")
  case True
  let ?n = "\<lfloor>\<bar>x\<bar>\<rfloor>"
  from True have n: "0 < ?n" by simp
  from assms have "?n < 2 ^ Suc k"
    by (simp add: floor_less_iff)
  with bitlen_bounds [OF n] have "nat (bitlen ?n - 1) < Suc k"
    by (intro pow_interval [of _ ?n]) simp_all
  with True show ?thesis
    by (simp add: binade_def)
next
  case False
  with bitlen_nonneg [of "\<lceil>1 / \<bar>x\<bar>\<rceil> - 1"] show ?thesis
    by (simp add: binade_def)
qed

text \<open>Below \<open>2 ^ (k + 1)\<close> the rounding moves a number by no more than \<open>2 ^ (k - 53)\<close>.\<close>

lemma fl_error:
  assumes "\<bar>x\<bar> < 2 ^ Suc k"
  shows "\<bar>fl x - x\<bar> \<le> 2 ^ k / 2 ^ 53"
proof -
  from binade_le [OF assms] have "max (binade x) (- 1022) - 52 \<le> int k - 52"
    by simp
  then have "ulp x \<le> 2 powi (int k - 52)"
    unfolding ulp_def by (intro power_int_increasing) simp_all
  also have "\<dots> = 2 ^ k / 2 ^ 52"
    by (simp add: power_int_diff)
  finally show ?thesis
    using fl_ulp [of x] by simp
qed

lemma fl_0 [simp]: "fl 0 = 0"
  by (simp add: fl_def round_even_def)

text \<open>The fixed step is the binary64 number just below 1/60.\<close>

lemma step_value: "update_rate_seconds = 4803839602528529 / 2 ^ 58"
  unfolding update_rate_seconds_def fdiv_def by code_simp

lemma step_bounds: "1 / 64 + 1 / 2 ^ 14 < update_rate_seconds" "update_rate_seconds < 1 / 60"
  by (simp_all add: step_value)


section \<open>The world after the script has loaded\<close>

lemma boot_fields:
  "last_time (boot rnd) = None"
  "loop_count (boot rnd) = 0"
  "running_id (boot rnd) = 2"
  "enemiesHit (boot rnd) = 0"
  "enemyCount (boot rnd) = 0"
  "masterTime (boot rnd) = 0"
  "timeAliveCount (boot rnd) = 0"
  "prevAliveCount (boot rnd) = 0"
  "currerntHighScore (boot rnd) = 0"
  "masterHighScore (boot rnd) = 0"
  "projShotTime (boot rnd) = 0"
  "entities (boot rnd) = [0, 1]"
  "queued_entities_for_removal (boot rnd) = []"
  "player (boot rnd) = Player_fields 0"
  "enemy_spawner (boot rnd) = Some 1"
  "objects (boot rnd) =
     [1 \<mapsto> EnemyE (Enemy_fields rnd 1)]"
  by (simp_all add: boot_def start_def Let_def Player_new_def Enemy_new_def declared_def
      register_def)

section \<open>The fixed-timestep scheduler\<close>

lemma update_deltas_append: "update_deltas (cs @ ds) = update_deltas cs @ update_deltas ds"
  by (induction cs rule: update_deltas.induct) simp_all

lemma update_deltas_pairs:
  "update_deltas (concat (replicate n [CallUpdate d, CallDraw])) = replicate n d"
  by (induction n) simp_all

lemma loop_body_fields:
  "last_time (loop_body rnd c w) = Some c"
  "loop_count (loop_body rnd c w) = loop_count w + 1"
  by (simp_all add: loop_body_def Let_def)

text \<open>What the \<open>while\<close> has done when it returns.\<close>

lemma loop_while_calls:
  assumes "loop_while rnd c d w = Some y"
  shows "snd y = concat (replicate (length (update_deltas (snd y)))
                   [CallUpdate update_rate_seconds, CallDraw])
       \<and> loop_count (fst y) = loop_count w + length (update_deltas (snd y))
       \<and> (last_time (fst y) = last_time w \<or> last_time (fst y) = Some c)"
  using assms
proof (induction rnd c d w y rule: loop_while.raw_induct [rotated 1, consumes 1])
  case (1 f rnd c d w y)
  show ?case
  proof (cases "update_rate_seconds < d")
    case True
    with 1(2) obtain z where z: "f rnd c (fsub d update_rate_seconds) (loop_body rnd c w) = Some z"
      and y: "y = (fst z, CallUpdate update_rate_seconds # CallDraw # snd z)"
      by (auto simp: bind_eq_Some_conv)
    from 1(1) [OF z] show ?thesis
      by (simp add: y loop_body_fields)
  next
    case False
    with 1(2) show ?thesis
      by auto
  qed
qed

text \<open>
  The \<open>while\<close> returns when it starts from a \<open>delta_time\<close> of no more than \<open>2 ^ 40\<close> s: every
  turn takes more than 1/64 s off it.
\<close>

lemma loop_while_returns:
  assumes "d \<le> 2 ^ 40"
  shows "loop_while rnd c d w \<noteq> None"
  using assms
proof (induction "nat \<lfloor>64 * d\<rfloor>" arbitrary: d w rule: less_induct)
  case less
  show ?case
  proof (cases "update_rate_seconds < d")
    case False
    then show ?thesis
      by (subst loop_while.simps) simp
  next
    case True
    let ?d = "fsub d update_rate_seconds"
    from True step_bounds(1) have pos: "0 < d - update_rate_seconds" "1 / 64 < d"
      by simp_all
    with less.prems step_bounds(1) have "\<bar>d - update_rate_seconds\<bar> < 2 ^ Suc 39"
      by simp
    from fl_error [OF this] have "\<bar>?d - (d - update_rate_seconds)\<bar> \<le> 1 / 2 ^ 14"
      by (simp add: fsub_def)
    then have "?d \<le> d - update_rate_seconds + 1 / 2 ^ 14"
      by linarith
    with step_bounds(1) have small: "?d < d - 1 / 64"
      by simp
    then have "64 * ?d < 64 * d - 1"
      by simp
    then have "\<lfloor>64 * ?d\<rfloor> \<le> \<lfloor>64 * d - 1\<rfloor>"
      by (intro floor_mono) simp
    moreover from pos(2) have "1 \<le> \<lfloor>64 * d\<rfloor>"
      by (simp add: le_floor_iff)
    ultimately have "nat \<lfloor>64 * ?d\<rfloor> < nat \<lfloor>64 * d\<rfloor>"
      by simp
    moreover from small less.prems have "?d \<le> 2 ^ 40"
      by simp
    ultimately have "loop_while rnd c ?d (loop_body rnd c w) \<noteq> None"
      by (rule less.hyps)
    with True show ?thesis
      by (subst loop_while.simps) (auto simp: bind_eq_None_conv)
  qed
qed

lemma loop_head_times:
  "last_time (snd (loop_head t w)) =
     Some (case last_time w of None \<Rightarrow> fdiv t 1000 | Some l \<Rightarrow> l)"
  "fst (loop_head t w) =
     fsub (fdiv t 1000) (case last_time w of None \<Rightarrow> fdiv t 1000 | Some l \<Rightarrow> l)"
  "loop_count (snd (loop_head t w)) = loop_count w"
  by (simp_all add: loop_head_def Let_def split: option.split)

lemma time_bounds:
  assumes "\<bar>t\<bar> \<le> 2 ^ 40" and "last_bounded w"
  shows "\<bar>fdiv t 1000\<bar> \<le> 2 ^ 31" and "fst (loop_head t w) \<le> 2 ^ 40"
proof -
  from assms(1) have "\<bar>t / 1000\<bar> < 2 ^ Suc 30"
    by simp
  from fl_error [OF this] have "\<bar>fdiv t 1000 - t / 1000\<bar> \<le> 1"
    by (simp add: fdiv_def)
  moreover from assms(1) have "\<bar>t / 1000\<bar> \<le> 2 ^ 31 - 1"
    by simp
  ultimately show c: "\<bar>fdiv t 1000\<bar> \<le> 2 ^ 31"
    by linarith
  show "fst (loop_head t w) \<le> 2 ^ 40"
  proof (cases "last_time w")
    case None
    then show ?thesis
      by (simp add: loop_head_times fsub_def)
  next
    case (Some l)
    with assms(2) have "\<bar>l\<bar> \<le> 2 ^ 31"
      by (simp add: last_bounded_def)
    with c have "\<bar>fdiv t 1000 - l\<bar> < 2 ^ Suc 32"
      by simp
    from fl_error [OF this] have "\<bar>fsub (fdiv t 1000) l - (fdiv t 1000 - l)\<bar> \<le> 1"
      by (simp add: fsub_def)
    with c \<open>\<bar>l\<bar> \<le> 2 ^ 31\<close> have "fsub (fdiv t 1000) l \<le> 2 ^ 40"
      by simp
    with Some show ?thesis
      by (simp add: loop_head_times)
  qed
qed

lemma loop_calls:
  assumes "loop rnd t w = Some y"
  shows "snd y = concat (replicate (length (update_deltas (snd y)))
                   [CallUpdate update_rate_seconds, CallDraw]) @ [CallRequestAnimationFrame]"
    and "loop_count (fst y) = loop_count w + length (update_deltas (snd y))"
    and "last_time (fst y) = last_time (snd (loop_head t w)) \<or>
         last_time (fst y) = Some (fdiv t 1000)"
proof -
  from assms obtain z where z: "loop_while rnd (fdiv t 1000) (fst (loop_head t w))
      (snd (loop_head t w)) = Some z" and y: "y = (fst z, snd z @ [CallRequestAnimationFrame])"
    by (auto simp: loop_def split_beta bind_eq_Some_conv)
  note c = loop_while_calls [OF z]
  from c have "snd z @ [CallRequestAnimationFrame] =
      concat (replicate (length (update_deltas (snd z)))
        [CallUpdate update_rate_seconds, CallDraw]) @ [CallRequestAnimationFrame]"
    by simp
  then show "snd y = concat (replicate (length (update_deltas (snd y)))
      [CallUpdate update_rate_seconds, CallDraw]) @ [CallRequestAnimationFrame]"
    by (simp add: y update_deltas_append)
  from c show "loop_count (fst y) = loop_count w + length (update_deltas (snd y))"
    by (simp add: y update_deltas_append loop_head_times)
  from c show "last_time (fst y) = last_time (snd (loop_head t w)) \<or>
         last_time (fst y) = Some (fdiv t 1000)"
    by (simp add: y)
qed

lemma loop_returns:
  assumes "\<bar>t\<bar> \<le> 2 ^ 40" and "last_bounded w"
  shows "\<exists>y. loop rnd t w = Some y \<and> last_bounded (fst y)"
proof -
  from time_bounds(2) [OF assms] obtain z where z: "loop_while rnd (fdiv t 1000)
      (fst (loop_head t w)) (snd (loop_head t w)) = Some z"
    using loop_while_returns by blast
  then have y: "loop rnd t w = Some (fst z, snd z @ [CallRequestAnimationFrame])"
    by (simp add: loop_def split_beta)
  from loop_calls(3) [OF y] time_bounds(1) [OF assms] assms(2)
  have "last_bounded (fst z)"
    by (auto simp: last_bounded_def loop_head_times split: option.splits)
  with y show ?thesis
    by simp
qed

lemma last_bounded_keys: "last_bounded (keydown k w) = last_bounded w"
  "last_bounded (keyup k w) = last_bounded w"
  by (simp_all add: last_bounded_def keydown_def keyup_def)

lemma run_returns:
  assumes "list_all in_time evs" and "last_bounded w"
  shows "run rnd evs w \<noteq> None"
  using assms
proof (induction evs arbitrary: w)
  case Nil
  show ?case by simp
next
  case (Cons e evs)
  show ?case
  proof (cases e)
    case (Frame t)
    with Cons.prems have "\<bar>t\<bar> \<le> 2 ^ 40"
      by (simp add: in_time_def)
    from loop_returns [OF this Cons.prems(2)] obtain y
      where y: "loop rnd t w = Some y" "last_bounded (fst y)"
      by blast
    from Cons.prems(1) y(2) have "run rnd evs (fst y) \<noteq> None"
      by (intro Cons.IH) simp_all
    with y(1) Frame show ?thesis
      by (auto simp: split_beta)
  next
    case (KeyDown k)
    with Cons show ?thesis
      by (simp add: last_bounded_keys)
  next
    case (KeyUp k)
    with Cons show ?thesis
      by (simp add: last_bounded_keys)
  qed
qed

lemma replicate_append_same: "replicate m (v::real) @ replicate n v = replicate (m + n) v"
  by (simp add: replicate_add)

lemma run_calls:
  assumes "run rnd evs w = Some y"
  shows "update_deltas (snd y) = replicate (length (update_deltas (snd y))) update_rate_seconds
       \<and> loop_count (fst y) = loop_count w + length (update_deltas (snd y))"
  using assms
proof (induction rnd evs w arbitrary: y rule: run.induct)
  case (1 rnd w)
  then show ?case by auto
next
  case (2 rnd t evs w)
  from 2(2) obtain a b where a: "loop rnd t w = Some a" and b: "run rnd evs (fst a) = Some b"
    and y: "y = (fst b, snd a @ snd b)"
    by (auto simp: bind_eq_Some_conv split_beta)
  from loop_calls(1) [OF a]
  have da: "update_deltas (snd a) = replicate (length (update_deltas (snd a))) update_rate_seconds"
    by (metis update_deltas_append update_deltas_pairs update_deltas.simps(1,4) append_Nil2)
  from 2(1) [OF a _ b, of "snd a"]
  have db: "update_deltas (snd b) = replicate (length (update_deltas (snd b))) update_rate_seconds"
    and cb: "loop_count (fst b) = loop_count (fst a) + length (update_deltas (snd b))"
    by simp_all
  from da db have "update_deltas (snd a @ snd b) =
      replicate (length (update_deltas (snd a)) + length (update_deltas (snd b)))
        update_rate_seconds"
    by (metis update_deltas_append replicate_append_same)
  with cb loop_calls(2) [OF a] show ?case
    by (simp add: y update_deltas_append)
next
  case (3 rnd k evs w)
  then show ?case by (simp add: keydown_def)
next
  case (4 rnd k evs w)
  then show ?case by (simp add: keyup_def)
qed

text \<open>The frame at 50 ms after the one at 0 ms: the rounded \<open>delta_time\<close> lets three steps run.\<close>

lemma values_50:
  "fdiv 50 1000 = 3602879701896397 / 2 ^ 56"
  "fsub (3602879701896397 / 2 ^ 56) 0 = 3602879701896397 / 2 ^ 56"
  "fsub (3602879701896397 / 2 ^ 56) (4803839602528529 / 2 ^ 58) = 2401919801264265 / 2 ^ 56"
  "fsub (2401919801264265 / 2 ^ 56) (4803839602528529 / 2 ^ 58) = 4803839602528531 / 2 ^ 58"
  "fsub (4803839602528531 / 2 ^ 58) (4803839602528529 / 2 ^ 58) = 1 / 2 ^ 57"
  by code_simp+

lemma delta_50:
  "update_rate_seconds < fsub (fdiv 50 1000) 0"
  "update_rate_seconds < fsub (fsub (fdiv 50 1000) 0) update_rate_seconds"
  "update_rate_seconds <
     fsub (fsub (fsub (fdiv 50 1000) 0) update_rate_seconds) update_rate_seconds"
  "\<not> update_rate_seconds <
     fsub (fsub (fsub (fsub (fdiv 50 1000) 0) update_rate_seconds) update_rate_seconds)
       update_rate_seconds"
  unfolding step_value values_50 by simp_all

lemma loop_50: "loop rnd_half 50 world_loaded = Some (world_50, calls_50)"
proof -
  have l: "last_time world_loaded = Some 0"
    by (simp add: world_loaded_def loop_head_times boot_fields fdiv_def)
  then have d: "fst (loop_head 50 world_loaded) = fsub (fdiv 50 1000) 0"
    by (simp add: loop_head_times)
  show ?thesis
    unfolding loop_def split_beta Let_def d
    by (subst loop_while.simps, simp only: delta_50 if_True if_False)+
       (simp add: world_50_def calls_50_def)
qed

text \<open>
  C1. Whatever animation frames and key events the window delivers, when the callbacks
  return: every delta that \<open>loop\<close> has handed to \<open>update\<close> is the fixed step, the binary64
  quotient 1/60; the deltas of the \<open>N\<close> calls add up to \<open>N\<close> times the fixed step, where \<open>N\<close> is
  also what \<open>loop_count\<close> has advanced by; and the calls of one animation frame are whole
  pairs of one \<open>update\<close> with the fixed step and one \<open>draw\<close>, followed by the request for the next
  frame. The callbacks do return when no frame is later than \<open>2 ^ 40\<close> ms after the time
  origin.
\<close>

theorem scheduler_fixed_step:
  "(run rnd evs w = Some (v, cs) \<longrightarrow>
      update_deltas cs = replicate (length (update_deltas cs)) update_rate_seconds
      \<and> sum_list (update_deltas cs) = real (length (update_deltas cs)) * update_rate_seconds
      \<and> loop_count v = loop_count w + length (update_deltas cs))
   \<and> (loop rnd t w = Some (u, ds) \<longrightarrow>
        ds = concat (replicate (length (update_deltas ds))
               [CallUpdate update_rate_seconds, CallDraw]) @ [CallRequestAnimationFrame])
   \<and> (list_all in_time evs \<and> last_bounded w \<longrightarrow> run rnd evs w \<noteq> None)
   \<and> update_rate_seconds = fdiv 1 60"
proof -
  have "update_deltas cs = replicate (length (update_deltas cs)) update_rate_seconds
      \<and> sum_list (update_deltas cs) = real (length (update_deltas cs)) * update_rate_seconds
      \<and> loop_count v = loop_count w + length (update_deltas cs)"
    if r: "run rnd evs w = Some (v, cs)"
  proof -
    from run_calls [OF r]
    have eq: "update_deltas cs = replicate (length (update_deltas cs)) update_rate_seconds"
      and n: "loop_count v = loop_count w + length (update_deltas cs)"
      by simp_all
    have "sum_list (replicate (length (update_deltas cs)) update_rate_seconds) =
        real (length (update_deltas cs)) * update_rate_seconds"
      by (simp add: sum_list_replicate)
    with eq have "sum_list (update_deltas cs) =
        real (length (update_deltas cs)) * update_rate_seconds"
      by simp
    with eq n show ?thesis
      by simp
  qed
  moreover have "ds = concat (replicate (length (update_deltas ds))
      [CallUpdate update_rate_seconds, CallDraw]) @ [CallRequestAnimationFrame]"
    if "loop rnd t w = Some (u, ds)"
    using loop_calls(1) [OF that] by simp
  moreover have "run rnd evs w \<noteq> None" if "list_all in_time evs \<and> last_bounded w"
    using that by (simp add: run_returns)
  ultimately show ?thesis
    by (simp add: update_rate_seconds_def)
qed

text \<open>
  The frame at 50 ms after the one at 0 ms: \<open>delta_time\<close> is the binary64 number next to
  0.05, and three subtractions of the fixed step leave a positive remainder below it.
\<close>

theorem scheduler_fixed_step_witness:
  "list_all in_time [Frame 50] \<and> last_bounded world_loaded
   \<and> run rnd_half [Frame 50] world_loaded = Some (world_50, calls_50)
   \<and> loop rnd_half 50 world_loaded = Some (world_50, calls_50)
   \<and> update_deltas calls_50 = replicate 3 update_rate_seconds
   \<and> sum_list (update_deltas calls_50) = 3 * update_rate_seconds
   \<and> loop_count world_50 = 3
   \<and> calls_50 = concat (replicate 3 [CallUpdate update_rate_seconds, CallDraw])
        @ [CallRequestAnimationFrame]"
proof -
  have r: "run rnd_half [Frame 50] world_loaded = Some (world_50, calls_50)"
    by (simp add: loop_50)
  have n: "length (update_deltas calls_50) = 3" "loop_count world_loaded = 0"
    by (simp_all add: calls_50_def world_loaded_def loop_head_times boot_fields)
  have b: "list_all in_time [Frame 50]" "last_bounded world_loaded"
    by (simp_all add: in_time_def last_bounded_def world_loaded_def loop_head_times
        boot_fields fdiv_def)
  from scheduler_fixed_step [of rnd_half "[Frame 50]" world_loaded world_50 calls_50
      50 world_50 calls_50] r loop_50 n b
  show ?thesis
    by (simp add: numeral_3_eq_3)
qed


section \<open>Enemy movement\<close>

lemma js_rem_4: "js_rem a 4 = 0 \<longleftrightarrow> 4 dvd a"
  by (auto simp: js_rem_def sgn_if dvd_eq_mod_eq_0 zmod_zminus1_eq_if split: if_splits)

lemma diagonal_speed: "sqrt ((s * s) / 2) * 2 = \<bar>s\<bar> * sqrt 2"
proof -
  have half: "sqrt 2 * sqrt ((s * s) / 2) = \<bar>s\<bar>"
    by (simp add: real_sqrt_mult [symmetric])
  have "sqrt ((s * s) / 2) * 2 = sqrt 2 * (sqrt 2 * sqrt ((s * s) / 2))"
    by simp
  also have "\<dots> = sqrt 2 * \<bar>s\<bar>"
    by (simp only: half)
  finally show ?thesis
    by (simp add: mult.commute)
qed

lemma Enemy_update_fst:
  "fst (Enemy_update d e w) =
     clip_position (canvas_width + 50) (canvas_height + 50)
       (Body_update d (Enemy_move (position (player w)) e))"
  by (simp add: Enemy_update_def Let_def)

text \<open>
  C5 (amended). An enemy homes when the player's y minus its own y is strictly between 0
  and 150 and its rounded y is a multiple of 4. It then moves by
  \<open>sqrt (speed * speed / 2) * 2 / 1.5\<close>, which is \<open>\<bar>speed\<bar> * sqrt 2 / 1.5\<close>, on each axis: down,
  and to the right when the player's x is strictly greater than its own, to the left
  otherwise. When it does not home it falls by \<open>speed\<close>. \<open>Enemy.update\<close> then integrates
  the velocity and clips the position.
\<close>

theorem enemy_movement:
  "Enemy_move pp e =
     (if 0 < py pp - py (position e) \<and> py pp - py (position e) < 150 \<and>
         4 dvd Math_round (py (position e))
      then (if px (position e) < px pp
            then shift (\<bar>enemy_speed e\<bar> * sqrt 2 / 1.5) (\<bar>enemy_speed e\<bar> * sqrt 2 / 1.5) e
            else shift (- (\<bar>enemy_speed e\<bar> * sqrt 2 / 1.5)) (\<bar>enemy_speed e\<bar> * sqrt 2 / 1.5) e)
      else shift 0 (enemy_speed e) e)
   \<and> fst (Enemy_update d e w) =
       clip_position (canvas_width + 50) (canvas_height + 50)
         (Body_update d (Enemy_move (position (player w)) e))"
  by (simp add: Enemy_move_def Enemy_homing_def js_rem_4 diagonal_speed Let_def Enemy_update_fst)

lemma sqrt_9_2: "2 * sqrt (9 / 2) = 3 * sqrt 2"
  using diagonal_speed [of 3] by simp

lemma sqrt_9_2_neq: "sqrt (9 / 2) \<noteq> 3 * sqrt 2"
proof
  assume "sqrt (9 / 2) = 3 * sqrt 2"
  with sqrt_9_2 have "sqrt 2 = 0" by simp
  then show False by simp
qed

text \<open>
  An enemy of speed 3 at (100, 300) under a player at (180, 400) homes, and moves by
  \<open>2 * sqrt 2\<close> on each axis, not by \<open>speed * sqrt 2 * 2 / 1.5 = 4 * sqrt 2\<close>.
\<close>

theorem enemy_movement_counterexample:
  "0 < py \<lparr> px = 180, py = 400 \<rparr> - py (position enemy_300)
   \<and> py \<lparr> px = 180, py = 400 \<rparr> - py (position enemy_300) < 150
   \<and> 4 dvd Math_round (py (position enemy_300))
   \<and> position (Enemy_move \<lparr> px = 180, py = 400 \<rparr> enemy_300)
       = \<lparr> px = 100 + 2 * sqrt 2, py = 300 + 2 * sqrt 2 \<rparr>
   \<and> position (Enemy_move \<lparr> px = 180, py = 400 \<rparr> enemy_300)
       \<noteq> \<lparr> px = 100 + enemy_speed enemy_300 * sqrt 2 * 2 / 1.5,
             py = 300 + enemy_speed enemy_300 * sqrt 2 * 2 / 1.5 \<rparr>"
  by (simp add: enemy_300_def Enemy_move_def Enemy_homing_def js_rem_def Math_round_def
      Let_def shift_def sqrt_9_2 sqrt_9_2_neq)

section \<open>What an enemy queues\<close>

lemma queue_remove [simp]:
  "queued_entities_for_removal (remove i w) = queued_entities_for_removal w @ [i]"
  by (simp add: remove_def)

lemma queue_fold_remove:
  "queued_entities_for_removal (fold (\<lambda>p v. if P p then remove i v else v) ps w) =
     queued_entities_for_removal w @ replicate (length (filter P ps)) i"
  by (induction ps arbitrary: w) (simp_all add: replicate_app_Cons_same)

lemma queue_Enemy_hit_by_projectiles:
  "queued_entities_for_removal (Enemy_hit_by_projectiles e w) =
     queued_entities_for_removal w
     @ replicate (length (filter (near 10 (position e)) (present (projectiles (player w)))))
         (ident e)"
  by (simp add: Enemy_hit_by_projectiles_def queue_fold_remove)

lemma queue_remove_if_player_dead [simp]:
  "queued_entities_for_removal (remove_if_player_dead i w) =
     queued_entities_for_removal w @ pushes (health (player w) = 0) i"
  by (simp add: remove_if_player_dead_def pushes_def)

lemma queue_publish_enemy [simp]:
  "queued_entities_for_removal (publish_enemy e w) = queued_entities_for_removal w"
  by (simp add: publish_enemy_def)

lemma queue_Enemy_bug_fix [simp]:
  "queued_entities_for_removal (Enemy_bug_fix e w) =
     queued_entities_for_removal w @ pushes (ident e = 1) (ident e)"
  by (simp add: Enemy_bug_fix_def pushes_def)

lemma queue_Enemy_exit_view [simp]:
  "queued_entities_for_removal (Enemy_exit_view e w) =
     queued_entities_for_removal w @ pushes (py (position e) > 500) (ident e)"
  by (simp add: Enemy_exit_view_def pushes_def)

lemma queue_Enemy_hit_player [simp]:
  "queued_entities_for_removal (Enemy_hit_player e w) =
     queued_entities_for_removal w
     @ pushes (near 10 (position e) (position (player w))) (ident e)"
  by (simp add: Enemy_hit_player_def pushes_def)

lemma ident_shift [simp]: "ident (shift dx dy b) = ident b"
  by (simp add: shift_def)

lemma ident_Enemy_move [simp]: "ident (Enemy_move pp e) = ident e"
  by (simp add: Enemy_move_def Let_def)

lemma queue_Enemy_update:
  "queued_entities_for_removal (snd (Enemy_update d e w)) =
     queued_entities_for_removal w
     @ pushes (health (player w) = 0) (ident e)
     @ pushes (ident e = 1) (ident e)
     @ pushes (py (position (Enemy_move (position (player w)) e)) > 500) (ident e)
     @ replicate (length (filter (near 10 (position (Enemy_move (position (player w)) e)))
                            (present (projectiles (player w))))) (ident e)
     @ pushes (near 10 (position (Enemy_move (position (player w)) e)) (position (player w)))
         (ident e)"
  by (simp add: Enemy_update_def Let_def queue_Enemy_hit_by_projectiles)

text \<open>
  C6 (amended). In \<open>Enemy.update\<close> the pass over \<open>player.projectiles\<close> appends the enemy's id
  to the removal queue once for every stored projectile position that lies within 10
  units (a 20-unit box, bounds included) on both axes of the enemy's position after its
  move; so this pass queues the enemy exactly when some stored projectile is that near.
  The whole update leaves \<open>player.projectiles\<close>, the registry and the stored objects as they
  were, and every id it queues is the enemy's own: no projectile is removed here.
\<close>

theorem enemy_hit_by_projectile:
  "queued_entities_for_removal
     (Enemy_hit_by_projectiles (Enemy_move (position (player w)) e) w) =
     queued_entities_for_removal w
     @ replicate (length (filter (near 10 (position (Enemy_move (position (player w)) e)))
                            (present (projectiles (player w))))) (ident e)
   \<and> projectiles (player (snd (Enemy_update d e w))) = projectiles (player w)
   \<and> entities (snd (Enemy_update d e w)) = entities w
   \<and> objects (snd (Enemy_update d e w)) = objects w
   \<and> queued_entities_for_removal (snd (Enemy_update d e w)) =
       queued_entities_for_removal w
       @ pushes (health (player w) = 0) (ident e)
       @ pushes (ident e = 1) (ident e)
       @ pushes (py (position (Enemy_move (position (player w)) e)) > 500) (ident e)
       @ replicate (length (filter (near 10 (position (Enemy_move (position (player w)) e)))
                              (present (projectiles (player w))))) (ident e)
       @ pushes (near 10 (position (Enemy_move (position (player w)) e)) (position (player w)))
           (ident e)"
  by (auto simp add: queue_Enemy_hit_by_projectiles queue_Enemy_update pushes_def)

lemma boot_half_player:
  "player (boot rnd_half) = Player_fields 0"
  by (simp add: boot_def start_def Let_def Player_new_def Enemy_new_def declared_def register_def)

text \<open>
  An enemy that has moved to (100, 100), with one stored projectile at (109, 100): the
  projectile is not within 8 units, and the projectile pass queues the enemy all the same.
\<close>

theorem enemy_hit_by_projectile_counterexample:
  "present (projectiles (player world_shot)) = [\<lparr> px = 109, py = 100 \<rparr>]
   \<and> position (Enemy_move (position (player world_shot)) enemy_97) = \<lparr> px = 100, py = 100 \<rparr>
   \<and> \<not> near 8 \<lparr> px = 100, py = 100 \<rparr> \<lparr> px = 109, py = 100 \<rparr>
   \<and> queued_entities_for_removal world_shot = []
   \<and> queued_entities_for_removal
        (Enemy_hit_by_projectiles (Enemy_move (position (player world_shot)) enemy_97)
           world_shot) = [5]
   \<and> queued_entities_for_removal (snd (Enemy_update (1 / 60) enemy_97 world_shot)) = [5]"
  apply (simp add: queue_Enemy_update queue_Enemy_hit_by_projectiles pushes_def)
  apply (simp add: world_shot_def boot_half_player Player_fields_def enemy_97_def present_def
      near_def Enemy_move_def Enemy_homing_def Let_def shift_def
      canvas_width_def canvas_height_def js_rem_def Math_round_def)
  apply (simp add: boot_def start_def Let_def Player_new_def Enemy_new_def declared_def
      register_def)
  done

section \<open>The flush of the removal queue\<close>

lemma entities_fold_flush_one:
  "entities (fold flush_one q w) = filter (\<lambda>k. k \<notin> set q) (entities w)"
proof (induction q arbitrary: w)
  case Nil
  show ?case by simp
next
  case (Cons i q)
  have "entities (flush_one i w) = filter (\<lambda>k. k \<noteq> i) (entities w)"
    by (simp add: flush_one_def removeAll_filter_not_eq eq_commute)
  with Cons [of "flush_one i w"] show ?case
    by (simp add: conj_commute)
qed

lemma entities_flush:
  "entities (flush w) = filter (\<lambda>k. k \<notin> set (queued_entities_for_removal w)) (entities w)"
  by (simp add: flush_def entities_fold_flush_one)

lemma queue_flush [simp]: "queued_entities_for_removal (flush w) = []"
  by (simp add: flush_def)

lemma enemies_fold_flush_one:
  "enemies (player (fold flush_one q w)) = fold (\<lambda>i xs. splice1 xs i) q (enemies (player w))"
  by (induction q arbitrary: w) (simp_all add: flush_one_def)

lemma projectiles_fold_flush_one:
  "projectiles (player (fold flush_one q w)) =
     fold (\<lambda>i xs. splice1 xs i) q (projectiles (player w))"
  by (induction q arbitrary: w) (simp_all add: flush_one_def)

lemma enemies_flush:
  "enemies (player (flush w)) =
     fold (\<lambda>i xs. splice1 xs i) (queued_entities_for_removal w) (enemies (player w))"
  by (simp add: flush_def enemies_fold_flush_one)

lemma projectiles_flush:
  "projectiles (player (flush w)) =
     fold (\<lambda>i xs. splice1 xs i) (queued_entities_for_removal w) (projectiles (player w))"
  by (simp add: flush_def projectiles_fold_flush_one)

text \<open>
  The flush deletes from the registry exactly the keys that occur in the queue, so an id
  queued twice leaves the same registry as the id queued once: the id is gone, every
  other key is kept, and the queue is empty.
\<close>

lemma flush_registry:
  "entities (flush w) = filter (\<lambda>k. k \<notin> set (queued_entities_for_removal w)) (entities w)
   \<and> entities (flush (remove i (remove i w))) = entities (flush (remove i w))
   \<and> entities (flush (remove i w)) = removeAll i (entities (flush w))
   \<and> queued_entities_for_removal (flush (remove i (remove i w))) = []"
  by (simp add: entities_flush removeAll_filter_not_eq conj_commute eq_commute)

text \<open>
  C3. Queueing an id twice is not the same as queueing it once: the flush calls
  \<open>splice(id, 1)\<close> on \<open>player.enemies\<close> and \<open>player.projectiles\<close> once per queued occurrence, and
  the second call takes out the slot that has moved up to the index. With the positions
  of the enemies 2 and 3 stored at the indices 2 and 3, queueing id 2 once keeps the slot
  of enemy 3, and queueing it twice drops it as well. The registry is the same in both
  cases.
\<close>

theorem queue_twice_splices_twice:
  "enemies (player (flush (remove 2 world_pair))) = [None, None, Some \<lparr> px = 160, py = 60 \<rparr>]
   \<and> enemies (player (flush (remove 2 (remove 2 world_pair)))) = [None, None]
   \<and> entities (flush (remove 2 (remove 2 world_pair))) = entities (flush (remove 2 world_pair))
   \<and> flush (remove 2 (remove 2 world_pair)) \<noteq> flush (remove 2 world_pair)"
proof -
  have q: "queued_entities_for_removal world_pair = []"
    by (simp add: world_pair_def boot_fields)
  have once: "enemies (player (flush (remove 2 world_pair))) =
      [None, None, Some \<lparr> px = 160, py = 60 \<rparr>]"
    by (simp add: enemies_flush q) (simp add: world_pair_def splice1_def)
  have twice: "enemies (player (flush (remove 2 (remove 2 world_pair)))) = [None, None]"
    by (simp add: enemies_flush q) (simp add: world_pair_def splice1_def)
  from once twice have "flush (remove 2 (remove 2 world_pair)) \<noteq> flush (remove 2 world_pair)"
    by auto
  with once twice flush_registry [of world_pair 2] show ?thesis
    by simp
qed

section \<open>Ids stay consistent\<close>

lemma well_formed_iff:
  "well_formed w \<longleftrightarrow>
     distinct (entities w) \<and> ident (player w) \<in> set (entities w) \<and>
     (\<forall>i\<in>set (entities w). i < running_id w \<and> (i = ident (player w) \<or> stored_at w i)) \<and>
     (\<forall>i\<in>set (queued_entities_for_removal w). i < running_id w \<and> i \<noteq> ident (player w)) \<and>
     (\<forall>s. enemy_spawner w = Some s \<longrightarrow>
        s < running_id w \<and> s \<noteq> ident (player w) \<and> (\<exists>e. objects w s = Some (EnemyE e) \<and> ident e = s)) \<and>
     ident (player w) < running_id w"
  by (auto simp: well_formed_def list_all_iff split: option.splits entity.splits)

lemma grows_refl: "running_id v = running_id w \<Longrightarrow> entities v = entities w \<Longrightarrow> grows w v"
  by (simp add: grows_def)

lemma upt_join: "a \<le> b \<Longrightarrow> b \<le> c \<Longrightarrow> [a..<b] @ [b..<c] = [a..<c]"
  using upt_add_eq_append [of a b "c - b"] by simp

lemma grows_trans: "grows u v \<Longrightarrow> grows v w \<Longrightarrow> grows u w"
  by (simp add: grows_def upt_join)

lemma grows_register: "grows w (register w)"
  by (simp add: grows_def register_def)

lemma grows_Enemy_new: "grows w (Enemy_new rnd w)"
  by (simp add: grows_def Enemy_new_def Let_def register_def)

lemma grows_Projectile_new: "grows w (Projectile_new w)"
  by (simp add: grows_def Projectile_new_def Let_def register_def)

lemma grows_Player_spawn: "grows w (Player_spawn rnd w)"
  using grows_Enemy_new [of "w\<lparr>player := (player w)\<lparr>enemyTimer := enemyTimer (player w) + 1\<rparr>,
      enemyCount := enemyCount w + 1\<rparr>" rnd]
  by (simp add: Player_spawn_def Let_def grows_def)

lemma grows_Player_arm: "grows w (Player_arm w)"
  by (simp add: grows_refl)

lemma grows_Player_fire: "grows w (Player_fire w)"
  using grows_Projectile_new [of "w\<lparr>projShotTime := masterTime w\<rparr>"]
  by (simp add: Player_fire_def Let_def grows_def)

lemma grows_Player_update: "grows w (Player_update rnd d w)"
proof -
  have "grows w (Player_fire (Player_arm (Player_spawn rnd w)))"
    by (blast intro: grows_trans grows_Player_spawn grows_Player_arm grows_Player_fire)
  then show ?thesis
    by (simp add: Player_update_def Let_def grows_def)
qed

lemma grows_update_entity: "grows w (update_entity rnd d i w)"
  by (simp add: update_entity_def grows_Player_update grows_refl split_beta
      split: option.split entity.split)

lemma grows_fold_update_entity: "grows w (fold (update_entity rnd d) ks w)"
proof (induction ks arbitrary: w)
  case Nil
  show ?case by (simp add: grows_refl)
next
  case (Cons k ks)
  from grows_update_entity [of w rnd d k] Cons [of "update_entity rnd d k w"]
  show ?case by (auto intro: grows_trans)
qed


lemma set_pushes: "set (pushes c i) \<subseteq> {i}"
  by (auto simp: pushes_def)

lemma queue_Enemy_update_subset:
  "set (queued_entities_for_removal (snd (Enemy_update d e w))) \<subseteq>
     set (queued_entities_for_removal w) \<union> {ident e}"
  by (auto simp: queue_Enemy_update pushes_def)

lemma queue_fold_hit:
  "queued_entities_for_removal
     (fold (\<lambda>p v. if P p then remove i (v\<lparr>enemiesHit := enemiesHit v + 1\<rparr>) else v) ps w) =
   queued_entities_for_removal w @ replicate (length (filter P ps)) i"
  by (induction ps arbitrary: w) (simp_all add: replicate_app_Cons_same)

lemma queue_publish_projectile [simp]:
  "queued_entities_for_removal (publish_projectile q w) = queued_entities_for_removal w"
  by (simp add: publish_projectile_def)

lemma queue_Projectile_exit_view [simp]:
  "queued_entities_for_removal (Projectile_exit_view q w) =
     queued_entities_for_removal w @ pushes (py (projectile q) < 0) (ident q)"
  by (simp add: Projectile_exit_view_def pushes_def)

lemma queue_Projectile_hit_enemies:
  "queued_entities_for_removal (Projectile_hit_enemies q w) =
     queued_entities_for_removal w
     @ replicate (length (filter (near 8 (projectile q)) (present (enemies (player w)))))
         (ident q)"
  by (simp add: Projectile_hit_enemies_def queue_fold_hit)

lemma ident_Projectile_move [simp]: "ident (Projectile_move q) = ident q"
  by (simp add: Projectile_move_def)

lemma queue_Projectile_update:
  "queued_entities_for_removal (snd (Projectile_update d q w)) =
     queued_entities_for_removal w
     @ pushes (health (player w) = 0) (ident q)
     @ pushes (py (projectile (Projectile_move q)) < 0) (ident q)
     @ replicate (length (filter (near 8 (projectile (Projectile_move q)))
                            (present (enemies (player w))))) (ident q)"
  by (simp add: Projectile_update_def Let_def queue_Projectile_hit_enemies)

lemma queue_Projectile_update_subset:
  "set (queued_entities_for_removal (snd (Projectile_update d q w))) \<subseteq>
     set (queued_entities_for_removal w) \<union> {ident q}"
  by (auto simp: queue_Projectile_update pushes_def)

lemma ident_Body_update [simp]: "ident (Body_update d b) = ident b"
  by (simp add: Body_update_def)

lemma ident_clip_position [simp]: "ident (clip_position a b c) = ident c"
  by (simp add: clip_position_def)

lemma ident_Enemy_update [simp]: "ident (fst (Enemy_update d e w)) = ident e"
  by (simp add: Enemy_update_def Let_def)

lemma ident_Projectile_update [simp]: "ident (fst (Projectile_update d q w)) = ident q"
  by (simp add: Projectile_update_def Let_def Projectile_clip_def)

lemma queue_Enemy_update_cases:
  "i \<in> set (queued_entities_for_removal (snd (Enemy_update d e w))) \<Longrightarrow>
     i \<in> set (queued_entities_for_removal w) \<or> i = ident e"
  using queue_Enemy_update_subset [of d e w] by auto

lemma queue_Projectile_update_cases:
  "i \<in> set (queued_entities_for_removal (snd (Projectile_update d q w))) \<Longrightarrow>
     i \<in> set (queued_entities_for_removal w) \<or> i = ident q"
  using queue_Projectile_update_subset [of d q w] by auto

lemma well_formed_same:
  assumes wf: "well_formed w"
    and same: "running_id v = running_id w" "entities v = entities w" "objects v = objects w"
      "enemy_spawner v = enemy_spawner w" "ident (player v) = ident (player w)"
    and queue: "set (queued_entities_for_removal v) \<subseteq>
      set (queued_entities_for_removal w) \<union> {i}"
    and i: "i < running_id w" "i \<noteq> ident (player w)"
  shows "well_formed v"
proof -
  from same have st: "stored_at v = stored_at w"
    by (simp add: fun_eq_iff stored_at_def)
  have "\<forall>j\<in>set (queued_entities_for_removal v). j < running_id w \<and> j \<noteq> ident (player w)"
  proof
    fix j assume "j \<in> set (queued_entities_for_removal v)"
    with queue have "j \<in> set (queued_entities_for_removal w) \<or> j = i" by auto
    with wf i show "j < running_id w \<and> j \<noteq> ident (player w)"
      by (auto simp: well_formed_iff)
  qed
  with wf show ?thesis
    by (simp add: well_formed_iff same st)
qed

lemma well_formed_Enemy_update:
  assumes "well_formed w" and "ident e < running_id w" and "ident e \<noteq> ident (player w)"
  shows "well_formed (snd (Enemy_update d e w))"
  using assms(1) _ _ _ _ _ queue_Enemy_update_subset assms(2,3)
  by (rule well_formed_same) simp_all

lemma well_formed_Projectile_update:
  assumes "well_formed w" and "ident q < running_id w" and "ident q \<noteq> ident (player w)"
  shows "well_formed (snd (Projectile_update d q w))"
  using assms(1) _ _ _ _ _ queue_Projectile_update_subset assms(2,3)
  by (rule well_formed_same) simp_all

lemma well_formed_store:
  assumes "well_formed w" and "entity_ident b = i"
    and "enemy_spawner w = Some i \<longrightarrow> (\<exists>e. b = EnemyE e)"
  shows "well_formed (w\<lparr>objects := (objects w)(i \<mapsto> b)\<rparr>)"
  using assms by (auto simp: well_formed_iff stored_at_def entity_ident_def)

lemma well_formed_player:
  assumes "well_formed w" and "ident p = ident (player w)"
  shows "well_formed (w\<lparr>player := p\<rparr>)"
  using assms by (auto simp: well_formed_iff stored_at_def)

lemma ident_Enemy_fields [simp]: "ident (Enemy_fields rnd i) = i"
  by (simp add: Enemy_fields_def)

lemma ident_Projectile_fields [simp]: "ident (Projectile_fields i pp) = i"
  by (simp add: Projectile_fields_def)

lemma ident_Player_fields [simp]: "ident (Player_fields i) = i"
  by (simp add: Player_fields_def)

lemma well_formed_Enemy_new: "well_formed w \<Longrightarrow> well_formed (Enemy_new rnd w)"
  by (auto simp: well_formed_iff Enemy_new_def Let_def register_def entity_ident_def
      stored_at_def less_Suc_eq)

lemma well_formed_Projectile_new: "well_formed w \<Longrightarrow> well_formed (Projectile_new w)"
  by (auto simp: well_formed_iff Projectile_new_def Let_def register_def entity_ident_def
      stored_at_def less_Suc_eq)

lemma well_formed_Player_spawn: "well_formed w \<Longrightarrow> well_formed (Player_spawn rnd w)"
proof -
  assume wf: "well_formed w"
  let ?w1 = "w\<lparr>player := (player w)\<lparr>enemyTimer := enemyTimer (player w) + 1\<rparr>\<rparr>"
  from wf have 1: "well_formed ?w1"
    by (simp add: well_formed_player)
  then have "well_formed (?w1\<lparr>enemyCount := enemyCount ?w1 + 1\<rparr>)"
    by (simp add: well_formed_iff stored_at_def)
  then have "well_formed (Enemy_new rnd (?w1\<lparr>enemyCount := enemyCount ?w1 + 1\<rparr>))"
    by (rule well_formed_Enemy_new)
  with 1 show ?thesis
    by (simp add: Player_spawn_def Let_def)
qed

lemma well_formed_Player_arm: "well_formed w \<Longrightarrow> well_formed (Player_arm w)"
  by (simp add: Player_arm_def well_formed_player)

lemma well_formed_Player_fire: "well_formed w \<Longrightarrow> well_formed (Player_fire w)"
proof -
  assume wf: "well_formed w"
  then have "well_formed (w\<lparr>projShotTime := masterTime w\<rparr>)"
    by (simp add: well_formed_iff stored_at_def)
  then have "well_formed (Projectile_new (w\<lparr>projShotTime := masterTime w\<rparr>))"
    by (rule well_formed_Projectile_new)
  then have "well_formed ((Projectile_new (w\<lparr>projShotTime := masterTime w\<rparr>))
      \<lparr>player := (player (Projectile_new (w\<lparr>projShotTime := masterTime w\<rparr>)))
         \<lparr>projectileReady := False\<rparr>\<rparr>)"
    by (simp add: well_formed_player)
  with wf show ?thesis
    by (simp add: Player_fire_def Let_def)
qed

lemma ident_Player_flash [simp]: "ident (Player_flash p) = ident p"
  by (simp add: Player_flash_def Let_def)

lemma ident_Player_move [simp]: "ident (Player_move p) = ident p"
  by (simp add: Player_move_def Let_def)

lemma well_formed_Player_update: "well_formed w \<Longrightarrow> well_formed (Player_update rnd d w)"
  by (simp add: Player_update_def Let_def well_formed_player well_formed_Player_fire
      well_formed_Player_arm well_formed_Player_spawn)

lemma well_formed_update_entity:
  assumes wf: "well_formed w" and mem: "i \<in> set (entities w)"
  shows "well_formed (update_entity rnd d i w)"
proof (cases "i = ident (player w)")
  case True
  with wf show ?thesis
    by (simp add: update_entity_def well_formed_Player_update)
next
  case False
  with wf mem have st: "stored_at w i" and less: "i < running_id w"
    by (auto simp: well_formed_iff)
  then obtain b where b: "objects w i = Some b" and id: "entity_ident b = i"
    by (auto simp: stored_at_def split: option.splits)
  show ?thesis
  proof (cases b)
    case (EnemyE e)
    with id wf less False have "well_formed (snd (Enemy_update d e w))"
      by (simp add: well_formed_Enemy_update entity_ident_def)
    then have "well_formed ((snd (Enemy_update d e w))
        \<lparr>objects := (objects (snd (Enemy_update d e w)))(i \<mapsto> EnemyE (fst (Enemy_update d e w)))\<rparr>)"
      using id EnemyE by (intro well_formed_store) (simp_all add: entity_ident_def)
    with False b EnemyE show ?thesis
      by (simp add: update_entity_def split_beta)
  next
    case (ProjectileE q)
    from wf b ProjectileE have nosp: "enemy_spawner w \<noteq> Some i"
      by (auto simp: well_formed_iff)
    from ProjectileE id wf less False have "well_formed (snd (Projectile_update d q w))"
      by (simp add: well_formed_Projectile_update entity_ident_def)
    then have "well_formed ((snd (Projectile_update d q w))
        \<lparr>objects := (objects (snd (Projectile_update d q w)))
           (i \<mapsto> ProjectileE (fst (Projectile_update d q w)))\<rparr>)"
      using id ProjectileE nosp by (intro well_formed_store) (simp_all add: entity_ident_def)
    with False b ProjectileE show ?thesis
      by (simp add: update_entity_def split_beta)
  qed
qed

lemma well_formed_fold_update_entity:
  assumes "well_formed w" and "set ks \<subseteq> set (entities w)"
  shows "well_formed (fold (update_entity rnd d) ks w)"
  using assms
proof (induction ks arbitrary: w)
  case Nil
  then show ?case by simp
next
  case (Cons k ks)
  from Cons.prems have "well_formed (update_entity rnd d k w)"
    by (simp add: well_formed_update_entity)
  moreover from grows_update_entity [of w rnd d k] Cons.prems
  have "set ks \<subseteq> set (entities (update_entity rnd d k w))"
    by (auto simp: grows_def)
  ultimately show ?case
    using Cons.IH by simp
qed

lemma well_formed_poll: "well_formed w \<Longrightarrow> well_formed (poll w)"
  by (simp add: poll_def well_formed_player)

lemma well_formed_move_entities: "well_formed w \<Longrightarrow> well_formed (move_entities rnd d w)"
  unfolding move_entities_def by (rule well_formed_fold_update_entity) simp_all

lemma well_formed_flush: "well_formed w \<Longrightarrow> well_formed (flush w)"
proof -
  have "stored_at (flush w) = stored_at w"
    by (simp add: fun_eq_iff stored_at_def)
  moreover assume "well_formed w"
  ultimately show ?thesis
    by (auto simp: well_formed_iff entities_flush)
qed

lemma well_formed_spawn_enemies: "well_formed w \<Longrightarrow> well_formed (spawn_enemies d w)"
proof (cases "enemy_spawner w")
  case None
  assume "well_formed w"
  with None show ?thesis by (simp add: spawn_enemies_def)
next
  case (Some s)
  assume wf: "well_formed w"
  with Some obtain e where s: "s < running_id w" "s \<noteq> ident (player w)"
    and e: "objects w s = Some (EnemyE e)" "ident e = s"
    by (auto simp: well_formed_iff)
  with wf have "well_formed (snd (Enemy_update d e w))"
    by (simp add: well_formed_Enemy_update)
  then have "well_formed ((snd (Enemy_update d e w))
      \<lparr>objects := (objects (snd (Enemy_update d e w)))(s \<mapsto> EnemyE (fst (Enemy_update d e w)))\<rparr>)"
    using e by (intro well_formed_store) (simp_all add: entity_ident_def)
  with Some e show ?thesis
    by (simp add: spawn_enemies_def split_beta)
qed

lemma start_fields:
  "entities (start rnd w) = [running_id w, Suc (running_id w)]"
  "running_id (start rnd w) = Suc (Suc (running_id w))"
  "queued_entities_for_removal (start rnd w) = []"
  "enemy_spawner (start rnd w) = Some (Suc (running_id w))"
  "player (start rnd w) = Player_fields (running_id w)"
  "objects (start rnd w) =
     (objects w)(Suc (running_id w) \<mapsto> EnemyE (Enemy_fields rnd (Suc (running_id w))))"
  by (simp_all add: start_def Let_def Player_new_def Enemy_new_def register_def)

lemma well_formed_start: "well_formed (start rnd w)"
  by (auto simp: well_formed_iff start_fields Player_fields_def entity_ident_def stored_at_def)

lemma well_formed_update: "well_formed w \<Longrightarrow> well_formed (update rnd d w)"
  by (simp add: update_def restart_def well_formed_start well_formed_spawn_enemies
      well_formed_flush well_formed_move_entities well_formed_poll)

lemma well_formed_boot: "well_formed (boot rnd)"
  by (simp add: boot_def well_formed_start)

section \<open>Deferred removal\<close>

lemma step1_queue:
  "queued_entities_for_removal (move_entities rnd_half (1 / 60) (poll (boot rnd_half))) = [1]"
  apply (simp add: move_entities_def boot_fields)
  apply (simp add: update_entity_def poll_def boot_fields Player_fields_def)
  apply (simp add: Player_update_def Player_fire_def Player_arm_def Player_spawn_def Let_def
      pollController_def boot_fields Player_fields_def split_beta queue_Enemy_update pushes_def)
  apply (simp add: Enemy_move_def Enemy_homing_def shift_def Let_def canvas_width_def
      canvas_height_def clip_position_def Body_update_def Player_move_def Player_flash_def
      present_def near_def clip_def rnd_half_def Enemy_fields_def)
  done

lemma entities_update:
  "entities (update rnd d w) =
     (let m = move_entities rnd d (poll w); v = spawn_enemies d (flush m)
      in if isDead (player v) \<and> action_1 (controller (player v))
         then [running_id m, Suc (running_id m)]
         else filter (\<lambda>k. k \<notin> set (queued_entities_for_removal m)) (entities m))"
  by (simp add: update_def restart_def Let_def start_fields entities_flush)

text \<open>
  C2 (amended). In every update step of a world with consistent ids, the entity updates
  delete nothing from the registry: after any number of them it holds every key it held
  at the start of the step, followed by the ids constructed since. There is no collision
  handler, so the flush comes next, and every id that is in the queue when the flush runs
  is absent from the registry when the step is over.
\<close>

theorem deferred_removal:
  assumes "well_formed w"
    and "i \<in> set (queued_entities_for_removal (move_entities rnd d (poll w)))"
  shows "entities (fold (update_entity rnd d) (take n (entities w)) (poll w)) =
           entities w @
           [running_id w..<running_id (fold (update_entity rnd d) (take n (entities w)) (poll w))]
         \<and> i \<notin> set (entities (update rnd d w))"
proof
  from grows_fold_update_entity [of "poll w" rnd d "take n (entities w)"]
  show "entities (fold (update_entity rnd d) (take n (entities w)) (poll w)) =
           entities w @
           [running_id w..<running_id (fold (update_entity rnd d) (take n (entities w)) (poll w))]"
    by (simp add: grows_def)
next
  let ?m = "move_entities rnd d (poll w)"
  from assms(1) have "well_formed ?m"
    by (simp add: well_formed_move_entities well_formed_poll)
  with assms(2) have "i < running_id ?m"
    by (simp add: well_formed_iff)
  with assms(2) show "i \<notin> set (entities (update rnd d w))"
    by (simp add: entities_update Let_def)
qed

text \<open>The first step of the first session queues the id 1 and deletes it.\<close>

theorem deferred_removal_witness:
  "well_formed (boot rnd_half)
   \<and> 1 \<in> set (queued_entities_for_removal (move_entities rnd_half (1 / 60) (poll (boot rnd_half))))
   \<and> entities (fold (update_entity rnd_half (1 / 60)) (take 1 (entities (boot rnd_half)))
                 (poll (boot rnd_half))) = [0, 1]
   \<and> 1 \<notin> set (entities (update rnd_half (1 / 60) (boot rnd_half)))"
proof -
  have wf: "well_formed (boot rnd_half)"
    by (rule well_formed_boot)
  have q: "1 \<in> set (queued_entities_for_removal
      (move_entities rnd_half (1 / 60) (poll (boot rnd_half))))"
    by (simp add: step1_queue)
  have r: "running_id (fold (update_entity rnd_half (1 / 60)) (take 1 (entities (boot rnd_half)))
                 (poll (boot rnd_half))) = 2"
    by (simp add: boot_fields update_entity_def poll_def Player_fields_def Player_update_def
      Player_fire_def Player_arm_def Player_spawn_def Let_def pollController_def)
  from deferred_removal [OF wf q, of 1] wf q r show ?thesis
    by (simp add: boot_fields)
qed


lemma world_late_fields:
  "entities world_late = [2, 3]"
  "queued_entities_for_removal world_late = []"
  "enemy_spawner world_late = Some 3"
  "running_id world_late = 4"
  "player world_late = Player_fields 2"
  "objects world_late 3 = Some (EnemyE enemy_495)"
  by (simp_all add: world_late_def start_fields boot_fields)

lemma player_Enemy_hit_player:
  "player (Enemy_hit_player e w) =
     (if near 10 (position e) (position (player w))
      then (player w)\<lparr>hit := 100, health := health (player w) - 25\<rparr> else player w)"
  by (simp add: Enemy_hit_player_def remove_def)

lemma player_publish_enemy:
  "player (publish_enemy e w) =
     (player w)\<lparr>enemies := array_set (enemies (player w)) (ident e)
        \<lparr> px = px (position e), py = py (position e) \<rparr>\<rparr>"
  by (simp add: publish_enemy_def)

lemma player_Enemy_update:
  "player (snd (Enemy_update d e w)) =
     (if near 10 (position (Enemy_move (position (player w)) e)) (position (player w))
      then (player w)\<lparr>enemies := array_set (enemies (player w)) (ident e)
              \<lparr> px = px (position e), py = py (position e) \<rparr>,
            hit := 100, health := health (player w) - 25\<rparr>
      else (player w)\<lparr>enemies := array_set (enemies (player w)) (ident e)
              \<lparr> px = px (position e), py = py (position e) \<rparr>\<rparr>)"
  by (simp add: Enemy_update_def Let_def player_Enemy_hit_player player_publish_enemy)

lemma late_moved:
  "queued_entities_for_removal (move_entities rnd_half (1 / 60) (poll world_late)) = []"
  "entities (move_entities rnd_half (1 / 60) (poll world_late)) = [2, 3]"
  "objects (move_entities rnd_half (1 / 60) (poll world_late)) 3 =
     Some (EnemyE (enemy_495\<lparr>position := \<lparr> px = 160, py = 498 \<rparr>\<rparr>))"
  "health (player (move_entities rnd_half (1 / 60) (poll world_late))) = 100"
  "position (player (move_entities rnd_half (1 / 60) (poll world_late))) = \<lparr> px = 180, py = 400 \<rparr>"
  "projectiles (player (move_entities rnd_half (1 / 60) (poll world_late))) = []"
  "controller (player (move_entities rnd_half (1 / 60) (poll world_late))) =
     \<lparr> move_x = 0, move_y = 0, action_1 = False \<rparr>"
  "enemy_spawner (move_entities rnd_half (1 / 60) (poll world_late)) = Some 3"
  apply (simp_all add: move_entities_def world_late_fields)
  apply (simp_all add: update_entity_def poll_def world_late_fields Player_fields_def)
  apply (simp_all add: Player_update_def Player_fire_def Player_arm_def Player_spawn_def Let_def
      pollController_def world_late_fields Player_fields_def split_beta queue_Enemy_update
      pushes_def Enemy_update_fst player_Enemy_update)
  apply (simp_all add: Enemy_move_def Enemy_homing_def shift_def Let_def canvas_width_def
      canvas_height_def clip_position_def Body_update_def Player_move_def Player_flash_def
      present_def near_def clip_def enemy_495_def)
  done


lemma flush_empty: "queued_entities_for_removal w = [] \<Longrightarrow> flush w = w"
  by (simp add: flush_def)

lemma spawn_enemies_Enemy:
  assumes "enemy_spawner w = Some s" and "objects w s = Some (EnemyE e)"
  shows "spawn_enemies d w =
     (snd (Enemy_update d e w))\<lparr>objects := (objects w)(s \<mapsto> EnemyE (fst (Enemy_update d e w)))\<rparr>"
  using assms by (simp add: spawn_enemies_def split_beta)

lemma late_spawned:
  "queued_entities_for_removal
     (spawn_enemies (1 / 60) (move_entities rnd_half (1 / 60) (poll world_late))) = [3]"
  "health (player
     (spawn_enemies (1 / 60) (move_entities rnd_half (1 / 60) (poll world_late)))) = 100"
  apply (simp_all add: spawn_enemies_Enemy [OF late_moved(8) late_moved(3)])
  apply (simp_all add: queue_Enemy_update player_Enemy_update late_moved pushes_def)
  apply (simp_all add: Enemy_move_def Enemy_homing_def shift_def Let_def present_def near_def
      enemy_495_def)
  done

text \<open>
  In the second session the spawner is registered and \<open>update\<close> calls it twice in a step.
  At y = 495 its first update takes it to 498 and queues nothing; its second update, after
  the flush, takes it to 501 and queues it. Its id has been queued during the step, and it
  is still in the registry when the step is over.
\<close>

theorem deferred_removal_counterexample:
  "well_formed world_late
   \<and> entities world_late = [2, 3]
   \<and> enemy_spawner world_late = Some 3
   \<and> queued_entities_for_removal (move_entities rnd_half (1 / 60) (poll world_late)) = []
   \<and> queued_entities_for_removal (update rnd_half (1 / 60) world_late) = [3]
   \<and> entities (update rnd_half (1 / 60) world_late) = [2, 3]"
proof -
  have wf: "well_formed world_late"
    by (simp add: well_formed_def world_late_fields stored_at_def entity_ident_def
      enemy_495_def Player_fields_def)
  have f: "flush (move_entities rnd_half (1 / 60) (poll world_late)) =
      move_entities rnd_half (1 / 60) (poll world_late)"
    by (simp add: flush_empty late_moved)
  have "update rnd_half (1 / 60) world_late =
      spawn_enemies (1 / 60) (move_entities rnd_half (1 / 60) (poll world_late))"
    by (simp add: update_def restart_def isDead_def f late_spawned)
  with wf show ?thesis
    by (simp add: world_late_fields late_moved late_spawned)
qed

section \<open>The spawner of the first session\<close>

lemma update_no_restart:
  "\<not> restarts rnd d w \<Longrightarrow>
     update rnd d w = spawn_enemies d (flush (move_entities rnd d (poll w)))"
  by (auto simp: update_def restart_def restarts_def Let_def)

lemma queue_update_entity_mono:
  "set (queued_entities_for_removal w) \<subseteq> set (queued_entities_for_removal (update_entity rnd d i w))"
  by (auto simp: update_entity_def split_beta queue_Enemy_update queue_Projectile_update
      split: option.split entity.split)

lemma queue_fold_update_entity_mono:
  "set (queued_entities_for_removal w) \<subseteq>
     set (queued_entities_for_removal (fold (update_entity rnd d) ks w))"
proof (induction ks arbitrary: w)
  case Nil
  show ?case by simp
next
  case (Cons k ks)
  from queue_update_entity_mono [of w rnd d k] Cons [of "update_entity rnd d k w"]
  show ?case by auto
qed

lemma first_session_update_entity:
  assumes "first_session w" and "i \<in> set (entities w)"
  shows "first_session (update_entity rnd d i w)"
  using assms by (simp add: first_session_def well_formed_update_entity)

lemma spawner_queued_by_update_entity:
  assumes "first_session w"
  shows "1 \<in> set (queued_entities_for_removal (update_entity rnd d 1 w))"
proof -
  from assms obtain e where e: "objects w 1 = Some (EnemyE e)" "ident e = 1"
    and p: "ident (player w) \<noteq> 1"
    by (auto simp: first_session_def well_formed_iff)
  then show ?thesis
    by (simp add: update_entity_def split_beta queue_Enemy_update pushes_def)
qed

lemma spawner_queued_by_fold:
  assumes "first_session w" and "set ks \<subseteq> set (entities w)" and "1 \<in> set ks"
  shows "1 \<in> set (queued_entities_for_removal (fold (update_entity rnd d) ks w))"
  using assms
proof (induction ks arbitrary: w)
  case Nil
  then show ?case by simp
next
  case (Cons k ks)
  from Cons.prems have fs: "first_session (update_entity rnd d k w)"
    by (simp add: first_session_update_entity)
  from grows_update_entity [of w rnd d k] Cons.prems
  have sub: "set ks \<subseteq> set (entities (update_entity rnd d k w))"
    by (auto simp: grows_def)
  show ?case
  proof (cases "k = 1")
    case True
    with Cons.prems spawner_queued_by_update_entity [of w rnd d]
    have "1 \<in> set (queued_entities_for_removal (update_entity rnd d k w))"
      by simp
    with queue_fold_update_entity_mono [of "update_entity rnd d k w" rnd d ks]
    show ?thesis by auto
  next
    case False
    with Cons.prems have "1 \<in> set ks" by simp
    with Cons.IH [OF fs sub] show ?thesis by simp
  qed
qed

lemma spawner_not_registered_after_flush:
  assumes "first_session w"
  shows "1 \<notin> set (entities (flush (move_entities rnd d w)))"
proof (cases "1 \<in> set (entities w)")
  case True
  with assms spawner_queued_by_fold [of w "entities w" rnd d]
  have "1 \<in> set (queued_entities_for_removal (move_entities rnd d w))"
    by (simp add: move_entities_def)
  then show ?thesis
    by (simp add: entities_flush)
next
  case False
  from assms have "1 < running_id w"
    by (simp add: first_session_def well_formed_iff)
  with False grows_fold_update_entity [of w rnd d "entities w"]
  have "1 \<notin> set (entities (move_entities rnd d w))"
    by (simp add: move_entities_def grows_def)
  then show ?thesis
    by (simp add: entities_flush)
qed


lemma first_session_poll: "first_session w \<Longrightarrow> first_session (poll w)"
  by (simp add: first_session_def well_formed_poll)

lemma first_session_before_spawn:
  assumes "first_session w"
  shows "first_session (flush (move_entities rnd d (poll w)))"
  using assms
  by (simp add: first_session_def well_formed_flush well_formed_move_entities well_formed_poll)

lemma queue_spawn_enemies_first:
  assumes "first_session w" and "queued_entities_for_removal w = []"
  shows "\<exists>n. queued_entities_for_removal (spawn_enemies d w) = replicate (Suc n) 1"
proof -
  from assms obtain e where e: "objects w 1 = Some (EnemyE e)" "ident e = 1"
    and s: "enemy_spawner w = Some 1"
    by (auto simp: first_session_def well_formed_iff)
  let ?e1 = "Enemy_move (position (player w)) e"
  let ?n = "length (pushes (health (player w) = 0) (1::nat))
            + (length (pushes (py (position ?e1) > 500) (1::nat))
               + (length (filter (near 10 (position ?e1)) (present (projectiles (player w))))
                  + length (pushes (near 10 (position ?e1) (position (player w))) (1::nat))))"
  from e s assms(2) have "queued_entities_for_removal (spawn_enemies d w) = replicate (Suc ?n) 1"
    by (simp add: spawn_enemies_Enemy queue_Enemy_update pushes_def replicate_add
        replicate_app_Cons_same)
  then show ?thesis ..
qed

text \<open>
  C9 (amended). In the first session, where the spawner has the id 1, a step that does not
  restart leaves the spawner out of the registry (the first step deletes it, because its
  update queues the id 1), yet \<open>update\<close> still calls \<open>enemy_spawner.update\<close> after the flush, and
  that call appends the id 1 to the emptied queue at least once, and nothing else. The
  flush of the next step therefore deletes a key that the registry does not hold, and
  splices one slot at index 1 out of \<open>player.enemies\<close> and out of \<open>player.projectiles\<close> for
  every occurrence of the id.
\<close>

theorem spawner_requeued:
  assumes "first_session w" and "\<not> restarts rnd d w"
  shows "first_session (update rnd d w)
       \<and> 1 \<notin> set (entities (update rnd d w))
       \<and> (\<exists>n. queued_entities_for_removal (update rnd d w) = replicate (Suc n) 1)
       \<and> entities (flush (update rnd d w)) = entities (update rnd d w)
       \<and> enemies (player (flush (update rnd d w))) =
           ((\<lambda>xs. splice1 xs 1) ^^ length (queued_entities_for_removal (update rnd d w)))
             (enemies (player (update rnd d w)))
       \<and> projectiles (player (flush (update rnd d w))) =
           ((\<lambda>xs. splice1 xs 1) ^^ length (queued_entities_for_removal (update rnd d w)))
             (projectiles (player (update rnd d w)))"
proof -
  let ?v = "flush (move_entities rnd d (poll w))"
  let ?u = "update rnd d w"
  from assms(2) have u: "?u = spawn_enemies d ?v"
    by (rule update_no_restart)
  from assms(1) have fv: "first_session ?v"
    by (rule first_session_before_spawn)
  then have fu: "first_session ?u"
    by (simp add: u first_session_def well_formed_spawn_enemies)
  from assms(1) have "1 \<notin> set (entities ?v)"
    using spawner_not_registered_after_flush [of "poll w" rnd d]
    by (simp add: first_session_poll)
  then have absent: "1 \<notin> set (entities ?u)"
    by (simp add: u)
  from fv obtain n where q: "queued_entities_for_removal ?u = replicate (Suc n) 1"
    using queue_spawn_enemies_first [of ?v d] by (auto simp: u)
  have splices: "fold (\<lambda>i xs. splice1 xs i) (replicate k 1) ys = ((\<lambda>xs. splice1 xs 1) ^^ k) ys"
    for k and ys :: "point option list"
    by (induction k arbitrary: ys) (simp_all add: funpow_Suc_right del: funpow.simps)
  from absent q have "entities (flush ?u) = entities ?u"
    by (auto simp add: entities_flush filter_id_conv simp del: replicate.simps)
  moreover from q have "enemies (player (flush ?u)) =
      ((\<lambda>xs. splice1 xs 1) ^^ length (queued_entities_for_removal ?u)) (enemies (player ?u))"
    by (simp add: enemies_flush splices del: replicate.simps)
  moreover from q have "projectiles (player (flush ?u)) =
      ((\<lambda>xs. splice1 xs 1) ^^ length (queued_entities_for_removal ?u)) (projectiles (player ?u))"
    by (simp add: projectiles_flush splices del: replicate.simps)
  ultimately show ?thesis
    using fu absent q by blast
qed


lemma first_session_boot: "first_session (boot rnd)"
  by (simp add: first_session_def well_formed_boot boot_fields)

lemma boot_no_restart: "\<not> restarts rnd d (boot rnd)"
  by (simp add: restarts_def Let_def poll_def pollController_def boot_fields Player_fields_def)

text \<open>The first step after the script has loaded.\<close>

theorem spawner_requeued_witness:
  "first_session (boot rnd_half)
   \<and> \<not> restarts rnd_half (1 / 60) (boot rnd_half)
   \<and> 1 \<in> set (entities (boot rnd_half))
   \<and> first_session (update rnd_half (1 / 60) (boot rnd_half))
   \<and> 1 \<notin> set (entities (update rnd_half (1 / 60) (boot rnd_half)))
   \<and> (\<exists>n. queued_entities_for_removal (update rnd_half (1 / 60) (boot rnd_half)) =
          replicate (Suc n) 1)"
  using spawner_requeued [OF first_session_boot boot_no_restart, of rnd_half "1 / 60"]
    first_session_boot [of rnd_half] boot_no_restart [of rnd_half "1 / 60"]
  by (simp add: boot_fields)

lemma world_second_fields:
  "entities world_second = [2, 3]"
  "queued_entities_for_removal world_second = []"
  "enemy_spawner world_second = Some 3"
  "running_id world_second = 4"
  "player world_second = Player_fields 2"
  "objects world_second 3 =
     Some (EnemyE \<lparr> ident = 3, position = \<lparr> px = 160, py = - 50 \<rparr>,
                     velocity = \<lparr> px = 0, py = 0 \<rparr>, bsize = \<lparr> px = 10, py = 10 \<rparr>,
                     health = 100, enemy_speed = 3 \<rparr>)"
  by (simp_all add: world_second_def start_fields boot_fields rnd_half_def Enemy_fields_def)

lemma second_moved:
  "queued_entities_for_removal (move_entities rnd_half (1 / 60) (poll world_second)) = []"
  "entities (move_entities rnd_half (1 / 60) (poll world_second)) = [2, 3]"
  "objects (move_entities rnd_half (1 / 60) (poll world_second)) 3 =
     Some (EnemyE \<lparr> ident = 3, position = \<lparr> px = 160, py = 0 \<rparr>,
                     velocity = \<lparr> px = 0, py = 0 \<rparr>, bsize = \<lparr> px = 10, py = 10 \<rparr>,
                     health = 100, enemy_speed = 3 \<rparr>)"
  "health (player (move_entities rnd_half (1 / 60) (poll world_second))) = 100"
  "position (player (move_entities rnd_half (1 / 60) (poll world_second))) =
     \<lparr> px = 180, py = 400 \<rparr>"
  "projectiles (player (move_entities rnd_half (1 / 60) (poll world_second))) = []"
  "enemy_spawner (move_entities rnd_half (1 / 60) (poll world_second)) = Some 3"
  apply (simp_all add: move_entities_def world_second_fields)
  apply (simp_all add: update_entity_def poll_def world_second_fields Player_fields_def)
  apply (simp_all add: Player_update_def Player_fire_def Player_arm_def Player_spawn_def Let_def
      pollController_def world_second_fields Player_fields_def split_beta queue_Enemy_update
      pushes_def Enemy_update_fst player_Enemy_update)
  apply (simp_all add: Enemy_move_def Enemy_homing_def shift_def Let_def canvas_width_def
      canvas_height_def clip_position_def Body_update_def Player_move_def Player_flash_def
      present_def near_def clip_def)
  done

lemma second_spawned:
  "queued_entities_for_removal
     (spawn_enemies (1 / 60) (move_entities rnd_half (1 / 60) (poll world_second))) = []"
  "health (player
     (spawn_enemies (1 / 60) (move_entities rnd_half (1 / 60) (poll world_second)))) = 100"
  apply (simp_all add: spawn_enemies_Enemy [OF second_moved(7) second_moved(3)])
  apply (simp_all add: queue_Enemy_update player_Enemy_update second_moved pushes_def)
  apply (simp_all add: Enemy_move_def Enemy_homing_def shift_def Let_def present_def near_def)
  done

text \<open>
  Ids are never handed out twice, so in a session that a restart has started the spawner
  has another id than 1: after the first step of the second session it is still in the
  registry, and nothing has been queued.
\<close>

theorem spawner_requeued_counterexample:
  "enemy_spawner world_second = Some 3
   \<and> entities world_second = [2, 3]
   \<and> enemy_spawner (update rnd_half (1 / 60) world_second) = Some 3
   \<and> entities (update rnd_half (1 / 60) world_second) = [2, 3]
   \<and> queued_entities_for_removal (update rnd_half (1 / 60) world_second) = []"
proof -
  have f: "flush (move_entities rnd_half (1 / 60) (poll world_second)) =
      move_entities rnd_half (1 / 60) (poll world_second)"
    by (simp add: flush_empty second_moved)
  have "update rnd_half (1 / 60) world_second =
      spawn_enemies (1 / 60) (move_entities rnd_half (1 / 60) (poll world_second))"
    by (simp add: update_def restart_def isDead_def f second_spawned)
  then show ?thesis
    by (simp add: world_second_fields second_moved second_spawned)
qed

section \<open>What the player's update does\<close>

lemma Player_shift_keeps [simp]:
  "controller (shift dx dy (p::Player)) = controller p"
  "raw_input (shift dx dy (p::Player)) = raw_input p"
  "speed (shift dx dy (p::Player)) = speed p"
  "enemyTimer (shift dx dy (p::Player)) = enemyTimer p"
  "projectileReady (shift dx dy (p::Player)) = projectileReady p"
  "color (shift dx dy (p::Player)) = color p"
  "hit (shift dx dy (p::Player)) = hit p"
  "enemies (shift dx dy (p::Player)) = enemies p"
  "projectiles (shift dx dy (p::Player)) = projectiles p"
  "health (shift dx dy (p::Player)) = health p"
  "velocity (shift dx dy (p::Player)) = velocity p"
  "bsize (shift dx dy (p::Player)) = bsize p"
  by (simp_all add: shift_def)

lemma Player_clip_position_keeps [simp]:
  "controller (clip_position a b (p::Player)) = controller p"
  "raw_input (clip_position a b (p::Player)) = raw_input p"
  "speed (clip_position a b (p::Player)) = speed p"
  "enemyTimer (clip_position a b (p::Player)) = enemyTimer p"
  "projectileReady (clip_position a b (p::Player)) = projectileReady p"
  "color (clip_position a b (p::Player)) = color p"
  "hit (clip_position a b (p::Player)) = hit p"
  "enemies (clip_position a b (p::Player)) = enemies p"
  "projectiles (clip_position a b (p::Player)) = projectiles p"
  "health (clip_position a b (p::Player)) = health p"
  "velocity (clip_position a b (p::Player)) = velocity p"
  "bsize (clip_position a b (p::Player)) = bsize p"
  by (simp_all add: clip_position_def)

lemma Player_Body_update_keeps [simp]:
  "controller (Body_update d (p::Player)) = controller p"
  "raw_input (Body_update d (p::Player)) = raw_input p"
  "speed (Body_update d (p::Player)) = speed p"
  "enemyTimer (Body_update d (p::Player)) = enemyTimer p"
  "projectileReady (Body_update d (p::Player)) = projectileReady p"
  "color (Body_update d (p::Player)) = color p"
  "hit (Body_update d (p::Player)) = hit p"
  "enemies (Body_update d (p::Player)) = enemies p"
  "projectiles (Body_update d (p::Player)) = projectiles p"
  "health (Body_update d (p::Player)) = health p"
  "velocity (Body_update d (p::Player)) = velocity p"
  "bsize (Body_update d (p::Player)) = bsize p"
  by (simp_all add: Body_update_def)

lemma Player_move_keeps [simp]:
  "controller (Player_move p) = controller p"
  "raw_input (Player_move p) = raw_input p"
  "speed (Player_move p) = speed p"
  "enemyTimer (Player_move p) = enemyTimer p"
  "projectileReady (Player_move p) = projectileReady p"
  "color (Player_move p) = color p"
  "hit (Player_move p) = hit p"
  "enemies (Player_move p) = enemies p"
  "projectiles (Player_move p) = projectiles p"
  "health (Player_move p) = health p"
  "velocity (Player_move p) = velocity p"
  "bsize (Player_move p) = bsize p"
  by (simp_all add: Player_move_def Let_def)

lemma Player_flash_keeps [simp]:
  "controller (Player_flash p) = controller p"
  "raw_input (Player_flash p) = raw_input p"
  "speed (Player_flash p) = speed p"
  "enemyTimer (Player_flash p) = enemyTimer p"
  "projectileReady (Player_flash p) = projectileReady p"
  "enemies (Player_flash p) = enemies p"
  "projectiles (Player_flash p) = projectiles p"
  "health (Player_flash p) = health p"
  "velocity (Player_flash p) = velocity p"
  "bsize (Player_flash p) = bsize p"
  by (simp_all add: Player_flash_def Let_def)

lemma position_Player_flash [simp]: "position (Player_flash p) = position p"
  by (simp add: Player_flash_def Let_def)

lemma Player_spawn_eq:
  "Player_spawn rnd w =
     (if spawns w
      then Enemy_new rnd (w\<lparr>player := (player w)\<lparr>enemyTimer := enemyTimer (player w) + 1\<rparr>,
                             enemyCount := enemyCount w + 1\<rparr>)
      else w\<lparr>player := (player w)\<lparr>enemyTimer := enemyTimer (player w) + 1\<rparr>\<rparr>)"
  by (simp add: Player_spawn_def spawns_def Let_def)

lemma Player_spawn_effect:
  "player (Player_spawn rnd w) = (player w)\<lparr>enemyTimer := enemyTimer (player w) + 1\<rparr>"
  "running_id (Player_spawn rnd w) = running_id w + (if spawns w then 1 else 0)"
  "enemyCount (Player_spawn rnd w) = enemyCount w + (if spawns w then 1 else 0)"
  "objects (Player_spawn rnd w) =
     (if spawns w then (objects w)(running_id w \<mapsto> EnemyE (Enemy_fields rnd (running_id w)))
      else objects w)"
  by (simp_all add: Player_spawn_eq Enemy_new_def register_def)

lemma Player_arm_effect:
  "player (Player_arm w) =
     (player w)\<lparr>projectileReady :=
        projectileReady (player w) \<or> enemyTimer (player w) mod 40 = 0\<rparr>"
  by (simp add: Player_arm_def)

lemma fires_after_arm:
  "(action_1 (controller (player (Player_arm (Player_spawn rnd w)))) \<and>
    projectileReady (player (Player_arm (Player_spawn rnd w))) \<and>
    masterTime (Player_arm (Player_spawn rnd w)) >
      fadd (projShotTime (Player_arm (Player_spawn rnd w))) (1 / 2)) = fires w"
  by (auto simp: fires_def Player_arm_effect Player_spawn_effect)

lemma Player_fire_eq:
  "Player_fire (Player_arm (Player_spawn rnd w)) =
     (let v = Player_arm (Player_spawn rnd w)
      in if fires w
         then (Projectile_new (v\<lparr>projShotTime := masterTime v\<rparr>))
                \<lparr>player := (player v)\<lparr>projectileReady := False\<rparr>\<rparr>
         else v)"
  using fires_after_arm [of rnd w]
  by (auto simp: Player_fire_def Let_def)

lemma Player_update_effect:
  "enemyTimer (player (Player_update rnd d w)) = enemyTimer (player w) + 1"
  "running_id (Player_update rnd d w) =
     running_id w + (if spawns w then 1 else 0) + (if fires w then 1 else 0)"
  "enemyCount (Player_update rnd d w) = enemyCount w + (if spawns w then 1 else 0)"
  "projShotTime (Player_update rnd d w) = (if fires w then masterTime w else projShotTime w)"
  "projectileReady (player (Player_update rnd d w)) =
     (\<not> fires w \<and> (projectileReady (player w) \<or> (enemyTimer (player w) + 1) mod 40 = 0))"
  by (simp_all add: Player_update_def Player_fire_eq Let_def Projectile_new_def register_def
      Player_arm_effect Player_spawn_effect)

lemma objects_Player_update:
  "objects (Player_update rnd d w) =
     (let o1 = (if spawns w
                then (objects w)(running_id w \<mapsto> EnemyE (Enemy_fields rnd (running_id w)))
                else objects w);
          r1 = running_id w + (if spawns w then 1 else 0)
      in if fires w
         then o1(r1 \<mapsto> ProjectileE (Projectile_fields r1 (position (player w))))
         else o1)"
  by (simp add: Player_update_def Player_fire_eq Let_def Projectile_new_def register_def
      Player_arm_effect Player_spawn_effect)

lemma clip_bounds: "0 \<le> hi \<Longrightarrow> 0 \<le> clip v hi \<and> clip v hi \<le> hi"
  by (simp add: clip_def)

lemma position_Player_update:
  "0 \<le> px (position (player (Player_update rnd d w)))"
  "px (position (player (Player_update rnd d w))) \<le> 360"
  "0 \<le> py (position (player (Player_update rnd d w)))"
  "py (position (player (Player_update rnd d w))) \<le> 500"
  by (simp_all add: Player_update_def Let_def clip_position_def clip_def canvas_width_def
      canvas_height_def)


lemma update_entity_other:
  assumes "i \<noteq> ident (player w)"
  shows "running_id (update_entity rnd d i w) = running_id w"
    and "entities (update_entity rnd d i w) = entities w"
    and "enemyCount (update_entity rnd d i w) = enemyCount w"
    and "projShotTime (update_entity rnd d i w) = projShotTime w"
    and "enemyTimer (player (update_entity rnd d i w)) = enemyTimer (player w)"
    and "projectileReady (player (update_entity rnd d i w)) = projectileReady (player w)"
    and "position (player (update_entity rnd d i w)) = position (player w)"
    and "k \<noteq> i \<Longrightarrow> objects (update_entity rnd d i w) k = objects w k"
  using assms
  by (simp_all add: update_entity_def split_beta split: option.split entity.split)

lemma fold_update_entity_others:
  assumes "ident (player w) \<notin> set ks"
  shows "running_id (fold (update_entity rnd d) ks w) = running_id w"
    and "entities (fold (update_entity rnd d) ks w) = entities w"
    and "enemyCount (fold (update_entity rnd d) ks w) = enemyCount w"
    and "projShotTime (fold (update_entity rnd d) ks w) = projShotTime w"
    and "enemyTimer (player (fold (update_entity rnd d) ks w)) = enemyTimer (player w)"
    and "projectileReady (player (fold (update_entity rnd d) ks w)) = projectileReady (player w)"
    and "position (player (fold (update_entity rnd d) ks w)) = position (player w)"
    and "k \<notin> set ks \<Longrightarrow> objects (fold (update_entity rnd d) ks w) k = objects w k"
  using assms
  by (induction ks arbitrary: w) (simp_all add: update_entity_other)

lemma fold_update_entity_keeps [simp]:
  "ident (player (fold (update_entity rnd d) ks w)) = ident (player w)"
  "controller (player (fold (update_entity rnd d) ks w)) = controller (player w)"
  "raw_input (player (fold (update_entity rnd d) ks w)) = raw_input (player w)"
  "masterTime (fold (update_entity rnd d) ks w) = masterTime w"
  "enemy_spawner (fold (update_entity rnd d) ks w) = enemy_spawner w"
  by (induction ks arbitrary: w) simp_all

lemma spawns_others:
  "ident (player w) \<notin> set ks \<Longrightarrow> spawns (fold (update_entity rnd d) ks w) = spawns w"
  by (simp add: spawns_def fold_update_entity_others)

lemma fires_others:
  "ident (player w) \<notin> set ks \<Longrightarrow> fires (fold (update_entity rnd d) ks w) = fires w"
  by (simp add: fires_def fold_update_entity_others)

lemma registry_split:
  assumes "well_formed w"
  obtains xs ys where "entities w = xs @ ident (player w) # ys"
    and "ident (player w) \<notin> set xs" and "ident (player w) \<notin> set ys"
proof -
  from assms have "ident (player w) \<in> set (entities w)" and d: "distinct (entities w)"
    by (simp_all add: well_formed_iff)
  then obtain xs ys where e: "entities w = xs @ ident (player w) # ys"
    by (auto dest: split_list)
  with d have "ident (player w) \<notin> set xs" "ident (player w) \<notin> set ys"
    by auto
  with e that show thesis by blast
qed

lemma move_entities_split:
  assumes "entities w = xs @ ident (player w) # ys"
  shows "move_entities rnd d w =
     fold (update_entity rnd d) ys
       (Player_update rnd d (fold (update_entity rnd d) xs w))"
  using assms by (simp add: move_entities_def update_entity_def)

lemma ident_player_Player_update [simp]:
  "ident (player (Player_update rnd d w)) = ident (player w)"
  by simp

lemma move_entities_effect:
  assumes "well_formed w"
  shows "enemyTimer (player (move_entities rnd d w)) = enemyTimer (player w) + 1"
    and "running_id (move_entities rnd d w) =
           running_id w + (if spawns w then 1 else 0) + (if fires w then 1 else 0)"
    and "enemyCount (move_entities rnd d w) = enemyCount w + (if spawns w then 1 else 0)"
    and "projShotTime (move_entities rnd d w) = (if fires w then masterTime w else projShotTime w)"
    and "projectileReady (player (move_entities rnd d w)) =
           (\<not> fires w \<and> (projectileReady (player w) \<or> (enemyTimer (player w) + 1) mod 40 = 0))"
    and "0 \<le> px (position (player (move_entities rnd d w)))"
    and "px (position (player (move_entities rnd d w))) \<le> 360"
    and "0 \<le> py (position (player (move_entities rnd d w)))"
    and "py (position (player (move_entities rnd d w))) \<le> 500"
proof -
  from assms obtain xs ys where e: "entities w = xs @ ident (player w) # ys"
    and xs: "ident (player w) \<notin> set xs" and ys: "ident (player w) \<notin> set ys"
    by (rule registry_split)
  let ?w1 = "fold (update_entity rnd d) xs w"
  let ?w2 = "Player_update rnd d ?w1"
  have m: "move_entities rnd d w = fold (update_entity rnd d) ys ?w2"
    using e by (rule move_entities_split)
  from ys have ys2: "ident (player ?w2) \<notin> set ys"
    by simp
  note o1 = fold_update_entity_others [OF xs, where rnd = rnd and d = d]
  note o2 = fold_update_entity_others [OF ys2, where rnd = rnd and d = d]
  show "enemyTimer (player (move_entities rnd d w)) = enemyTimer (player w) + 1"
    by (simp add: m o2 Player_update_effect o1)
  show "running_id (move_entities rnd d w) =
           running_id w + (if spawns w then 1 else 0) + (if fires w then 1 else 0)"
    by (simp add: m o2 Player_update_effect o1 spawns_others [OF xs] fires_others [OF xs])
  show "enemyCount (move_entities rnd d w) = enemyCount w + (if spawns w then 1 else 0)"
    by (simp add: m o2 Player_update_effect o1 spawns_others [OF xs])
  show "projShotTime (move_entities rnd d w) = (if fires w then masterTime w else projShotTime w)"
    by (simp add: m o2 Player_update_effect o1 fires_others [OF xs])
  show "projectileReady (player (move_entities rnd d w)) =
           (\<not> fires w \<and> (projectileReady (player w) \<or> (enemyTimer (player w) + 1) mod 40 = 0))"
    by (simp add: m o2 Player_update_effect o1 fires_others [OF xs])
  show "0 \<le> px (position (player (move_entities rnd d w)))"
    by (simp add: m o2 position_Player_update)
  show "px (position (player (move_entities rnd d w))) \<le> 360"
    by (simp add: m o2 position_Player_update)
  show "0 \<le> py (position (player (move_entities rnd d w)))"
    by (simp add: m o2 position_Player_update)
  show "py (position (player (move_entities rnd d w))) \<le> 500"
    by (simp add: m o2 position_Player_update)
qed

section \<open>Positions after a step\<close>

lemma Enemy_update_clipped:
  "0 \<le> px (position (fst (Enemy_update d e w)))"
  "px (position (fst (Enemy_update d e w))) \<le> 410"
  "0 \<le> py (position (fst (Enemy_update d e w)))"
  "py (position (fst (Enemy_update d e w))) \<le> 550"
  by (simp_all add: Enemy_update_fst clip_position_def clip_def canvas_width_def
      canvas_height_def)

lemma enemy_in_view_updated:
  assumes "i \<noteq> ident (player w)"
  shows "enemy_in_view (update_entity rnd d i w) i"
  using assms
  by (simp add: enemy_in_view_def update_entity_def split_beta Enemy_update_clipped
      split: option.split entity.split)

lemma objects_Player_update_old:
  "k < running_id w \<Longrightarrow> objects (Player_update rnd d w) k = objects w k"
  by (simp add: objects_Player_update Let_def)

lemma objects_update_entity_old:
  assumes "k \<noteq> i" and "k < running_id w"
  shows "objects (update_entity rnd d i w) k = objects w k"
proof (cases "i = ident (player w)")
  case True
  with assms show ?thesis
    by (simp add: update_entity_def objects_Player_update_old)
next
  case False
  with assms show ?thesis
    by (simp add: update_entity_other)
qed

lemma running_id_update_entity_mono: "running_id w \<le> running_id (update_entity rnd d i w)"
  using grows_update_entity [of w rnd d i] by (simp add: grows_def)

lemma enemy_in_view_fold:
  assumes "k \<in> set ks \<or> enemy_in_view w k"
    and "k \<noteq> ident (player w)" and "k < running_id w"
  shows "enemy_in_view (fold (update_entity rnd d) ks w) k"
  using assms
proof (induction ks arbitrary: w)
  case Nil
  then show ?case by simp
next
  case (Cons j ks)
  let ?v = "update_entity rnd d j w"
  from Cons.prems have k: "k \<noteq> ident (player ?v)" "k < running_id ?v"
    using running_id_update_entity_mono [of w rnd d j] by simp_all
  have "k \<in> set ks \<or> enemy_in_view ?v k"
  proof (cases "j = k")
    case True
    with Cons.prems show ?thesis
      by (simp add: enemy_in_view_updated)
  next
    case False
    with Cons.prems have "objects ?v k = objects w k"
      by (simp add: objects_update_entity_old)
    with False Cons.prems show ?thesis
      by (auto simp: enemy_in_view_def)
  qed
  with k Cons.IH [of ?v] show ?case
    by simp
qed

lemma enemy_in_view_spawn_enemies:
  assumes "enemy_in_view w k"
  shows "enemy_in_view (spawn_enemies d w) k"
  using assms
  by (auto simp: enemy_in_view_def spawn_enemies_def split_beta Enemy_update_clipped
      split: option.splits entity.splits)

lemma enemy_in_view_flush: "enemy_in_view (flush w) k = enemy_in_view w k"
  by (simp add: enemy_in_view_def)

lemma enemy_in_view_start:
  assumes "enemy_in_view w k" and "k < running_id w"
  shows "enemy_in_view (start rnd w) k"
  using assms by (simp add: enemy_in_view_def start_fields)

lemma player_in_view_start: "player_in_view (start rnd w)"
  by (simp add: player_in_view_def start_fields Player_fields_def canvas_width_def
      canvas_height_def)

text \<open>
  C8 (amended). After every update step of a world with consistent ids the player's
  position lies within [0,360] x [0,500], and every enemy that was registered when the
  step began lies within [0,410] x [0,550]: its own update has clipped it. (An enemy
  that the step itself constructs is not updated in that step.)
\<close>

theorem positions_after_step:
  assumes "well_formed w"
  shows "player_in_view (update rnd d w)
       \<and> (k \<in> set (entities w) \<and> k \<noteq> ident (player w) \<longrightarrow> enemy_in_view (update rnd d w) k)"
proof
  let ?m = "move_entities rnd d (poll w)"
  let ?v = "spawn_enemies d (flush ?m)"
  from assms have wp: "well_formed (poll w)"
    by (rule well_formed_poll)
  from move_entities_effect(6-9) [OF wp, of rnd d] have "player_in_view ?v"
    by (simp add: player_in_view_def)
  then show "player_in_view (update rnd d w)"
    by (simp add: update_def restart_def player_in_view_start)
  show "k \<in> set (entities w) \<and> k \<noteq> ident (player w) \<longrightarrow> enemy_in_view (update rnd d w) k"
  proof
    assume k: "k \<in> set (entities w) \<and> k \<noteq> ident (player w)"
    with assms have less: "k < running_id w"
      by (simp add: well_formed_iff)
    with k have "enemy_in_view ?m k"
      unfolding move_entities_def
      by (intro enemy_in_view_fold) simp_all
    then have v: "enemy_in_view ?v k"
      by (simp add: enemy_in_view_spawn_enemies enemy_in_view_flush)
    from less running_id_update_entity_mono have "k < running_id ?v"
      using grows_fold_update_entity [of "poll w" rnd d "entities (poll w)"]
      by (simp add: move_entities_def grows_def)
    with v show "enemy_in_view (update rnd d w) k"
      by (simp add: update_def restart_def enemy_in_view_start)
  qed
qed


lemma queue_update_entity_subset:
  assumes "well_formed w" and "i \<in> set (entities w)"
  shows "set (queued_entities_for_removal (update_entity rnd d i w)) \<subseteq>
     set (queued_entities_for_removal w) \<union> {i}"
proof (cases "i = ident (player w)")
  case True
  then show ?thesis
    by (auto simp: update_entity_def)
next
  case False
  with assms have "stored_at w i"
    by (auto simp: well_formed_iff)
  then obtain b where b: "objects w i = Some b" "entity_ident b = i"
    by (auto simp: stored_at_def split: option.splits)
  with False show ?thesis
    by (cases b)
      (auto simp: update_entity_def split_beta entity_ident_def
        dest: queue_Enemy_update_cases queue_Projectile_update_cases)
qed

lemma queue_fold_update_entity_subset:
  assumes "well_formed w" and "set ks \<subseteq> set (entities w)"
  shows "set (queued_entities_for_removal (fold (update_entity rnd d) ks w)) \<subseteq>
     set (queued_entities_for_removal w) \<union> set ks"
  using assms
proof (induction ks arbitrary: w)
  case Nil
  show ?case by simp
next
  case (Cons j ks)
  let ?v = "update_entity rnd d j w"
  from Cons.prems have "well_formed ?v"
    by (simp add: well_formed_update_entity)
  moreover from grows_update_entity [of w rnd d j] Cons.prems
  have "set ks \<subseteq> set (entities ?v)"
    by (auto simp: grows_def)
  ultimately have "set (queued_entities_for_removal (fold (update_entity rnd d) ks ?v)) \<subseteq>
      set (queued_entities_for_removal ?v) \<union> set ks"
    by (rule Cons.IH)
  moreover from Cons.prems queue_update_entity_subset [of w j rnd d]
  have "set (queued_entities_for_removal ?v) \<subseteq>
      set (queued_entities_for_removal w) \<union> {j}"
    by simp
  ultimately show ?case
    by auto
qed

lemma move_entities_spawned:
  assumes "well_formed w" and "spawns w"
  shows "objects (move_entities rnd d w) (running_id w) =
           Some (EnemyE (Enemy_fields rnd (running_id w)))"
    and "running_id w \<in> set (entities (move_entities rnd d w))"
    and "running_id w \<notin> set (queued_entities_for_removal (move_entities rnd d w))"
proof -
  from assms(1) obtain xs ys where e: "entities w = xs @ ident (player w) # ys"
    and xs: "ident (player w) \<notin> set xs" and ys: "ident (player w) \<notin> set ys"
    by (rule registry_split)
  let ?w1 = "fold (update_entity rnd d) xs w"
  let ?w2 = "Player_update rnd d ?w1"
  have m: "move_entities rnd d w = fold (update_entity rnd d) ys ?w2"
    using e by (rule move_entities_split)
  from ys have ys2: "ident (player ?w2) \<notin> set ys"
    by simp
  from assms(1) e have "running_id w \<notin> set ys"
    by (auto simp: well_formed_iff)
  with ys2 have "objects (move_entities rnd d w) (running_id w) = objects ?w2 (running_id w)"
    by (simp add: m fold_update_entity_others)
  also from assms(2) have "\<dots> = Some (EnemyE (Enemy_fields rnd (running_id w)))"
    by (simp add: objects_Player_update Let_def spawns_others [OF xs]
        fold_update_entity_others [OF xs])
  finally show "objects (move_entities rnd d w) (running_id w) =
           Some (EnemyE (Enemy_fields rnd (running_id w)))" .
  from assms grows_fold_update_entity [of w rnd d "entities w"]
  show "running_id w \<in> set (entities (move_entities rnd d w))"
    by (simp add: move_entities_def [symmetric] grows_def move_entities_effect)
  from assms(1) queue_fold_update_entity_subset [of w "entities w" rnd d]
  show "running_id w \<notin> set (queued_entities_for_removal (move_entities rnd d w))"
    by (auto simp: move_entities_def well_formed_iff)
qed

lemma objects_spawn_enemies_other:
  "enemy_spawner w \<noteq> Some k \<Longrightarrow> objects (spawn_enemies d w) k = objects w k"
  by (auto simp: spawn_enemies_def split_beta split: option.split entity.split)

lemma spawns_poll [simp]: "spawns (poll w) = spawns w"
  by (simp add: spawns_def)

lemma fires_poll: "fires (poll w) \<Longrightarrow> 32 \<in> raw_input (player w)"
  by (simp add: fires_def poll_def pollController_def)

lemma quiet_no_restart: "32 \<notin> raw_input (player w) \<Longrightarrow> \<not> restarts rnd d w"
  by (simp add: restarts_def Let_def poll_def pollController_def)

lemma quiet_step:
  assumes "well_formed w" and "32 \<notin> raw_input (player w)"
  shows "raw_input (player (update rnd d w)) = raw_input (player w)"
    and "enemyTimer (player (update rnd d w)) = enemyTimer (player w) + 1"
    and "running_id (update rnd d w) = running_id w + (if spawns w then 1 else 0)"
    and "spawns w \<Longrightarrow> running_id w \<in> set (entities (update rnd d w))"
    and "spawns w \<Longrightarrow>
           objects (update rnd d w) (running_id w) = Some (EnemyE (Enemy_fields rnd (running_id w)))"
proof -
  from assms(2) have u: "update rnd d w = spawn_enemies d (flush (move_entities rnd d (poll w)))"
    by (simp add: update_no_restart quiet_no_restart)
  from assms(1) have wp: "well_formed (poll w)"
    by (rule well_formed_poll)
  from assms(2) have nf: "\<not> fires (poll w)"
    using fires_poll by blast
  show "raw_input (player (update rnd d w)) = raw_input (player w)"
    by (simp add: u)
  show "enemyTimer (player (update rnd d w)) = enemyTimer (player w) + 1"
    by (simp add: u move_entities_effect [OF wp])
  show "running_id (update rnd d w) = running_id w + (if spawns w then 1 else 0)"
    by (simp add: u move_entities_effect [OF wp] nf)
  show "running_id w \<in> set (entities (update rnd d w))" if "spawns w"
    using that move_entities_spawned(2,3) [OF wp, where rnd = rnd and d = d]
    by (simp add: u entities_flush)
  show "objects (update rnd d w) (running_id w) = Some (EnemyE (Enemy_fields rnd (running_id w)))"
    if "spawns w"
  proof -
    from assms(1) have "enemy_spawner w \<noteq> Some (running_id w)"
      by (auto simp: well_formed_iff)
    with that move_entities_spawned(1) [OF wp, where rnd = rnd and d = d] show ?thesis
      by (simp add: u objects_spawn_enemies_other)
  qed
qed

lemma quiet_steps:
  assumes "well_formed w" and "32 \<notin> raw_input (player w)"
  shows "well_formed ((update rnd d ^^ n) w)
       \<and> raw_input (player ((update rnd d ^^ n) w)) = raw_input (player w)
       \<and> enemyTimer (player ((update rnd d ^^ n) w)) = enemyTimer (player w) + n"
  using assms
  by (induction n) (simp_all add: well_formed_update quiet_step)

lemma quiet_steps_ids:
  assumes "well_formed w" and "32 \<notin> raw_input (player w)" and "enemyTimer (player w) = 0"
  shows "running_id ((update rnd d ^^ n) w) = running_id w + n div 20"
proof (induction n)
  case 0
  show ?case by simp
next
  case (Suc n)
  let ?v = "(update rnd d ^^ n) w"
  from quiet_steps [OF assms(1,2), where rnd = rnd and d = d and n = n] assms(3)
  have v: "well_formed ?v" "32 \<notin> raw_input (player ?v)" "enemyTimer (player ?v) = n"
    using assms(2) by simp_all
  then have "spawns ?v \<longleftrightarrow> Suc n mod 20 = 0"
    by (simp add: spawns_def)
  with Suc quiet_step(3) [OF v(1,2), where rnd = rnd and d = d] show ?case
    by (simp add: div_Suc)
qed


lemma boot_quiet: "32 \<notin> raw_input (player (boot rnd))"
  by (simp add: boot_fields Player_fields_def)

lemma boot_timer: "enemyTimer (player (boot rnd)) = 0"
  by (simp add: boot_fields Player_fields_def)

text \<open>The first step after the script has loaded, and the enemy with the id 1.\<close>

theorem positions_after_step_witness:
  "well_formed (boot rnd_half)
   \<and> 1 \<in> set (entities (boot rnd_half)) \<and> 1 \<noteq> ident (player (boot rnd_half))
   \<and> player_in_view (update rnd_half (1 / 60) (boot rnd_half))
   \<and> enemy_in_view (update rnd_half (1 / 60) (boot rnd_half)) 1"
  using positions_after_step [where w = "boot rnd_half" and rnd = rnd_half and d = "1 / 60" and k = 1]
  by (simp add: well_formed_boot boot_fields)

text \<open>
  Twenty steps after the script has loaded, with no key pressed: the twentieth tick of the
  player's timer has constructed the enemy 2, which is registered and sits at y = -50.
\<close>

theorem positions_after_step_counterexample:
  "2 \<in> set (entities ((update rnd_half (1 / 60) ^^ 20) (boot rnd_half)))
   \<and> objects ((update rnd_half (1 / 60) ^^ 20) (boot rnd_half)) 2 =
       Some (EnemyE (Enemy_fields rnd_half 2))
   \<and> position (Enemy_fields rnd_half 2) = \<lparr> px = 160, py = - 50 \<rparr>
   \<and> \<not> enemy_in_view ((update rnd_half (1 / 60) ^^ 20) (boot rnd_half)) 2"
proof -
  let ?w19 = "(update rnd_half (1 / 60) ^^ 19) (boot rnd_half)"
  have wf: "well_formed ?w19" and quiet: "32 \<notin> raw_input (player ?w19)"
    and timer: "enemyTimer (player ?w19) = 19"
    using quiet_steps [where w = "boot rnd_half" and rnd = rnd_half and d = "1 / 60" and n = 19]
      well_formed_boot [of rnd_half] boot_quiet [of rnd_half]
    by (simp_all add: boot_timer)
  have ids: "running_id ?w19 = 2"
    using quiet_steps_ids [where w = "boot rnd_half" and rnd = rnd_half and d = "1 / 60" and n = 19]
      well_formed_boot [of rnd_half] boot_quiet [of rnd_half] boot_timer [of rnd_half]
    by (simp add: boot_fields)
  from timer have sp: "spawns ?w19"
    by (simp add: spawns_def)
  have step: "(update rnd_half (1 / 60) ^^ 20) (boot rnd_half) = update rnd_half (1 / 60) ?w19"
    by (simp add: numeral_eq_Suc)
  have pos: "position (Enemy_fields rnd_half 2) = \<lparr> px = 160, py = - 50 \<rparr>"
    by (simp add: Enemy_fields_def rnd_half_def)
  from quiet_step(4,5) [OF wf quiet sp, where rnd = rnd_half and d = "1 / 60"] ids
  have "2 \<in> set (entities (update rnd_half (1 / 60) ?w19))"
    and "objects (update rnd_half (1 / 60) ?w19) 2 = Some (EnemyE (Enemy_fields rnd_half 2))"
    by simp_all
  with pos show ?thesis
    by (simp add: step enemy_in_view_def del: funpow.simps)
qed

section \<open>When a projectile is fired\<close>

lemma move_entities_fired:
  assumes "well_formed w" and "fires w"
  shows "objects (move_entities rnd d w) (running_id w + (if spawns w then 1 else 0)) =
           Some (ProjectileE (Projectile_fields (running_id w + (if spawns w then 1 else 0))
                   (position (player w))))"
    and "running_id w + (if spawns w then 1 else 0) \<in> set (entities (move_entities rnd d w))"
    and "running_id w + (if spawns w then 1 else 0) \<notin>
           set (queued_entities_for_removal (move_entities rnd d w))"
proof -
  let ?r = "running_id w + (if spawns w then 1 else 0)"
  from assms(1) obtain xs ys where e: "entities w = xs @ ident (player w) # ys"
    and xs: "ident (player w) \<notin> set xs" and ys: "ident (player w) \<notin> set ys"
    by (rule registry_split)
  let ?w1 = "fold (update_entity rnd d) xs w"
  let ?w2 = "Player_update rnd d ?w1"
  have m: "move_entities rnd d w = fold (update_entity rnd d) ys ?w2"
    using e by (rule move_entities_split)
  from ys have ys2: "ident (player ?w2) \<notin> set ys"
    by simp
  from assms(1) e have "\<forall>i\<in>set ys. i < running_id w"
    by (simp add: well_formed_iff)
  then have "?r \<notin> set ys"
    by (auto dest: bspec)
  with ys2 have "objects (move_entities rnd d w) ?r = objects ?w2 ?r"
    by (simp add: m fold_update_entity_others)
  also from assms(2) have "\<dots> = Some (ProjectileE (Projectile_fields ?r (position (player w))))"
    by (simp add: objects_Player_update Let_def spawns_others [OF xs] fires_others [OF xs]
        fold_update_entity_others [OF xs])
  finally show "objects (move_entities rnd d w) ?r =
      Some (ProjectileE (Projectile_fields ?r (position (player w))))" .
  from assms grows_fold_update_entity [of w rnd d "entities w"]
  show "?r \<in> set (entities (move_entities rnd d w))"
    by (simp add: move_entities_def [symmetric] grows_def move_entities_effect)
  from assms(1) have "\<forall>i\<in>set (queued_entities_for_removal w) \<union> set (entities w).
      i < running_id w"
    by (auto simp: well_formed_iff)
  with assms(1) queue_fold_update_entity_subset [of w "entities w" rnd d]
  show "?r \<notin> set (queued_entities_for_removal (move_entities rnd d w))"
    by (auto simp: move_entities_def dest: bspec)
qed

lemma running_id_poll [simp]: "running_id (poll w) = running_id w"
  by simp

lemma position_poll [simp]: "position (player (poll w)) = position (player w)"
  by simp

lemma masterTime_loop_head: "masterTime (snd (loop_head t w)) = fdiv t 1000"
  by (simp add: loop_head_def Let_def split: option.split)

lemma projShotTime_loop_head: "projShotTime (snd (loop_head t w)) = projShotTime w"
  by (simp add: loop_head_def Let_def split: option.split)

lemma fires_poll_eq:
  "fires (poll w) =
     (32 \<in> raw_input (player w) \<and>
      (projectileReady (player w) \<or> (enemyTimer (player w) + 1) mod 40 = 0) \<and>
      masterTime w > fadd (projShotTime w) (1 / 2))"
  by (simp add: fires_def poll_def pollController_def)

text \<open>The kind of the body stored under a key that has been handed out never changes.\<close>

lemma stores_projectile_update_entity:
  assumes "k < running_id w"
  shows "stores_projectile (update_entity rnd d i w) k = stores_projectile w k"
proof (cases "k = i")
  case False
  with assms show ?thesis
    by (simp add: stores_projectile_def objects_update_entity_old)
next
  case True
  show ?thesis
  proof (cases "i = ident (player w)")
    case p: True
    with assms True show ?thesis
      by (simp add: stores_projectile_def update_entity_def objects_Player_update_old)
  next
    case False
    with True show ?thesis
      by (simp add: stores_projectile_def update_entity_def split_beta
          split: option.split entity.split)
  qed
qed

lemma stores_projectile_fold:
  assumes "k < running_id w"
  shows "stores_projectile (fold (update_entity rnd d) ks w) k = stores_projectile w k"
  using assms
proof (induction ks arbitrary: w)
  case Nil
  show ?case by simp
next
  case (Cons j ks)
  from Cons.prems running_id_update_entity_mono [of w rnd d j]
  have "k < running_id (update_entity rnd d j w)"
    by simp
  with Cons show ?case
    by (simp add: stores_projectile_update_entity)
qed

lemma stores_projectile_spawn_enemies:
  "stores_projectile (spawn_enemies d w) k = stores_projectile w k"
  by (simp add: stores_projectile_def spawn_enemies_def split_beta
      split: option.split entity.split)

lemma stores_projectile_cong: "objects v = objects w \<Longrightarrow> stores_projectile v = stores_projectile w"
  by (simp add: stores_projectile_def fun_eq_iff)

lemma projectile_at_eq: "projectile_at w k = (k \<in> set (entities w) \<and> stores_projectile w k)"
  by (simp add: projectile_at_def stores_projectile_def)

text \<open>The projectiles in the registry after a step that does not restart.\<close>

lemma projectiles_after_step:
  assumes wf: "well_formed w" and nr: "\<not> restarts rnd d w"
  shows "projectile_at (update rnd d w) k =
     (projectile_at w k \<and> k \<notin> set (queued_entities_for_removal (move_entities rnd d (poll w)))
      \<or> fires (poll w) \<and> k = running_id w + (if spawns w then 1 else 0))"
proof -
  let ?m = "move_entities rnd d (poll w)"
  let ?r = "running_id w + (if spawns w then 1 else 0)"
  from nr have u: "update rnd d w = spawn_enemies d (flush ?m)"
    by (rule update_no_restart)
  from wf have wp: "well_formed (poll w)"
    by (rule well_formed_poll)
  note eff = move_entities_effect [OF wp, where rnd = rnd and d = d]
  have st: "stores_projectile (update rnd d w) = stores_projectile ?m"
    by (simp add: u fun_eq_iff stores_projectile_spawn_enemies
        stores_projectile_cong [of "flush ?m" ?m])
  from grows_fold_update_entity [of "poll w" rnd d "entities w"]
  have en: "entities ?m = entities w @ [running_id w..<running_id ?m]"
    by (simp add: move_entities_def grows_def)
  have mem: "k \<in> set (entities (update rnd d w)) \<longleftrightarrow>
      k \<notin> set (queued_entities_for_removal ?m) \<and>
      (k \<in> set (entities w) \<or> running_id w \<le> k \<and> k < running_id ?m)"
    by (auto simp: u entities_flush en)
  have pa: "projectile_at (update rnd d w) k \<longleftrightarrow>
      k \<notin> set (queued_entities_for_removal ?m) \<and>
      (k \<in> set (entities w) \<or> running_id w \<le> k \<and> k < running_id ?m) \<and>
      stores_projectile ?m k"
    using mem by (auto simp: projectile_at_eq st)
  show ?thesis
  proof (cases "k \<in> set (entities w)")
    case True
    with wf have less: "k < running_id w"
      by (simp add: well_formed_iff)
    then have "stores_projectile ?m k = stores_projectile w k"
      by (simp add: move_entities_def stores_projectile_fold
          stores_projectile_cong [of "poll w" w])
    with True less show ?thesis
      unfolding pa by (auto simp: projectile_at_eq)
  next
    case False
    then have nw: "\<not> projectile_at w k"
      by (simp add: projectile_at_eq)
    show ?thesis
    proof (cases "running_id w \<le> k \<and> k < running_id ?m")
      case inner: False
      then have "\<not> (fires (poll w) \<and> k = ?r)"
        by (auto simp: eff)
      with False inner nw show ?thesis
        unfolding pa by auto
    next
      case True
      show ?thesis
      proof (cases "spawns w \<and> k = running_id w")
        case sp: True
        with move_entities_spawned(1) [OF wp, of rnd d]
        have "\<not> stores_projectile ?m k"
          by (simp add: stores_projectile_def)
        with sp nw show ?thesis
          unfolding pa by auto
      next
        case sp: False
        with True have f: "fires (poll w)" and kr: "k = ?r"
          by (auto simp: eff split: if_splits)
        from move_entities_fired(1) [OF wp f, of rnd d] kr
        have "stores_projectile ?m k"
          by (simp add: stores_projectile_def)
        with move_entities_fired(3) [OF wp f, of rnd d] f kr True False nw show ?thesis
          unfolding pa by auto
      qed
    qed
  qed
qed

text \<open>
  A \<open>masterTime\<close> below \<open>2 ^ 52\<close> s is not greater than its own rounded sum with 0.5, so the
  \<open>masterTime\<close> that a shot has recorded keeps the gate shut.
\<close>

lemma gate_shut:
  assumes "\<bar>m\<bar> \<le> 2 ^ 52"
  shows "\<not> fadd m (1 / 2) < m"
proof -
  from assms have "\<bar>m + 1 / 2\<bar> < 2 ^ Suc 52"
    by simp
  from fl_error [OF this] have "\<bar>fadd m (1 / 2) - (m + 1 / 2)\<bar> \<le> 1 / 2"
    by (simp add: fadd_def)
  then show ?thesis
    by linarith
qed

lemma shot_time_update:
  assumes "well_formed w"
  shows "projShotTime (update rnd d w) = (if fires (poll w) then masterTime w else projShotTime w)"
  using move_entities_effect(4) [OF well_formed_poll [OF assms], of rnd d]
  by (simp add: update_def)

lemma no_second_shot:
  assumes "well_formed w" and "\<bar>masterTime w\<bar> \<le> 2 ^ 52" and "projShotTime w = masterTime w"
  shows "\<not> fires (poll ((update rnd d ^^ n) w))"
  using assms
proof (induction n arbitrary: w)
  case 0
  with gate_shut [of "masterTime w"] show ?case
    by (simp add: fires_poll_eq)
next
  case (Suc n)
  from Suc.prems gate_shut [of "masterTime w"] have "\<not> fires (poll w)"
    by (simp add: fires_poll_eq)
  with Suc.prems have "projShotTime (update rnd d w) = masterTime (update rnd d w)"
    by (simp add: shot_time_update)
  with Suc.prems have "\<not> fires (poll ((update rnd d ^^ n) (update rnd d w)))"
    by (intro Suc.IH) (simp_all add: well_formed_update)
  then show ?case
    by (simp add: funpow_swap1)
qed

lemma update_effect:
  assumes "well_formed w" and "\<not> restarts rnd d w"
  shows "fires (poll w) =
           (32 \<in> raw_input (player w) \<and>
            (projectileReady (player w) \<or> (enemyTimer (player w) + 1) mod 40 = 0) \<and>
            masterTime w > fadd (projShotTime w) (1 / 2))
       \<and> masterTime (snd (loop_head t w)) = fdiv t 1000
       \<and> projShotTime (snd (loop_head t w)) = projShotTime w
       \<and> running_id (update rnd d w) =
           running_id w + (if spawns w then 1 else 0) + (if fires (poll w) then 1 else 0)
       \<and> (fires (poll w) \<longrightarrow>
            objects (update rnd d w) (running_id w + (if spawns w then 1 else 0)) =
              Some (ProjectileE (Projectile_fields (running_id w + (if spawns w then 1 else 0))
                      (position (player w)))))
       \<and> projectile_at (update rnd d w) k =
           (projectile_at w k \<and>
              k \<notin> set (queued_entities_for_removal (move_entities rnd d (poll w)))
            \<or> fires (poll w) \<and> k = running_id w + (if spawns w then 1 else 0))
       \<and> projShotTime (update rnd d w) = (if fires (poll w) then masterTime w else projShotTime w)
       \<and> masterTime (update rnd d w) = masterTime w
       \<and> projectileReady (player (update rnd d w)) =
           (\<not> fires (poll w) \<and>
            (projectileReady (player w) \<or> (enemyTimer (player w) + 1) mod 40 = 0))
       \<and> (\<bar>masterTime w\<bar> \<le> 2 ^ 52 \<and> fires (poll w) \<longrightarrow>
            \<not> fires (poll ((update rnd d ^^ n) (update rnd d w))))"
proof -
  from assms(2) have u: "update rnd d w = spawn_enemies d (flush (move_entities rnd d (poll w)))"
    by (rule update_no_restart)
  from assms(1) have wp: "well_formed (poll w)"
    by (rule well_formed_poll)
  note eff = move_entities_effect [OF wp, where rnd = rnd and d = d]
  have ids: "running_id (update rnd d w) =
           running_id w + (if spawns w then 1 else 0) + (if fires (poll w) then 1 else 0)"
    by (simp add: u eff)
  have shot: "projShotTime (update rnd d w) =
      (if fires (poll w) then masterTime w else projShotTime w)"
    by (simp add: u eff)
  have ready: "projectileReady (player (update rnd d w)) =
           (\<not> fires (poll w) \<and>
            (projectileReady (player w) \<or> (enemyTimer (player w) + 1) mod 40 = 0))"
    by (simp add: u eff)
  have new: "objects (update rnd d w) (running_id w + (if spawns w then 1 else 0)) =
              Some (ProjectileE (Projectile_fields (running_id w + (if spawns w then 1 else 0))
                      (position (player w))))"
    if f: "fires (poll w)"
  proof -
    from assms(1) have "enemy_spawner w \<noteq> Some (running_id w + (if spawns w then 1 else 0))"
      by (auto simp: well_formed_iff)
    with move_entities_fired [OF wp f, where rnd = rnd and d = d] show ?thesis
      by (simp add: u objects_spawn_enemies_other)
  qed
  have later: "\<not> fires (poll ((update rnd d ^^ n) (update rnd d w)))"
    if "\<bar>masterTime w\<bar> \<le> 2 ^ 52 \<and> fires (poll w)"
    using that shot assms(1)
    by (intro no_second_shot) (simp_all add: well_formed_update)
  from ids shot ready new later projectiles_after_step [OF assms, of k] show ?thesis
    by (simp add: fires_poll_eq masterTime_loop_head projShotTime_loop_head)
qed


section \<open>A quiet stretch of play\<close>

lemma enemy_low_mono: "enemy_low B e \<Longrightarrow> B \<le> C \<Longrightarrow> enemy_low C e"
  by (simp add: enemy_low_def)

lemma low_except_mono:
  assumes "low_except B S w" and "T \<subseteq> S"
  shows "low_except B T w"
  unfolding low_except_def
proof (intro allI impI)
  fix k e assume "objects w k = Some (EnemyE e)"
  with assms(1) have "enemy_low (if k \<in> S then B else B + 3) e"
    by (simp add: low_except_def)
  with assms(2) show "enemy_low (if k \<in> T then B else B + 3) e"
    by (auto simp: enemy_low_def split: if_splits)
qed

lemma low_exceptD:
  "low_except B S w \<Longrightarrow> objects w k = Some (EnemyE e) \<Longrightarrow>
     enemy_low (if k \<in> S then B else B + 3) e"
  unfolding low_except_def by blast

lemma low_except_put:
  assumes "low_except B S w" and "objects v = (objects w)(i \<mapsto> b)"
    and "\<And>e. b = EnemyE e \<Longrightarrow> enemy_low (B + 3) e"
  shows "low_except B (S - {i}) v"
  unfolding low_except_def
proof (intro allI impI)
  fix k e assume v: "objects v k = Some (EnemyE e)"
  show "enemy_low (if k \<in> S - {i} then B else B + 3) e"
  proof (cases "k = i")
    case True
    with v assms(2,3) show ?thesis by simp
  next
    case False
    with v assms(2) have "objects w k = Some (EnemyE e)" by simp
    from low_exceptD [OF assms(1) this] False show ?thesis by simp
  qed
qed

lemma enemy_low_Enemy_fields: "0 \<le> B \<Longrightarrow> enemy_low B (Enemy_fields rnd_half i)"
  by (simp add: enemy_low_def Enemy_fields_def rnd_half_def)

lemma Enemy_move_low:
  assumes "enemy_low B e" and "B \<le> 247"
  shows "Enemy_move \<lparr> px = 180, py = 400 \<rparr> e = shift 0 3 e"
  using assms by (simp add: Enemy_move_def Enemy_homing_def enemy_low_def Let_def)

lemma Enemy_update_low:
  assumes "enemy_low B e" and "0 \<le> B" and "B \<le> 247"
    and "position (player w) = \<lparr> px = 180, py = 400 \<rparr>"
  shows "enemy_low (B + 3) (fst (Enemy_update d e w))"
    and "player (snd (Enemy_update d e w)) =
           (player w)\<lparr>enemies := array_set (enemies (player w)) (ident e)
              \<lparr> px = px (position e), py = py (position e) \<rparr>\<rparr>"
proof -
  from assms have mv: "Enemy_move (position (player w)) e = shift 0 3 e"
    by (simp add: Enemy_move_low)
  note mv' = Enemy_move_low [OF assms(1,3)]
  from assms(1,2) show "enemy_low (B + 3) (fst (Enemy_update d e w))"
    by (auto simp: Enemy_update_fst mv enemy_low_def shift_def Body_update_def clip_position_def
        clip_def canvas_width_def canvas_height_def min_def max_def)
  from assms(1,4) show "player (snd (Enemy_update d e w)) =
           (player w)\<lparr>enemies := array_set (enemies (player w)) (ident e)
              \<lparr> px = px (position e), py = py (position e) \<rparr>\<rparr>"
    by (simp add: player_Enemy_update mv' shift_def near_def enemy_low_def)
qed


lemma Player_move_rests:
  "move_x (controller p) = 0 \<Longrightarrow> move_y (controller p) = 0 \<Longrightarrow> Player_move p = p"
  by (simp add: Player_move_def Let_def)

lemma Player_update_rests:
  assumes "player_rests w"
  shows "player_rests (Player_update rnd d w)"
proof -
  let ?v = "Player_fire (Player_arm (Player_spawn rnd w))"
  from assms have c: "move_x (controller (Player_flash (player ?v))) = 0"
    "move_y (controller (Player_flash (player ?v))) = 0"
    "position (Player_flash (player ?v)) = \<lparr> px = 180, py = 400 \<rparr>"
    "velocity (Player_flash (player ?v)) = \<lparr> px = 0, py = 0 \<rparr>"
    by (simp_all add: player_rests_def)
  then have "position (player (Player_update rnd d w)) = \<lparr> px = 180, py = 400 \<rparr>"
    by (simp add: Player_update_def Let_def Player_move_rests Body_update_def clip_position_def
        clip_def canvas_width_def canvas_height_def)
  with assms show ?thesis
    by (simp add: player_rests_def)
qed

lemma update_entity_low_player:
  assumes "i = ident (player w)" and "low_except B S w" and "player_rests w" and "0 \<le> B"
  shows "low_except B S (update_entity rnd_half d i w)"
    and "player_rests (update_entity rnd_half d i w)"
proof -
  from assms(1) have u: "update_entity rnd_half d i w = Player_update rnd_half d w"
    by (simp add: update_entity_def)
  from assms(2,4) show "low_except B S (update_entity rnd_half d i w)"
    by (auto simp: u low_except_def objects_Player_update Let_def enemy_low_Enemy_fields
        split: if_splits)
  from assms(3) show "player_rests (update_entity rnd_half d i w)"
    by (simp add: u Player_update_rests)
qed

lemma update_entity_low_other:
  assumes "i \<noteq> ident (player w)" and "low_except B S w" and "i \<in> S" and "player_rests w"
    and "0 \<le> B" and "B \<le> 247"
  shows "low_except B (S - {i}) (update_entity rnd d i w)"
    and "player_rests (update_entity rnd d i w)"
proof -
  show "low_except B (S - {i}) (update_entity rnd d i w)"
  proof (cases "objects w i")
    case None
    with assms(1) have "update_entity rnd d i w = w"
      by (simp add: update_entity_def)
    with assms(2) show ?thesis
      by (auto intro: low_except_mono)
  next
    case (Some b)
    show ?thesis
    proof (cases b)
      case (EnemyE e)
      with Some assms(2) have "enemy_low (if i \<in> S then B else B + 3) e"
        unfolding low_except_def by blast
      with assms(3) have "enemy_low B e"
        by simp
      with assms(4-6) have "enemy_low (B + 3) (fst (Enemy_update d e w))"
        by (simp add: Enemy_update_low player_rests_def)
      moreover from assms(1) Some EnemyE have "objects (update_entity rnd d i w) =
          (objects w)(i \<mapsto> EnemyE (fst (Enemy_update d e w)))"
        by (simp add: update_entity_def split_beta)
      ultimately show ?thesis
        using assms(2) by (intro low_except_put [where w = w]) auto
    next
      case (ProjectileE q)
      with assms(1) Some have "objects (update_entity rnd d i w) =
          (objects w)(i \<mapsto> ProjectileE (fst (Projectile_update d q w)))"
        by (simp add: update_entity_def split_beta)
      with assms(2) show ?thesis
        by (intro low_except_put [where w = w]) auto
    qed
  qed
  show "player_rests (update_entity rnd d i w)"
  proof (cases "objects w i")
    case None
    with assms(1,4) show ?thesis
      by (simp add: update_entity_def)
  next
    case (Some b)
    show ?thesis
    proof (cases b)
      case (EnemyE e)
      with Some assms(2) have "enemy_low (if i \<in> S then B else B + 3) e"
        unfolding low_except_def by blast
      with assms(3) have "enemy_low B e"
        by simp
      with assms(4-6) have "player (snd (Enemy_update d e w)) =
           (player w)\<lparr>enemies := array_set (enemies (player w)) (ident e)
              \<lparr> px = px (position e), py = py (position e) \<rparr>\<rparr>"
        by (simp add: Enemy_update_low player_rests_def)
      with assms(1,4) Some EnemyE show ?thesis
        by (simp add: update_entity_def split_beta player_rests_def)
    next
      case (ProjectileE q)
      with assms(1,4) Some show ?thesis
        by (simp add: update_entity_def split_beta player_rests_def)
    qed
  qed
qed

lemma fold_low:
  assumes "distinct ks" and "low_except B (set ks \<union> T) w" and "set ks \<inter> T = {}"
    and "player_rests w" and "0 \<le> B" and "B \<le> 247"
  shows "low_except B T (fold (update_entity rnd_half d) ks w)
       \<and> player_rests (fold (update_entity rnd_half d) ks w)"
  using assms(1-4)
proof (induction ks arbitrary: w)
  case Nil
  then show ?case by simp
next
  case (Cons j ks)
  let ?v = "update_entity rnd_half d j w"
  have "low_except B (set ks \<union> T) ?v \<and> player_rests ?v"
  proof (cases "j = ident (player w)")
    case True
    from update_entity_low_player [OF True Cons.prems(2,4) assms(5), of d]
    show ?thesis
      by (auto intro: low_except_mono)
  next
    case False
    have "j \<in> set (j # ks) \<union> T" by simp
    from update_entity_low_other [OF False Cons.prems(2) this Cons.prems(4) assms(5,6),
        of rnd_half d]
    have "low_except B ((set (j # ks) \<union> T) - {j}) ?v" and r: "player_rests ?v"
      by simp_all
    moreover from Cons.prems(1,3) have "(set (j # ks) \<union> T) - {j} = set ks \<union> T"
      by auto
    ultimately show ?thesis
      by simp
  qed
  moreover from Cons.prems have "distinct ks" "set ks \<inter> T = {}"
    by auto
  ultimately show ?case
    using Cons.IH [of ?v] by simp
qed


lemma low_except_all: "low_except B {} w \<Longrightarrow> low_except (B + 3) UNIV w"
  by (simp add: low_except_def)

lemma low_except_objects: "objects v = objects w \<Longrightarrow> low_except B S v = low_except B S w"
  by (simp add: low_except_def)

lemma player_rests_poll:
  assumes "calm B w"
  shows "player_rests (poll w)"
proof -
  from assms have "raw_input (player w) \<subseteq> {32}"
    by (simp add: calm_def)
  then have "65 \<notin> raw_input (player w)" "68 \<notin> raw_input (player w)"
    "83 \<notin> raw_input (player w)" "87 \<notin> raw_input (player w)"
    by auto
  with assms show ?thesis
    by (simp add: player_rests_def calm_def poll_def pollController_def)
qed

lemma spawn_pass_low:
  assumes "well_formed w" and "enemy_spawner w = Some s" and "low_except B {s} w"
    and "player_rests w" and "0 \<le> B" and "B \<le> 247"
  shows "low_except (B + 3) UNIV (spawn_enemies d w)"
    and "player_rests (spawn_enemies d w)"
proof -
  from assms(1,2) obtain e where e: "objects w s = Some (EnemyE e)"
    by (auto simp: well_formed_iff)
  from low_exceptD [OF assms(3) e] have low: "enemy_low B e"
    by simp
  note sp = spawn_enemies_Enemy [OF assms(2) e, of d]
  from low assms(4-6) have l3: "enemy_low (B + 3) (fst (Enemy_update d e w))"
    by (simp add: Enemy_update_low player_rests_def)
  have "objects (spawn_enemies d w) = (objects w)(s \<mapsto> EnemyE (fst (Enemy_update d e w)))"
    by (simp add: sp)
  with assms(3) l3 have "low_except B ({s} - {s}) (spawn_enemies d w)"
    by (intro low_except_put [where w = w]) auto
  then show "low_except (B + 3) UNIV (spawn_enemies d w)"
    by (simp add: low_except_all)
  from low assms(4-6) have "player (snd (Enemy_update d e w)) =
           (player w)\<lparr>enemies := array_set (enemies (player w)) (ident e)
              \<lparr> px = px (position e), py = py (position e) \<rparr>\<rparr>"
    by (simp add: Enemy_update_low player_rests_def)
  with assms(4) show "player_rests (spawn_enemies d w)"
    by (simp add: sp player_rests_def)
qed

lemma player_rests_flush: "player_rests (flush w) = player_rests w"
  by (simp add: player_rests_def)

lemma calm_step:
  assumes "calm B w" and "enemy_spawner w = Some s" and "s \<notin> set (entities w)"
    and "0 \<le> B" and "B \<le> 247"
  shows "calm (B + 3) (update rnd_half d w)"
    and "s \<notin> set (entities (update rnd_half d w))"
    and "update rnd_half d w = spawn_enemies d (flush (move_entities rnd_half d (poll w)))"
proof -
  let ?m = "move_entities rnd_half d (poll w)"
  let ?v = "spawn_enemies d (flush ?m)"
  from assms(1) have wf: "well_formed (poll w)" and rests: "player_rests (poll w)"
    and low: "low_except B UNIV (poll w)"
    by (simp_all add: calm_def well_formed_poll player_rests_poll [OF assms(1)]
        low_except_objects [of "poll w" w])
  from wf have d: "distinct (entities (poll w))"
    by (simp add: well_formed_iff)
  from assms(3) have disj: "set (entities (poll w)) \<inter> {s} = {}"
    by simp
  from low have "low_except B (set (entities (poll w)) \<union> {s}) (poll w)"
    by (rule low_except_mono) simp
  from fold_low [OF d this disj rests assms(4,5), of d]
  have m: "low_except B {s} ?m" "player_rests ?m"
    by (simp_all add: move_entities_def)
  from wf have wfm: "well_formed (flush ?m)"
    by (simp add: well_formed_flush well_formed_move_entities)
  from m have f: "low_except B {s} (flush ?m)" "player_rests (flush ?m)"
    by (simp_all add: player_rests_flush low_except_objects [of "flush ?m" ?m])
  from assms(2) have sp: "enemy_spawner (flush ?m) = Some s"
    by simp
  from spawn_pass_low [OF wfm sp f assms(4,5), of d]
  have v: "low_except (B + 3) UNIV ?v" "player_rests ?v" .
  then have "\<not> isDead (player ?v)"
    by (simp add: isDead_def player_rests_def)
  then show u: "update rnd_half d w = ?v"
    by (simp add: update_def restart_def)
  from assms(1) have "well_formed (update rnd_half d w)"
    by (simp add: calm_def well_formed_update)
  moreover from assms(1) have "raw_input (player ?v) \<subseteq> {32}"
    by (simp add: calm_def)
  ultimately show "calm (B + 3) (update rnd_half d w)"
    using v by (simp add: u calm_def player_rests_def)
  from assms(1,2) have "s < running_id w"
    by (auto simp: calm_def well_formed_iff)
  with assms(3) grows_fold_update_entity [of "poll w" rnd_half d "entities (poll w)"]
  have "s \<notin> set (entities ?m)"
    by (simp add: move_entities_def grows_def)
  then show "s \<notin> set (entities (update rnd_half d w))"
    by (simp add: u entities_flush)
qed

section \<open>A run from the loading of the script\<close>

lemma loop_head_fields:
  "player (snd (loop_head t w)) = player w"
  "entities (snd (loop_head t w)) = entities w"
  "objects (snd (loop_head t w)) = objects w"
  "queued_entities_for_removal (snd (loop_head t w)) = queued_entities_for_removal w"
  "running_id (snd (loop_head t w)) = running_id w"
  "enemy_spawner (snd (loop_head t w)) = enemy_spawner w"
  "projShotTime (snd (loop_head t w)) = projShotTime w"
  "loop_count (snd (loop_head t w)) = loop_count w"
  "masterTime (snd (loop_head t w)) = fdiv t 1000"
  "last_time (snd (loop_head t w)) =
     Some (case last_time w of None \<Rightarrow> fdiv t 1000 | Some l \<Rightarrow> l)"
  "fst (loop_head t w) =
     fsub (fdiv t 1000) (case last_time w of None \<Rightarrow> fdiv t 1000 | Some l \<Rightarrow> l)"
  by (simp_all add: loop_head_def Let_def split: option.split)

lemma step_lower: "1 / 61 < update_rate_seconds"
  by (simp add: step_value)

lemma loop_first:
  assumes "last_time w = None"
  shows "loop rnd t w = Some (snd (loop_head t w), [CallRequestAnimationFrame])"
proof -
  from assms have "fst (loop_head t w) = 0"
    by (simp add: loop_head_fields fsub_def)
  with step_lower show ?thesis
    by (simp add: loop_def split_beta loop_while.simps)
qed

lemma loop_single:
  assumes "update_rate_seconds < fst (loop_head t w)"
    and "\<not> update_rate_seconds < fsub (fst (loop_head t w)) update_rate_seconds"
  shows "loop rnd t w =
     Some (frame_step rnd t w,
           [CallUpdate update_rate_seconds, CallDraw, CallRequestAnimationFrame])"
proof -
  let ?d = "fst (loop_head t w)"
  from assms(2) have stop: "loop_while rnd (fdiv t 1000) (fsub ?d update_rate_seconds)
      (frame_step rnd t w) = Some (frame_step rnd t w, [])"
    by (subst loop_while.simps) simp
  from assms(1) have "loop_while rnd (fdiv t 1000) ?d (snd (loop_head t w)) =
      Some (frame_step rnd t w, [CallUpdate update_rate_seconds, CallDraw])"
    by (subst loop_while.simps) (simp add: stop [unfolded frame_step_def] frame_step_def)
  then show ?thesis
    by (simp add: loop_def split_beta)
qed

text \<open>Frames 32 ms apart, up to the 82nd: the rounded \<open>delta_time\<close> holds one fixed step.\<close>

lemma fl_near:
  assumes "\<bar>x\<bar> < 4"
  shows "\<bar>fl x - x\<bar> \<le> 1 / 1000000"
proof -
  from assms have "\<bar>x\<bar> < 2 ^ Suc 1"
    by simp
  from fl_error [OF this] show ?thesis
    by simp
qed

lemma frame_timing:
  assumes "k \<le> 81"
  shows "update_rate_seconds <
           fsub (fdiv (32 * real (Suc k)) 1000) (fdiv (32 * real k) 1000)"
    and "\<not> update_rate_seconds <
           fsub (fsub (fdiv (32 * real (Suc k)) 1000) (fdiv (32 * real k) 1000))
             update_rate_seconds"
proof -
  let ?a = "fdiv (32 * real k) 1000" and ?b = "fdiv (32 * real (Suc k)) 1000"
  let ?d = "fsub ?b ?a"
  from assms have k: "real k \<le> 81"
    by simp
  then have "\<bar>32 * real k / 1000\<bar> < 4" "\<bar>32 * real (Suc k) / 1000\<bar> < 4"
    by simp_all
  from this [THEN fl_near]
  have a: "\<bar>?a - 32 * real k / 1000\<bar> \<le> 1 / 1000000"
    and b: "\<bar>?b - 32 * real (Suc k) / 1000\<bar> \<le> 1 / 1000000"
    unfolding fdiv_def .
  have s: "32 * real (Suc k) / 1000 - 32 * real k / 1000 = 32 / 1000"
    by (simp add: field_simps)
  from a b s have x: "\<bar>?b - ?a - 32 / 1000\<bar> \<le> 2 / 1000000"
    by linarith
  then have "\<bar>?b - ?a\<bar> < 4"
    by linarith
  from fl_near [OF this] have "\<bar>?d - (?b - ?a)\<bar> \<le> 1 / 1000000"
    unfolding fsub_def .
  with x have d: "\<bar>?d - 32 / 1000\<bar> \<le> 3 / 1000000"
    by linarith
  with step_bounds(2) show "update_rate_seconds < ?d"
    by linarith
  from d step_lower step_bounds(2) have r: "\<bar>?d - update_rate_seconds\<bar> < 4"
    and u: "?d - update_rate_seconds < 32 / 1000 + 3 / 1000000 - 1 / 61"
    by linarith+
  from fl_near [OF r] have "\<bar>fsub ?d update_rate_seconds - (?d - update_rate_seconds)\<bar>
      \<le> 1 / 1000000"
    unfolding fsub_def .
  with u step_lower show "\<not> update_rate_seconds < fsub ?d update_rate_seconds"
    by linarith
qed

lemma well_formed_cong:
  assumes "player v = player w" and "objects v = objects w" and "entities v = entities w"
    and "queued_entities_for_removal v = queued_entities_for_removal w"
    and "running_id v = running_id w" and "enemy_spawner v = enemy_spawner w"
  shows "well_formed v = well_formed w"
  using assms by (cases "enemy_spawner w") (simp_all add: well_formed_def stored_at_def)

lemma calm_cong:
  assumes "player v = player w" and "objects v = objects w" and "entities v = entities w"
    and "queued_entities_for_removal v = queued_entities_for_removal w"
    and "running_id v = running_id w" and "enemy_spawner v = enemy_spawner w"
  shows "calm B v = calm B w"
  using assms well_formed_cong [OF assms]
  by (simp add: calm_def low_except_def)

lemma calm_loop_head: "calm B (snd (loop_head t w)) = calm B w"
  by (rule calm_cong) (simp_all add: loop_head_fields)

lemma calm_times: "calm B (w\<lparr>last_time := a, loop_count := b\<rparr>) = calm B w"
  by (rule calm_cong) simp_all

lemma calm_mono: "calm B w \<Longrightarrow> B \<le> C \<Longrightarrow> calm C w"
  by (auto simp: calm_def low_except_def intro: enemy_low_mono)

lemma calm_first_step:
  assumes "calm B w" and "first_session w" and "0 \<le> B" and "B \<le> 244"
  shows "calm (B + 6) (update rnd_half d w)"
    and "1 \<notin> set (entities (update rnd_half d w))"
    and "update rnd_half d w = spawn_enemies d (flush (move_entities rnd_half d (poll w)))"
proof -
  let ?m = "move_entities rnd_half d (poll w)"
  let ?v = "spawn_enemies d (flush ?m)"
  from assms(1) have wf: "well_formed (poll w)" and rests: "player_rests (poll w)"
    and low: "low_except B UNIV (poll w)"
    by (simp_all add: calm_def well_formed_poll player_rests_poll [OF assms(1)]
        low_except_objects [of "poll w" w])
  from wf have d: "distinct (entities (poll w))"
    by (simp add: well_formed_iff)
  from low have "low_except B (set (entities (poll w)) \<union> {}) (poll w)"
    by (rule low_except_mono) simp
  from fold_low [OF d this _ rests assms(3), of d] assms(4)
  have m: "low_except B {} ?m" "player_rests ?m"
    by (simp_all add: move_entities_def)
  from wf have wfm: "well_formed (flush ?m)"
    by (simp add: well_formed_flush well_formed_move_entities)
  from m(1) have "low_except (B + 3) UNIV ?m"
    by (rule low_except_all)
  then have "low_except (B + 3) {1} ?m"
    by (rule low_except_mono) simp
  with m(2) have f: "low_except (B + 3) {1} (flush ?m)" "player_rests (flush ?m)"
    by (simp_all add: player_rests_flush low_except_objects [of "flush ?m" ?m])
  from assms(2) have sp: "enemy_spawner (flush ?m) = Some 1"
    by (simp add: first_session_def)
  from assms(3,4) have b: "0 \<le> B + 3" "B + 3 \<le> 247"
    by simp_all
  from spawn_pass_low [OF wfm sp f b, of d]
  have v: "low_except (B + 3 + 3) UNIV ?v" "player_rests ?v" .
  then have "\<not> isDead (player ?v)"
    by (simp add: isDead_def player_rests_def)
  then show u: "update rnd_half d w = ?v"
    by (simp add: update_def restart_def)
  from assms(1) have "well_formed (update rnd_half d w)"
    by (simp add: calm_def well_formed_update)
  moreover from assms(1) have "raw_input (player ?v) \<subseteq> {32}"
    by (simp add: calm_def)
  moreover have "B + 3 + 3 = B + 6"
    by simp
  ultimately show "calm (B + 6) (update rnd_half d w)"
    using v by (simp add: u calm_def player_rests_def add.commute)
  from assms(2) have "first_session (poll w)"
    by (rule first_session_poll)
  from spawner_not_registered_after_flush [OF this, of rnd_half d]
  show "1 \<notin> set (entities (update rnd_half d w))"
    by (simp add: u)
qed

lemma frame_step_eq:
  "frame_step rnd t w =
     (update rnd update_rate_seconds (snd (loop_head t w)))
       \<lparr>last_time := Some (fdiv t 1000), loop_count := loop_count w + 1\<rparr>"
  by (simp add: frame_step_def loop_body_def Let_def loop_head_fields)

lemma frame_effect:
  assumes wf: "well_formed w"
    and nr: "update rnd update_rate_seconds (snd (loop_head t w)) =
      spawn_enemies update_rate_seconds
        (flush (move_entities rnd update_rate_seconds (poll (snd (loop_head t w)))))"
  defines "F \<equiv> 32 \<in> raw_input (player w) \<and>
      (projectileReady (player w) \<or> (enemyTimer (player w) + 1) mod 40 = 0) \<and>
      fdiv t 1000 > fadd (projShotTime w) (1 / 2)"
  shows "last_time (frame_step rnd t w) = Some (fdiv t 1000)"
    and "masterTime (frame_step rnd t w) = fdiv t 1000"
    and "loop_count (frame_step rnd t w) = loop_count w + 1"
    and "raw_input (player (frame_step rnd t w)) = raw_input (player w)"
    and "enemyTimer (player (frame_step rnd t w)) = enemyTimer (player w) + 1"
    and "running_id (frame_step rnd t w) =
           running_id w + (if spawns w then 1 else 0) + (if F then 1 else 0)"
    and "projectileReady (player (frame_step rnd t w)) =
           (\<not> F \<and> (projectileReady (player w) \<or> (enemyTimer (player w) + 1) mod 40 = 0))"
    and "projShotTime (frame_step rnd t w) = (if F then fdiv t 1000 else projShotTime w)"
    and "enemy_spawner (frame_step rnd t w) = enemy_spawner w"
    and "entities (frame_step rnd t w) =
           entities (update rnd update_rate_seconds (snd (loop_head t w)))"
    and "calm C (frame_step rnd t w) =
           calm C (update rnd update_rate_seconds (snd (loop_head t w)))"
    and "F \<Longrightarrow> objects (frame_step rnd t w) (running_id w + (if spawns w then 1 else 0)) =
           Some (ProjectileE (Projectile_fields (running_id w + (if spawns w then 1 else 0))
                   (position (player w))))"
proof -
  let ?h = "snd (loop_head t w)"
  let ?u = "update rnd update_rate_seconds ?h"
  note l = frame_step_eq [of rnd t w]
  from wf have "well_formed ?h"
    using well_formed_cong [of ?h w] by (simp add: loop_head_fields)
  then have wp: "well_formed (poll ?h)"
    by (rule well_formed_poll)
  note eff = move_entities_effect [OF wp, where rnd = rnd and d = update_rate_seconds]
  have sp: "spawns ?h = spawns w"
    by (simp add: spawns_def loop_head_fields)
  have f: "fires (poll ?h) = F"
    by (simp add: fires_poll_eq loop_head_fields F_def)
  show "last_time (frame_step rnd t w) = Some (fdiv t 1000)"
    by (simp add: l)
  show "masterTime (frame_step rnd t w) = fdiv t 1000"
    by (simp add: l loop_head_fields)
  show "loop_count (frame_step rnd t w) = loop_count w + 1"
    by (simp add: l)
  show "raw_input (player (frame_step rnd t w)) = raw_input (player w)"
    by (simp add: l nr loop_head_fields)
  show "enemyTimer (player (frame_step rnd t w)) = enemyTimer (player w) + 1"
    by (simp add: l nr eff loop_head_fields)
  show "running_id (frame_step rnd t w) =
           running_id w + (if spawns w then 1 else 0) + (if F then 1 else 0)"
    by (simp add: l nr eff loop_head_fields sp f)
  show "projectileReady (player (frame_step rnd t w)) =
           (\<not> F \<and> (projectileReady (player w) \<or> (enemyTimer (player w) + 1) mod 40 = 0))"
    by (simp add: l nr eff loop_head_fields f)
  show "projShotTime (frame_step rnd t w) = (if F then fdiv t 1000 else projShotTime w)"
    by (simp add: l nr eff loop_head_fields f)
  show "enemy_spawner (frame_step rnd t w) = enemy_spawner w"
    by (simp add: l nr loop_head_fields)
  show "entities (frame_step rnd t w) = entities ?u"
    by (simp add: l)
  show "calm C (frame_step rnd t w) = calm C ?u"
    by (simp add: l calm_times)
  show "objects (frame_step rnd t w) (running_id w + (if spawns w then 1 else 0)) =
           Some (ProjectileE (Projectile_fields (running_id w + (if spawns w then 1 else 0))
                   (position (player w))))" if F
  proof -
    from that f have ff: "fires (poll ?h)" by simp
    from wf have "enemy_spawner w \<noteq> Some (running_id w + (if spawns w then 1 else 0))"
      by (auto simp: well_formed_iff)
    with move_entities_fired(1) [OF wp ff, where rnd = rnd and d = update_rate_seconds]
    show ?thesis
      by (simp add: l nr objects_spawn_enemies_other loop_head_fields sp)
  qed
qed

lemma at_tick_calm: "at_tick k keys r ready shot w \<Longrightarrow> calm (3 * real k + 3) w"
  by (simp add: at_tick_def)

lemma tick_frame:
  assumes at: "at_tick k keys r ready shot w" and k: "k \<le> 81"
  defines "F \<equiv> 32 \<in> keys \<and> (ready \<or> Suc k mod 40 = 0) \<and>
      fdiv (32 * real (Suc k)) 1000 > fadd shot (1 / 2)"
  shows "at_tick (Suc k) keys
           (r + (if Suc k mod 20 = 0 then 1 else 0) + (if F then 1 else 0))
           (\<not> F \<and> (ready \<or> Suc k mod 40 = 0))
           (if F then fdiv (32 * real (Suc k)) 1000 else shot)
           (frame_step rnd_half (32 * real (Suc k)) w)"
    and "F \<Longrightarrow> objects (frame_step rnd_half (32 * real (Suc k)) w)
                 (r + (if Suc k mod 20 = 0 then 1 else 0)) =
               Some (ProjectileE (Projectile_fields (r + (if Suc k mod 20 = 0 then 1 else 0))
                       \<lparr> px = 180, py = 400 \<rparr>))"
    and "loop rnd_half (32 * real (Suc k)) w =
           Some (frame_step rnd_half (32 * real (Suc k)) w,
                 [CallUpdate update_rate_seconds, CallDraw, CallRequestAnimationFrame])"
proof -
  let ?t = "32 * real (Suc k)"
  let ?h = "snd (loop_head ?t w)"
  let ?B = "3 * real k + 3"
  from at have c: "calm ?B w" and s: "enemy_spawner w = Some 1" "1 \<notin> set (entities w)"
    and lt: "last_time w = Some (fdiv (32 * real k) 1000)"
    and f: "raw_input (player w) = keys" "enemyTimer (player w) = k" "running_id w = r"
      "projectileReady (player w) = ready" "projShotTime w = shot" "loop_count w = k"
    by (simp_all add: at_tick_def)
  from c have wf: "well_formed w" and pos: "position (player w) = \<lparr> px = 180, py = 400 \<rparr>"
    by (simp_all add: calm_def)
  from c have ch: "calm ?B ?h"
    by (simp add: calm_loop_head)
  from s have sh: "enemy_spawner ?h = Some 1" "1 \<notin> set (entities ?h)"
    by (simp_all add: loop_head_fields)
  from k have b: "0 \<le> ?B" "?B \<le> 247"
    by simp_all
  note st = calm_step [OF ch sh b, of update_rate_seconds]
  note fe = frame_effect [OF wf st(3), unfolded f]
  have sp: "spawns w = (Suc k mod 20 = 0)"
    by (simp add: spawns_def f)
  have B: "?B + 3 = 3 * real (Suc k) + 3"
    by simp
  from st(1,2) show "at_tick (Suc k) keys
           (r + (if Suc k mod 20 = 0 then 1 else 0) + (if F then 1 else 0))
           (\<not> F \<and> (ready \<or> Suc k mod 40 = 0))
           (if F then fdiv (32 * real (Suc k)) 1000 else shot)
           (frame_step rnd_half (32 * real (Suc k)) w)"
    unfolding at_tick_def F_def
    by (simp only: fe sp s B) simp
  show "objects (frame_step rnd_half (32 * real (Suc k)) w)
                 (r + (if Suc k mod 20 = 0 then 1 else 0)) =
               Some (ProjectileE (Projectile_fields (r + (if Suc k mod 20 = 0 then 1 else 0))
                       \<lparr> px = 180, py = 400 \<rparr>))" if F
    using fe(12) that unfolding F_def sp pos by simp
  from lt have d: "fst (loop_head ?t w) = fsub (fdiv ?t 1000) (fdiv (32 * real k) 1000)"
    by (simp add: loop_head_fields)
  from frame_timing(1) [OF k] have d1: "update_rate_seconds < fst (loop_head ?t w)"
    unfolding d .
  from frame_timing(2) [OF k]
  have "\<not> update_rate_seconds < fsub (fst (loop_head ?t w)) update_rate_seconds"
    unfolding d .
  with d1 show "loop rnd_half ?t w =
      Some (frame_step rnd_half ?t w,
            [CallUpdate update_rate_seconds, CallDraw, CallRequestAnimationFrame])"
    by (rule loop_single)
qed

lemma world_after_simps:
  "world_after rnd [] w = Some w"
  "world_after rnd (Frame t # evs) w =
     Option.bind (loop rnd t w) (\<lambda>y. world_after rnd evs (fst y))"
  "world_after rnd (KeyDown c # evs) w = world_after rnd evs (keydown c w)"
  "world_after rnd (KeyUp c # evs) w = world_after rnd evs (keyup c w)"
proof -
  show "world_after rnd (Frame t # evs) w =
     Option.bind (loop rnd t w) (\<lambda>y. world_after rnd evs (fst y))"
  proof (cases "loop rnd t w")
    case None
    then show ?thesis
      by (simp add: world_after_def)
  next
    case (Some y)
    then show ?thesis
      by (cases "run rnd evs (fst y)") (simp_all add: world_after_def split_beta)
  qed
qed (simp_all add: world_after_def)

lemma world_after_append:
  "world_after rnd (xs @ ys) w = Option.bind (world_after rnd xs w) (world_after rnd ys)"
proof (induction xs arbitrary: w)
  case Nil
  show ?case
    by (simp add: world_after_simps)
next
  case (Cons e xs)
  show ?case
  proof (cases e)
    case (Frame t)
    with Cons show ?thesis
      by (cases "loop rnd t w") (simp_all add: world_after_simps)
  next
    case (KeyDown c)
    with Cons show ?thesis
      by (simp add: world_after_simps)
  next
    case (KeyUp c)
    with Cons show ?thesis
      by (simp add: world_after_simps)
  qed
qed

lemma frames_snoc: "a \<le> b \<Longrightarrow> frames a (Suc b) = frames a b @ [Frame (32 * real b)]"
  by (simp add: frames_def)

lemma world_after_frame:
  assumes "a \<le> b" and "world_after rnd (evs @ frames a b) w = Some v"
    and "loop rnd (32 * real b) v = Some (u, cs)"
  shows "world_after rnd (evs @ frames a (Suc b)) w = Some u"
proof -
  from assms(1) have "evs @ frames a (Suc b) = (evs @ frames a b) @ [Frame (32 * real b)]"
    by (simp add: frames_snoc)
  with assms(2,3) show ?thesis
    by (simp only: world_after_append) (simp add: world_after_simps)
qed

lemma calm_boot: "calm 0 (boot rnd_half)"
  by (simp add: calm_def well_formed_boot boot_fields Player_fields_def canvas_width_def
      canvas_height_def low_except_def enemy_low_def Enemy_fields_def rnd_half_def)

lemma world_loaded_reached:
  "world_after rnd_half (frames 0 1) (boot rnd_half) = Some world_loaded"
  by (simp add: frames_def world_after_simps loop_first boot_fields world_loaded_def)

lemma first_tick:
  "at_tick 1 {} 2 False 0 (quiet_run 1)"
  "loop rnd_half 32 world_loaded =
     Some (quiet_run 1, [CallUpdate update_rate_seconds, CallDraw, CallRequestAnimationFrame])"
proof -
  let ?g = "world_loaded"
  let ?h = "snd (loop_head 32 ?g)"
  have q: "quiet_run 1 = frame_step rnd_half 32 ?g"
    by (simp add: numeral_eq_Suc)
  have c0: "calm 0 ?h" and fs: "first_session ?h"
    using calm_boot first_session_boot [of rnd_half]
      well_formed_cong [of ?h "boot rnd_half"]
    by (simp_all add: calm_loop_head first_session_def loop_head_fields world_loaded_def)
  note st = calm_first_step [OF c0 fs, of update_rate_seconds, simplified]
  have wf: "well_formed ?g"
    using well_formed_cong [of ?g "boot rnd_half"] well_formed_boot [of rnd_half]
    by (simp add: loop_head_fields world_loaded_def)
  have lt: "last_time ?g = Some (fdiv 0 1000)"
    by (simp add: loop_head_fields boot_fields world_loaded_def)
  note fe = frame_effect [OF wf st(3)]
  have g: "raw_input (player ?g) = {}" "enemyTimer (player ?g) = 0" "running_id ?g = 2"
    "\<not> projectileReady (player ?g)" "projShotTime ?g = 0" "loop_count ?g = 0"
    "enemy_spawner ?g = Some 1"
    by (simp_all add: world_loaded_def loop_head_fields boot_fields Player_fields_def)
  from st(1,2) show "at_tick 1 {} 2 False 0 (quiet_run 1)"
    unfolding at_tick_def q
    by (simp add: fe g spawns_def)
  from lt have d: "fst (loop_head 32 ?g) = fsub (fdiv 32 1000) (fdiv 0 1000)"
    by (simp add: loop_head_fields)
  from frame_timing [of 0] have "update_rate_seconds < fst (loop_head 32 ?g)"
    "\<not> update_rate_seconds < fsub (fst (loop_head 32 ?g)) update_rate_seconds"
    by (simp_all add: d)
  then show "loop rnd_half 32 world_loaded =
     Some (quiet_run 1, [CallUpdate update_rate_seconds, CallDraw, CallRequestAnimationFrame])"
    unfolding q by (rule loop_single)
qed

lemma phase_quiet:
  "k \<le> 62 \<Longrightarrow>
     at_tick (Suc k) {} (2 + Suc k div 20) (40 \<le> Suc k) 0 (quiet_run (Suc k)) \<and>
     world_after rnd_half (frames 0 (Suc (Suc k))) (boot rnd_half) = Some (quiet_run (Suc k))"
proof (induction k)
  case 0
  have "world_after rnd_half ([] @ frames 0 (Suc 1)) (boot rnd_half) = Some (quiet_run 1)"
    using world_loaded_reached first_tick(2)
    by (intro world_after_frame [where v = world_loaded]) simp_all
  with first_tick(1) show ?case
    by simp
next
  case (Suc k)
  let ?w = "quiet_run (Suc k)"
  from Suc have at: "at_tick (Suc k) {} (2 + Suc k div 20) (40 \<le> Suc k) 0 ?w"
    and r: "world_after rnd_half (frames 0 (Suc (Suc k))) (boot rnd_half) = Some ?w"
    by simp_all
  from Suc.prems have b: "Suc k \<le> 81"
    by simp
  from Suc.prems have ready: "(40 \<le> Suc k \<or> Suc (Suc k) mod 40 = 0) = (40 \<le> Suc (Suc k))"
    by presburger
  have ids: "2 + Suc k div 20 + (if Suc (Suc k) mod 20 = 0 then 1 else 0) = 2 + Suc (Suc k) div 20"
    by (simp add: div_Suc)
  from tick_frame(1) [OF at b]
  have "at_tick (Suc (Suc k)) {} (2 + Suc (Suc k) div 20) (40 \<le> Suc (Suc k)) 0
      (quiet_run (Suc (Suc k)))"
    by (simp only: ready ids quiet_run.simps) simp
  moreover from world_after_frame [of 0 "Suc (Suc k)" rnd_half "[]" "boot rnd_half" ?w]
    r tick_frame(3) [OF at b]
  have "world_after rnd_half (frames 0 (Suc (Suc (Suc k)))) (boot rnd_half) =
      Some (quiet_run (Suc (Suc k)))"
    by simp
  ultimately show ?case
    by simp
qed

lemma at_tick_keydown:
  assumes "at_tick k {} r ready shot w"
  shows "at_tick k {32} r ready shot (keydown 32 w)"
proof -
  from assms have c: "calm (3 * real k + 3) w" and raw: "raw_input (player w) = {}"
    by (simp_all add: at_tick_def)
  from c have "well_formed (keydown 32 w)"
    by (simp add: keydown_def calm_def well_formed_player)
  with c raw have "calm (3 * real k + 3) (keydown 32 w)"
    by (simp add: calm_def keydown_def low_except_def)
  with assms show ?thesis
    by (simp add: at_tick_def keydown_def)
qed

lemma gate_times:
  "fadd 0 (1 / 2) < fdiv 2048 1000"
  "fadd (fdiv 2048 1000) (1 / 2) < fdiv 2560 1000"
  by code_simp+

lemma tick_63:
  "at_tick 63 {32} 5 True 0 (held_run 0)"
  "world_after rnd_half (frames 0 64 @ [KeyDown 32]) (boot rnd_half) = Some (held_run 0)"
proof -
  from phase_quiet [of 62] have a: "at_tick 63 {} 5 True 0 (quiet_run 63)"
    and r: "world_after rnd_half (frames 0 64) (boot rnd_half) = Some (quiet_run 63)"
    by simp_all
  from a show "at_tick 63 {32} 5 True 0 (held_run 0)"
    by (simp add: at_tick_keydown)
  from r show "world_after rnd_half (frames 0 64 @ [KeyDown 32]) (boot rnd_half) =
      Some (held_run 0)"
    by (simp add: world_after_append world_after_simps)
qed

lemma tick_64:
  "at_tick 64 {32} 6 False (fdiv 2048 1000) (held_run 1)"
  "objects (held_run 1) 5 = Some (ProjectileE (Projectile_fields 5 \<lparr> px = 180, py = 400 \<rparr>))"
  "world_after rnd_half (frames 0 64 @ [KeyDown 32] @ frames 64 65) (boot rnd_half) =
     Some (held_run 1)"
proof -
  have q: "held_run 1 = frame_step rnd_half (32 * real (Suc 63)) (held_run 0)"
    by (simp add: numeral_eq_Suc)
  have b: "(63::nat) \<le> 81" by simp
  from tick_frame(1) [OF tick_63(1) b] gate_times(1)
  show "at_tick 64 {32} 6 False (fdiv 2048 1000) (held_run 1)"
    unfolding q by simp
  from tick_frame(2) [OF tick_63(1) b] gate_times(1)
  show "objects (held_run 1) 5 =
      Some (ProjectileE (Projectile_fields 5 \<lparr> px = 180, py = 400 \<rparr>))"
    unfolding q by simp
  from world_after_frame [of 64 64 rnd_half "frames 0 64 @ [KeyDown 32]" "boot rnd_half"
      "held_run 0"] tick_63(2) tick_frame(3) [OF tick_63(1) b]
  show "world_after rnd_half (frames 0 64 @ [KeyDown 32] @ frames 64 65) (boot rnd_half) =
     Some (held_run 1)"
    unfolding q by (simp add: frames_def [of 64 64])
qed

lemma phase_held:
  "j \<le> 15 \<Longrightarrow>
     at_tick (64 + j) {32} 6 False (fdiv 2048 1000) (held_run (Suc j)) \<and>
     world_after rnd_half (frames 0 64 @ [KeyDown 32] @ frames 64 (Suc (64 + j)))
       (boot rnd_half) = Some (held_run (Suc j))"
proof (induction j)
  case 0
  from tick_64(1,3) show ?case
    by simp
next
  case (Suc j)
  let ?w = "held_run (Suc j)"
  from Suc have at: "at_tick (64 + j) {32} 6 False (fdiv 2048 1000) ?w"
    and r: "world_after rnd_half (frames 0 64 @ [KeyDown 32] @ frames 64 (Suc (64 + j)))
       (boot rnd_half) = Some ?w"
    by simp_all
  from Suc.prems have b: "64 + j \<le> 81"
    by simp
  have q: "held_run (Suc (Suc j)) = frame_step rnd_half (32 * real (Suc (64 + j))) ?w"
    by simp
  from Suc.prems have m: "Suc (64 + j) mod 40 \<noteq> 0" "Suc (64 + j) mod 20 \<noteq> 0"
    by presburger+
  from tick_frame(1) [OF at b]
  have "at_tick (64 + Suc j) {32} 6 False (fdiv 2048 1000) (held_run (Suc (Suc j)))"
    unfolding q by (simp only: m) simp
  moreover from world_after_frame [of 64 "Suc (64 + j)" rnd_half "frames 0 64 @ [KeyDown 32]"
      "boot rnd_half" ?w] r tick_frame(3) [OF at b]
  have "world_after rnd_half (frames 0 64 @ [KeyDown 32] @ frames 64 (Suc (64 + Suc j)))
       (boot rnd_half) = Some (held_run (Suc (Suc j)))"
    unfolding q by simp
  ultimately show ?case
    by simp
qed

lemma tick_80:
  "at_tick 80 {32} 8 False (fdiv 2560 1000) (held_run 17)"
  "objects (held_run 17) 7 = Some (ProjectileE (Projectile_fields 7 \<lparr> px = 180, py = 400 \<rparr>))"
  "world_after rnd_half (frames 0 64 @ [KeyDown 32] @ frames 64 81) (boot rnd_half) =
     Some (held_run 17)"
proof -
  let ?w = "held_run 16"
  from phase_held [of 15] have at: "at_tick 79 {32} 6 False (fdiv 2048 1000) ?w"
    and r: "world_after rnd_half (frames 0 64 @ [KeyDown 32] @ frames 64 80)
       (boot rnd_half) = Some ?w"
    by simp_all
  have q: "held_run 17 = frame_step rnd_half (32 * real (Suc 79)) ?w"
    by (simp add: numeral_eq_Suc)
  have b: "(79::nat) \<le> 81" by simp
  from tick_frame(1) [OF at b] gate_times(2)
  show "at_tick 80 {32} 8 False (fdiv 2560 1000) (held_run 17)"
    unfolding q by simp
  from tick_frame(2) [OF at b] gate_times(2)
  show "objects (held_run 17) 7 =
      Some (ProjectileE (Projectile_fields 7 \<lparr> px = 180, py = 400 \<rparr>))"
    unfolding q by simp
  from world_after_frame [of 64 80 rnd_half "frames 0 64 @ [KeyDown 32]" "boot rnd_half" ?w]
    r tick_frame(3) [OF at b]
  show "world_after rnd_half (frames 0 64 @ [KeyDown 32] @ frames 64 81) (boot rnd_half) =
     Some (held_run 17)"
    unfolding q by simp
qed

lemma calm_no_restart:
  assumes "calm B w" and "enemy_spawner w = Some s" and "s \<notin> set (entities w)"
    and "0 \<le> B" and "B \<le> 247"
  shows "\<not> restarts rnd_half d w"
proof -
  from calm_step(1,3) [OF assms, of d]
  have "health (player (spawn_enemies d (flush (move_entities rnd_half d (poll w))))) = 100"
    by (simp add: calm_def)
  then show ?thesis
    by (simp add: restarts_def Let_def isDead_def)
qed


section \<open>The projectile gate\<close>

lemma armed_world:
  "well_formed world_armed"
  "\<not> restarts rnd_half update_rate_seconds world_armed"
  "raw_input (player world_armed) = {32}"
  "projectileReady (player world_armed)"
  "enemyTimer (player world_armed) = 63"
  "running_id world_armed = 5"
  "projShotTime world_armed = 0"
  "masterTime world_armed = fdiv 2048 1000"
  "position (player world_armed) = \<lparr> px = 180, py = 400 \<rparr>"
  "5 \<notin> set (entities world_armed)"
proof -
  let ?w = "held_run 0"
  let ?h = "world_armed"
  from tick_63(1) have c: "calm (3 * real (63::nat) + 3) ?w"
    and s: "enemy_spawner ?w = Some 1" "1 \<notin> set (entities ?w)"
    and f: "raw_input (player ?w) = {32}" "projectileReady (player ?w)"
      "enemyTimer (player ?w) = 63" "running_id ?w = 5" "projShotTime ?w = 0"
    by (simp_all add: at_tick_def)
  from c have ch: "calm (3 * real (63::nat) + 3) ?h"
    by (simp add: calm_loop_head world_armed_def)
  from s have sh: "enemy_spawner ?h = Some 1" "1 \<notin> set (entities ?h)"
    by (simp_all add: loop_head_fields world_armed_def)
  from ch show wf: "well_formed ?h"
    by (simp add: calm_def)
  from calm_no_restart [OF ch sh] show "\<not> restarts rnd_half update_rate_seconds ?h"
    by simp
  from f show "raw_input (player ?h) = {32}" "projectileReady (player ?h)"
    "enemyTimer (player ?h) = 63" and r: "running_id ?h = 5" and "projShotTime ?h = 0"
    by (simp_all add: loop_head_fields world_armed_def)
  show "masterTime ?h = fdiv 2048 1000"
    by (simp add: loop_head_fields world_armed_def)
  from ch show "position (player ?h) = \<lparr> px = 180, py = 400 \<rparr>"
    by (simp add: calm_def)
  from wf r show "5 \<notin> set (entities ?h)"
    by (auto simp: well_formed_iff)
qed

lemma time_2048: "\<bar>fdiv 2048 1000\<bar> \<le> 2 ^ 52"
  by code_simp

text \<open>
  The sum that the gate compares with is rounded: a shot at the frame of 1619 ms lets
  the frame of 2119 ms fire, half a second later to the millisecond.
\<close>

lemma gate_rounding:
  "fadd (fdiv 1619 1000) (1 / 2) < fdiv 2119 1000"
  "\<not> (1619 / 1000 + 1 / 2 < (2119 / 1000 :: real))"
  by code_simp+

text \<open>
  C4 (amended). In a step of a world with consistent ids that does not end in a restart,
  a projectile is constructed exactly when \<open>fires\<close> holds as the player's update begins: the
  action button is down, \<open>projectileReady\<close> is armed or this tick, a 40th one, arms it, and
  \<open>masterTime\<close> is greater than the binary64 sum of \<open>projShotTime\<close> and 0.5. \<open>masterTime\<close> is the
  timestamp of the animation frame whose callback runs the step, in seconds, and
  \<open>projShotTime\<close> is the \<open>masterTime\<close> of the last shot; \<open>loop\<close> sets the one and leaves the other.
  The projectile gets the next id after that of the enemy the tick may spawn and starts
  at the player's position. The projectiles in the registry after the step are those
  that were in it before and have not been flushed, and the new one if the step fired.
  The shot records \<open>masterTime\<close> and disarms \<open>projectileReady\<close>, which otherwise stays armed
  once a 40th tick has armed it; and after a shot no later step under the same
  \<open>masterTime\<close>, that is of the same callback, fires.
\<close>

theorem projectile_gate:
  assumes "well_formed w" and "\<not> restarts rnd d w"
  shows "fires (poll w) =
           (32 \<in> raw_input (player w) \<and>
            (projectileReady (player w) \<or> (enemyTimer (player w) + 1) mod 40 = 0) \<and>
            masterTime w > fadd (projShotTime w) (1 / 2))
       \<and> masterTime (snd (loop_head t w)) = fdiv t 1000
       \<and> projShotTime (snd (loop_head t w)) = projShotTime w
       \<and> running_id (update rnd d w) =
           running_id w + (if spawns w then 1 else 0) + (if fires (poll w) then 1 else 0)
       \<and> (fires (poll w) \<longrightarrow>
            objects (update rnd d w) (running_id w + (if spawns w then 1 else 0)) =
              Some (ProjectileE (Projectile_fields (running_id w + (if spawns w then 1 else 0))
                      (position (player w)))))
       \<and> projectile_at (update rnd d w) k =
           (projectile_at w k \<and>
              k \<notin> set (queued_entities_for_removal (move_entities rnd d (poll w)))
            \<or> fires (poll w) \<and> k = running_id w + (if spawns w then 1 else 0))
       \<and> projShotTime (update rnd d w) = (if fires (poll w) then masterTime w else projShotTime w)
       \<and> masterTime (update rnd d w) = masterTime w
       \<and> projectileReady (player (update rnd d w)) =
           (\<not> fires (poll w) \<and>
            (projectileReady (player w) \<or> (enemyTimer (player w) + 1) mod 40 = 0))
       \<and> (\<bar>masterTime w\<bar> \<le> 2 ^ 52 \<and> fires (poll w) \<longrightarrow>
            \<not> fires (poll ((update rnd d ^^ n) (update rnd d w))))"
  using assms by (rule update_effect)

text \<open>
  The step of the frame numbered 64 in the run with a frame every 32 ms: the projectile
  has been armed since tick 40, the button has just gone down, and the frame's
  timestamp is 2.048 s. The step constructs the projectile 5, and three more steps of
  the same callback would not fire.
\<close>

theorem projectile_gate_witness:
  "well_formed world_armed
   \<and> \<not> restarts rnd_half update_rate_seconds world_armed
   \<and> fires (poll world_armed)
   \<and> masterTime (snd (loop_head 2080 world_armed)) = fdiv 2080 1000
   \<and> running_id (update rnd_half update_rate_seconds world_armed) = 6
   \<and> objects (update rnd_half update_rate_seconds world_armed) 5 =
       Some (ProjectileE (Projectile_fields 5 \<lparr> px = 180, py = 400 \<rparr>))
   \<and> \<not> projectile_at world_armed 5
   \<and> projectile_at (update rnd_half update_rate_seconds world_armed) 5
   \<and> projShotTime (update rnd_half update_rate_seconds world_armed) = fdiv 2048 1000
   \<and> \<not> projectileReady (player (update rnd_half update_rate_seconds world_armed))
   \<and> \<not> fires (poll ((update rnd_half update_rate_seconds ^^ 3)
          (update rnd_half update_rate_seconds world_armed)))"
proof -
  have f: "fires (poll world_armed)"
    using gate_times(1) by (simp add: fires_poll_eq armed_world)
  have s: "\<not> spawns world_armed"
    by (simp add: spawns_def armed_world)
  have p: "\<not> projectile_at world_armed 5"
    by (simp add: projectile_at_def armed_world)
  from projectile_gate [OF armed_world(1,2), of 2080 5 3] f s p time_2048 show ?thesis
    by (simp add: armed_world)
qed

text \<open>
  A run from the loading of the script with a frame every 32 ms, so that every frame runs
  one step: the action button goes down after tick 63 and stays down. Step 64 constructs
  the projectile 5; step 80, which arms the gate again, constructs the projectile 7. The
  two frames are 0.512 s apart, the two steps 16 fixed steps, less than 0.4 s of simulated
  time.
\<close>

theorem projectile_gate_counterexample:
  "world_after rnd_half (frames 0 64 @ [KeyDown 32]) (boot rnd_half) = Some (held_run 0)
   \<and> running_id (held_run 0) = 5
   \<and> world_after rnd_half (frames 0 64 @ [KeyDown 32] @ frames 64 65) (boot rnd_half) =
       Some (held_run 1)
   \<and> loop_count (held_run 1) = 64
   \<and> objects (held_run 1) 5 =
       Some (ProjectileE (Projectile_fields 5 \<lparr> px = 180, py = 400 \<rparr>))
   \<and> projShotTime (held_run 1) = fdiv 2048 1000
   \<and> world_after rnd_half (frames 0 64 @ [KeyDown 32] @ frames 64 80) (boot rnd_half) =
       Some (held_run 16)
   \<and> running_id (held_run 16) = 6
   \<and> raw_input (player (held_run 16)) = {32}
   \<and> world_after rnd_half (frames 0 64 @ [KeyDown 32] @ frames 64 81) (boot rnd_half) =
       Some (held_run 17)
   \<and> loop_count (held_run 17) = 80
   \<and> objects (held_run 17) 7 =
       Some (ProjectileE (Projectile_fields 7 \<lparr> px = 180, py = 400 \<rparr>))
   \<and> projShotTime (held_run 17) = fdiv 2560 1000
   \<and> real (80 - 64) * update_rate_seconds < 0.4"
proof -
  from tick_63(1) have a: "running_id (held_run 0) = 5"
    by (simp add: at_tick_def)
  from tick_64(1) have b: "loop_count (held_run 1) = 64" "projShotTime (held_run 1) = fdiv 2048 1000"
    by (simp_all add: at_tick_def)
  from phase_held [of 15] have c: "running_id (held_run 16) = 6"
    "raw_input (player (held_run 16)) = {32}"
    "world_after rnd_half (frames 0 64 @ [KeyDown 32] @ frames 64 80) (boot rnd_half) =
       Some (held_run 16)"
    by (simp_all add: at_tick_def)
  from tick_80(1) have d: "loop_count (held_run 17) = 80"
    "projShotTime (held_run 17) = fdiv 2560 1000"
    by (simp_all add: at_tick_def)
  have e: "real (80 - 64) * update_rate_seconds < 0.4"
    using step_bounds(2) by simp
  from a b c d e tick_63(2) tick_64(2,3) tick_80(2,3) show ?thesis
    by blast
qed


section \<open>Health below zero\<close>

lemma world_crowded_fields:
  "entities world_crowded = [0, 2, 3, 4]"
  "queued_entities_for_removal world_crowded = []"
  "enemy_spawner world_crowded = Some 1"
  "running_id world_crowded = 5"
  "player world_crowded = (Player_fields 0)\<lparr>health := 25\<rparr>"
  "objects world_crowded 1 = Some (EnemyE (Enemy_fields rnd_half 1))"
  "objects world_crowded (Suc 0) = Some (EnemyE (Enemy_fields rnd_half (Suc 0)))"
  "objects world_crowded 2 = Some (EnemyE enemy_near_a)"
  "objects world_crowded 3 = Some (EnemyE enemy_near_b)"
  "objects world_crowded 4 = Some (EnemyE enemy_far)"
  by (simp_all add: world_crowded_def boot_fields)

lemma well_formed_crowded: "well_formed world_crowded"
  by (simp add: well_formed_def world_crowded_fields stored_at_def entity_ident_def
      enemy_near_a_def enemy_near_b_def enemy_far_def Player_fields_def Enemy_fields_def)


lemma update_entity_enemy:
  assumes "i \<noteq> ident (player w)" and "objects w i = Some (EnemyE e)"
  shows "update_entity rnd d i w =
     (snd (Enemy_update d e w))\<lparr>objects := (objects w)(i \<mapsto> EnemyE (fst (Enemy_update d e w)))\<rparr>"
  using assms by (simp add: update_entity_def split_beta)

text \<open>The update of a registered enemy while no projectile position is stored.\<close>

lemma enemy_step:
  fixes rnd :: "nat \<Rightarrow> real" and d :: real
  assumes i: "i \<noteq> ident (player w)" and o: "objects w i = Some (EnemyE e)" and e: "ident e = i"
    and p: "projectiles (player w) = []"
  defines "v \<equiv> update_entity rnd d i w"
    and "m \<equiv> position (Enemy_move (position (player w)) e)"
  shows "health (player v) = health (player w) - (if near 10 m (position (player w)) then 25 else 0)"
    and "position (player v) = position (player w)"
    and "projectiles (player v) = []"
    and "ident (player v) = ident (player w)"
    and "controller (player v) = controller (player w)"
    and "queued_entities_for_removal v =
           queued_entities_for_removal w @ pushes (health (player w) = 0) i @ pushes (i = 1) i
           @ pushes (500 < py m) i @ pushes (near 10 m (position (player w))) i"
    and "entities v = entities w"
    and "enemy_spawner v = enemy_spawner w"
    and "running_id v = running_id w"
    and "k \<noteq> i \<Longrightarrow> objects v k = objects w k"
  unfolding v_def m_def update_entity_enemy [OF i o]
  by (simp_all add: player_Enemy_update queue_Enemy_update e p present_def)

lemma crowded_player:
  "health (player (Player_update rnd_half d (poll world_crowded))) = 25"
  "position (player (Player_update rnd_half d (poll world_crowded))) = \<lparr> px = 180, py = 400 \<rparr>"
  "projectiles (player (Player_update rnd_half d (poll world_crowded))) = []"
  "ident (player (Player_update rnd_half d (poll world_crowded))) = 0"
  "controller (player (Player_update rnd_half d (poll world_crowded))) =
     \<lparr> move_x = 0, move_y = 0, action_1 = False \<rparr>"
  "queued_entities_for_removal (Player_update rnd_half d (poll world_crowded)) = []"
  "entities (Player_update rnd_half d (poll world_crowded)) = [0, 2, 3, 4]"
  "enemy_spawner (Player_update rnd_half d (poll world_crowded)) = Some 1"
  "running_id (Player_update rnd_half d (poll world_crowded)) = 5"
  "objects (Player_update rnd_half d (poll world_crowded)) = objects world_crowded"
  apply (simp_all add: Player_update_def Player_fire_def Player_arm_def Player_spawn_def Let_def
      poll_def pollController_def world_crowded_fields Player_fields_def)
  apply (simp_all add: canvas_width_def canvas_height_def clip_position_def Body_update_def
      Player_move_def Player_flash_def clip_def shift_def)
  done

lemma crowded_hits:
  "position (Enemy_move \<lparr> px = 180, py = 400 \<rparr> enemy_near_a) = \<lparr> px = 175, py = 398 \<rparr>"
  "position (Enemy_move \<lparr> px = 180, py = 400 \<rparr> enemy_near_b) = \<lparr> px = 185, py = 396 \<rparr>"
  "position (Enemy_move \<lparr> px = 180, py = 400 \<rparr> enemy_far) = \<lparr> px = 20, py = 103 \<rparr>"
  by (simp_all add: Enemy_move_def Enemy_homing_def shift_def Let_def enemy_near_a_def
      enemy_near_b_def enemy_far_def Math_round_def js_rem_def)


lemma crowded_moved:
  "queued_entities_for_removal (move_entities rnd_half d (poll world_crowded)) = [2, 3, 3]"
  "entities (move_entities rnd_half d (poll world_crowded)) = [0, 2, 3, 4]"
  "health (player (move_entities rnd_half d (poll world_crowded))) = - 25"
  "controller (player (move_entities rnd_half d (poll world_crowded))) =
     \<lparr> move_x = 0, move_y = 0, action_1 = False \<rparr>"
  "enemy_spawner (move_entities rnd_half d (poll world_crowded)) = Some 1"
  "objects (move_entities rnd_half d (poll world_crowded)) 1 =
     Some (EnemyE (Enemy_fields rnd_half 1))"
  "position (player (move_entities rnd_half d (poll world_crowded))) = \<lparr> px = 180, py = 400 \<rparr>"
  "projectiles (player (move_entities rnd_half d (poll world_crowded))) = []"
proof -
  let ?w1 = "Player_update rnd_half d (poll world_crowded)"
  let ?w2 = "update_entity rnd_half d 2 ?w1"
  let ?w3 = "update_entity rnd_half d 3 ?w2"
  let ?w4 = "update_entity rnd_half d 4 ?w3"
  have m: "move_entities rnd_half d (poll world_crowded) = ?w4"
    by (simp add: move_entities_def world_crowded_fields update_entity_def [of _ _ 0] poll_def
        Player_fields_def)
  have pc: "controller (player (poll world_crowded)) =
      \<lparr> move_x = 0, move_y = 0, action_1 = False \<rparr>"
    by (simp add: poll_def pollController_def world_crowded_fields Player_fields_def)
  have pi: "ident (player world_crowded) = 0"
    by (simp add: world_crowded_fields)
  note p = crowded_player [of d] pc pi
  have ids: "ident enemy_near_a = 2" "ident enemy_near_b = 3" "ident enemy_far = 4"
    by (simp_all add: enemy_near_a_def enemy_near_b_def enemy_far_def)
  have o1: "objects ?w1 2 = Some (EnemyE enemy_near_a)" "2 \<noteq> ident (player ?w1)"
    by (simp_all add: p world_crowded_fields)
  note e2 = enemy_step [where rnd = rnd_half and d = d, OF o1(2) o1(1) ids(1) p(3)]
  have s2: "health (player ?w2) = 0" "position (player ?w2) = \<lparr> px = 180, py = 400 \<rparr>"
    "projectiles (player ?w2) = []" "ident (player ?w2) = 0"
    "controller (player ?w2) = \<lparr> move_x = 0, move_y = 0, action_1 = False \<rparr>"
    "queued_entities_for_removal ?w2 = [2]" "entities ?w2 = [0, 2, 3, 4]"
    "enemy_spawner ?w2 = Some 1" "objects ?w2 3 = Some (EnemyE enemy_near_b)"
    "objects ?w2 4 = Some (EnemyE enemy_far)"
    "objects ?w2 (Suc 0) = Some (EnemyE (Enemy_fields rnd_half (Suc 0)))"
    by (simp_all add: e2 p world_crowded_fields crowded_hits near_def pushes_def)
  have o2: "3 \<noteq> ident (player ?w2)"
    by (simp add: pi)
  note e3 = enemy_step [where rnd = rnd_half and d = d, OF o2 s2(9) ids(2) s2(3)]
  have s3: "health (player ?w3) = - 25" "position (player ?w3) = \<lparr> px = 180, py = 400 \<rparr>"
    "projectiles (player ?w3) = []" "ident (player ?w3) = 0"
    "controller (player ?w3) = \<lparr> move_x = 0, move_y = 0, action_1 = False \<rparr>"
    "queued_entities_for_removal ?w3 = [2, 3, 3]" "entities ?w3 = [0, 2, 3, 4]"
    "enemy_spawner ?w3 = Some 1" "objects ?w3 4 = Some (EnemyE enemy_far)"
    "objects ?w3 (Suc 0) = Some (EnemyE (Enemy_fields rnd_half (Suc 0)))"
    by (simp_all add: e3 s2 p world_crowded_fields crowded_hits near_def pushes_def)
  have o3: "4 \<noteq> ident (player ?w3)"
    by (simp add: pi)
  note e4 = enemy_step [where rnd = rnd_half and d = d, OF o3 s3(9) ids(3) s3(3)]
  have s4: "health (player ?w4) = - 25" "position (player ?w4) = \<lparr> px = 180, py = 400 \<rparr>"
    "projectiles (player ?w4) = []"
    "controller (player ?w4) = \<lparr> move_x = 0, move_y = 0, action_1 = False \<rparr>"
    "queued_entities_for_removal ?w4 = [2, 3, 3]" "entities ?w4 = [0, 2, 3, 4]"
    "enemy_spawner ?w4 = Some 1"
    "objects ?w4 (Suc 0) = Some (EnemyE (Enemy_fields rnd_half (Suc 0)))"
    by (simp_all add: e4 s3 p world_crowded_fields crowded_hits near_def pushes_def)
  from s4 show
    "queued_entities_for_removal (move_entities rnd_half d (poll world_crowded)) = [2, 3, 3]"
    "entities (move_entities rnd_half d (poll world_crowded)) = [0, 2, 3, 4]"
    "health (player (move_entities rnd_half d (poll world_crowded))) = - 25"
    "controller (player (move_entities rnd_half d (poll world_crowded))) =
       \<lparr> move_x = 0, move_y = 0, action_1 = False \<rparr>"
    "enemy_spawner (move_entities rnd_half d (poll world_crowded)) = Some 1"
    "objects (move_entities rnd_half d (poll world_crowded)) 1 =
       Some (EnemyE (Enemy_fields rnd_half 1))"
    "position (player (move_entities rnd_half d (poll world_crowded))) = \<lparr> px = 180, py = 400 \<rparr>"
    "projectiles (player (move_entities rnd_half d (poll world_crowded))) = []"
    unfolding m by simp_all
qed


lemma health_update_entity_le:
  "health (player (update_entity rnd d i w)) \<le> health (player w)"
  by (simp add: update_entity_def split_beta player_Enemy_update
      split: option.split entity.split)

lemma health_fold_le:
  "health (player (fold (update_entity rnd d) ks w)) \<le> health (player w)"
proof (induction ks arbitrary: w)
  case Nil
  show ?case by simp
next
  case (Cons j ks)
  from Cons [of "update_entity rnd d j w"] health_update_entity_le [of rnd d j w]
  show ?case by simp
qed

lemma health_spawn_enemies_le: "health (player (spawn_enemies d w)) \<le> health (player w)"
  by (simp add: spawn_enemies_def split_beta player_Enemy_update
      split: option.split entity.split)

lemma health_flush: "health (player (flush w)) = health (player w)"
  by simp

lemma health_step_le:
  assumes "\<not> restarts rnd d w"
  shows "health (player (update rnd d w)) \<le> health (player w)"
proof -
  let ?m = "move_entities rnd d (poll w)"
  have "health (player (spawn_enemies d (flush ?m))) \<le> health (player (flush ?m))"
    by (rule health_spawn_enemies_le)
  also have "\<dots> = health (player ?m)"
    by (rule health_flush)
  also have "\<dots> \<le> health (player (poll w))"
    unfolding move_entities_def by (rule health_fold_le)
  also have "\<dots> = health (player w)"
    by simp
  finally show ?thesis
    by (simp add: update_no_restart [OF assms])
qed

lemma crowded_step:
  "health (player (update rnd_half d world_crowded)) = - 25"
  "entities (update rnd_half d world_crowded) = [0, 4]"
  "queued_entities_for_removal (update rnd_half d world_crowded) = [1]"
  "position (player (update rnd_half d world_crowded)) = \<lparr> px = 180, py = 400 \<rparr>"
  "raw_input (player (update rnd_half d world_crowded)) = {}"
proof -
  let ?m = "move_entities rnd_half d (poll world_crowded)"
  let ?f = "flush ?m"
  note cm = crowded_moved [of d]
  have f: "enemy_spawner ?f = Some 1" "objects ?f 1 = Some (EnemyE (Enemy_fields rnd_half 1))"
    "health (player ?f) = - 25" "position (player ?f) = \<lparr> px = 180, py = 400 \<rparr>"
    "entities ?f = [0, 4]" "queued_entities_for_removal ?f = []"
    "controller (player ?f) = \<lparr> move_x = 0, move_y = 0, action_1 = False \<rparr>"
    "projectiles (player ?f) = []"
    using cm world_crowded_fields
    by (simp_all add: entities_flush projectiles_flush splice1_def poll_def pollController_def
        Player_fields_def)
  let ?v = "spawn_enemies d ?f"
  have mv: "position (Enemy_move \<lparr> px = 180, py = 400 \<rparr> (Enemy_fields rnd_half 1)) =
      \<lparr> px = 160, py = - 47 \<rparr>"
    by (simp add: Enemy_move_def Enemy_homing_def shift_def Let_def Enemy_fields_def
        rnd_half_def)
  have v: "health (player ?v) = - 25" "entities ?v = [0, 4]"
    "queued_entities_for_removal ?v = [1]"
    "position (player ?v) = \<lparr> px = 180, py = 400 \<rparr>"
    "controller (player ?v) = \<lparr> move_x = 0, move_y = 0, action_1 = False \<rparr>"
    unfolding spawn_enemies_Enemy [OF f(1,2)]
    using f mv cm
    by (simp_all add: player_Enemy_update queue_Enemy_update near_def pushes_def
        present_def Enemy_fields_def)
  then have u: "update rnd_half d world_crowded = ?v"
    by (simp add: update_def restart_def)
  from v show "health (player (update rnd_half d world_crowded)) = - 25"
    "entities (update rnd_half d world_crowded) = [0, 4]"
    "queued_entities_for_removal (update rnd_half d world_crowded) = [1]"
    "position (player (update rnd_half d world_crowded)) = \<lparr> px = 180, py = 400 \<rparr>"
    unfolding u by simp_all
  show "raw_input (player (update rnd_half d world_crowded)) = {}"
    unfolding u by (simp add: world_crowded_fields Player_fields_def)
qed


lemma health_Enemy_update:
  "health (player (snd (Enemy_update d e w))) =
     health (player w) -
       (if near 10 (position (Enemy_move (position (player w)) e)) (position (player w))
        then 25 else 0)"
  "position (player (snd (Enemy_update d e w))) = position (player w)"
  by (simp_all add: player_Enemy_update)

text \<open>
  C10. An enemy's update takes 25 off the player's health whenever the enemy, after its
  move, is within 10 units of the player, whatever the health is and whether or not the
  enemy has been queued already; it leaves the player where it is. So two enemies that
  are both that near take 50 off, one after the other: in the world with the enemies 2
  and 3 at the player, the health goes from 25 to -25 within one step. The player then
  counts as dead, since \<open>isDead\<close> tests \<open>health \<le> 0\<close>; but while the health is negative the
  test \<open>health == 0\<close> at the head of the enemies' and the projectiles' updates queues
  nothing, so that an update queues its body only for the other reasons (the id 1, the
  edge of the view, a hit), and the health stays negative through every step that does
  not restart.
\<close>

theorem negative_health:
  "health (player (snd (Enemy_update d e w))) =
     health (player w) -
       (if near 10 (position (Enemy_move (position (player w)) e)) (position (player w))
        then 25 else 0)
   \<and> position (player (snd (Enemy_update d e w))) = position (player w)
   \<and> (near 10 (position (Enemy_move (position (player w)) e1)) (position (player w)) \<and>
       near 10 (position (Enemy_move (position (player w)) e2)) (position (player w)) \<longrightarrow>
         health (player (snd (Enemy_update d e2 (snd (Enemy_update d e1 w))))) =
           health (player w) - 50)
   \<and> health (player world_crowded) = 25
   \<and> health (player (update rnd_half d world_crowded)) = - 25
   \<and> isDead (player w) = (health (player w) \<le> 0)
   \<and> (health (player w) < 0 \<longrightarrow>
         isDead (player w)
         \<and> remove_if_player_dead i w = w
         \<and> queued_entities_for_removal (snd (Enemy_update d e w)) =
             queued_entities_for_removal w
             @ pushes (ident e = 1) (ident e)
             @ pushes (py (position (Enemy_move (position (player w)) e)) > 500) (ident e)
             @ replicate (length (filter (near 10 (position (Enemy_move (position (player w)) e)))
                                    (present (projectiles (player w))))) (ident e)
             @ pushes (near 10 (position (Enemy_move (position (player w)) e))
                         (position (player w))) (ident e)
         \<and> queued_entities_for_removal (snd (Projectile_update d q w)) =
             queued_entities_for_removal w
             @ pushes (py (projectile (Projectile_move q)) < 0) (ident q)
             @ replicate (length (filter (near 8 (projectile (Projectile_move q)))
                                    (present (enemies (player w))))) (ident q)
         \<and> health (player (snd (Enemy_update d e w))) < 0
         \<and> health (player (snd (Projectile_update d q w))) < 0
         \<and> (\<not> restarts rnd d w \<longrightarrow>
               health (player (update rnd d w)) < 0 \<and> isDead (player (update rnd d w))))"
proof -
  have two: "health (player (snd (Enemy_update d e2 (snd (Enemy_update d e1 w))))) =
      health (player w) - 50"
    if "near 10 (position (Enemy_move (position (player w)) e1)) (position (player w)) \<and>
        near 10 (position (Enemy_move (position (player w)) e2)) (position (player w))"
    using that by (simp add: health_Enemy_update)
  have neg: "health (player (update rnd d w)) < 0 \<and> isDead (player (update rnd d w))"
    if "health (player w) < 0" "\<not> restarts rnd d w"
    using health_step_le [OF that(2)] that(1) by (simp add: isDead_def)
  have dead: "remove_if_player_dead i w = w" if "health (player w) < 0"
    using that by (simp add: remove_if_player_dead_def)
  from two neg dead show ?thesis
    by (simp add: health_Enemy_update crowded_step world_crowded_fields Player_fields_def
        isDead_def queue_Enemy_update queue_Projectile_update pushes_def)
qed

text \<open>
  The world one step after the two enemies have taken the health from 25 to -25: the
  player is dead, the enemy 4 is still in the registry, two more overlapping enemies
  would take the health to -75, and the next step leaves the player dead.
\<close>

theorem negative_health_witness:
  "health (player (update rnd_half update_rate_seconds world_crowded)) = - 25
   \<and> isDead (player (update rnd_half update_rate_seconds world_crowded))
   \<and> 4 \<in> set (entities (update rnd_half update_rate_seconds world_crowded))
   \<and> near 10 (position (Enemy_move
         (position (player (update rnd_half update_rate_seconds world_crowded))) enemy_near_a))
       (position (player (update rnd_half update_rate_seconds world_crowded)))
   \<and> near 10 (position (Enemy_move
         (position (player (update rnd_half update_rate_seconds world_crowded))) enemy_near_b))
       (position (player (update rnd_half update_rate_seconds world_crowded)))
   \<and> health (player (snd (Enemy_update update_rate_seconds enemy_near_b
         (snd (Enemy_update update_rate_seconds enemy_near_a
            (update rnd_half update_rate_seconds world_crowded)))))) = - 75
   \<and> remove_if_player_dead 4 (update rnd_half update_rate_seconds world_crowded) =
       update rnd_half update_rate_seconds world_crowded
   \<and> \<not> restarts rnd_half update_rate_seconds
         (update rnd_half update_rate_seconds world_crowded)
   \<and> health (player (update rnd_half update_rate_seconds
         (update rnd_half update_rate_seconds world_crowded))) < 0
   \<and> isDead (player (update rnd_half update_rate_seconds
         (update rnd_half update_rate_seconds world_crowded)))"
proof -
  let ?u = "update rnd_half update_rate_seconds world_crowded"
  note c = crowded_step [of update_rate_seconds]
  have nr: "\<not> restarts rnd_half update_rate_seconds ?u"
    by (rule quiet_no_restart) (simp add: c)
  have n: "near 10 (position (Enemy_move (position (player ?u)) enemy_near_a))
      (position (player ?u))"
    "near 10 (position (Enemy_move (position (player ?u)) enemy_near_b))
      (position (player ?u))"
    by (simp_all add: c crowded_hits near_def)
  from negative_health [of update_rate_seconds enemy_far ?u enemy_near_a enemy_near_b
      4 "Projectile_fields 9 \<lparr> px = 180, py = 300 \<rparr>" rnd_half] nr n c(1,2)
  show ?thesis
    by simp
qed

end
